theory Spec2Isabelle
  imports Complex_Main
begin

section \<open>RetryExecutor: \<open>BackpackFuturesService.executeWithRetry\<close>\<close>

text \<open>
  Source: \<open>src/services/backpackFuturesService.js\<close>, \<open>executeWithRetry(apiCall, maxRetries = 3)\<close>.

  The operation \<open>apiCall\<close> is an effectful asynchronous function. It is modelled as a
  transformer of the outside world \<open>'s\<close> that either throws (\<open>Inl e\<close>) or returns
  (\<open>Inr v\<close>). What the executor does is recorded as a trace of events: \<open>Invoke\<close> for
  one call of the operation, \<open>Wait ms\<close> for one \<open>setTimeout\<close> sleep of \<open>ms\<close>
  milliseconds. The local variable \<open>lastError\<close> starts out \<open>undefined\<close>, which is
  \<open>None\<close>; the value thrown by the executor is therefore an \<open>'e option\<close>.
  \<open>maxRetries\<close> is a JavaScript number used as a count; it is modelled as an \<open>int\<close>,
  so that zero and negative counts are inputs of the model. The loop
  \<open>for (attempt = 0; attempt < maxRetries; attempt++)\<close> is the recursion on \<open>attempt\<close>;
  it terminates because \<open>maxRetries - attempt\<close> decreases.
\<close>

datatype retry_event = Invoke | Wait nat

type_synonym ('s, 'e, 'a) api_call = "'s \<Rightarrow> ('e + 'a) \<times> 's"

function executeWithRetry_loop ::
  "('s, 'e, 'a) api_call \<Rightarrow> int \<Rightarrow> int \<Rightarrow> 'e option \<Rightarrow> 's \<Rightarrow> retry_event list
     \<Rightarrow> ('e option + 'a) \<times> 's \<times> retry_event list" where
  "executeWithRetry_loop apiCall maxRetries attempt lastError s tr =
     (if attempt < maxRetries then
        (case apiCall s of
           (Inr v, s') \<Rightarrow> (Inr v, s', tr @ [Invoke])
         | (Inl e, s') \<Rightarrow>
             (if attempt < maxRetries - 1
              then executeWithRetry_loop apiCall maxRetries (attempt + 1) (Some e) s'
                     (tr @ [Invoke, Wait (2 ^ nat attempt * 500)])
              else executeWithRetry_loop apiCall maxRetries (attempt + 1) (Some e) s'
                     (tr @ [Invoke])))
      else (Inl lastError, s, tr))"
  by pat_completeness auto
termination
  by (relation "measure (\<lambda>(apiCall, maxRetries, attempt, lastError, s, tr). nat (maxRetries - attempt))") auto

definition executeWithRetry ::
  "('s, 'e, 'a) api_call \<Rightarrow> int \<Rightarrow> 's \<Rightarrow> ('e option + 'a) \<times> 's \<times> retry_event list" where
  "executeWithRetry apiCall maxRetries s = executeWithRetry_loop apiCall maxRetries 0 None s []"

text \<open>
  Vocabulary for the statements: the world after \<open>k\<close> invocations of the operation, the
  result of invocation number \<open>k\<close> (counted from 0), the value the executor hands to
  its caller for such a result, and the trace of a run that stops after \<open>m\<close> invocations
  when the first of them is attempt number \<open>j\<close>: every invocation but the last is
  followed by a wait of \<open>2 ^ attempt * 500\<close> ms.
\<close>

definition state_after :: "('s, 'e, 'a) api_call \<Rightarrow> 's \<Rightarrow> nat \<Rightarrow> 's" where
  "state_after apiCall s k = ((\<lambda>t. snd (apiCall t)) ^^ k) s"

definition nth_result :: "('s, 'e, 'a) api_call \<Rightarrow> 's \<Rightarrow> nat \<Rightarrow> 'e + 'a" where
  "nth_result apiCall s k = fst (apiCall (state_after apiCall s k))"

definition thrown_or_returned :: "'e + 'a \<Rightarrow> 'e option + 'a" where
  "thrown_or_returned r = (case r of Inl e \<Rightarrow> Inl (Some e) | Inr v \<Rightarrow> Inr v)"

definition retry_trace_from :: "nat \<Rightarrow> nat \<Rightarrow> retry_event list" where
  "retry_trace_from j m = concat (map (\<lambda>k. [Invoke, Wait (2 ^ k * 500)]) [j..<j + m - 1]) @ [Invoke]"

text \<open>A sample operation: the world is a call counter; the first two calls throw.\<close>

definition flaky_call :: "(nat, nat, nat) api_call" where
  "flaky_call c = (if c < 2 then Inl c else Inr 42, c + 1)"

lemma state_after_Suc: "state_after apiCall s (Suc k) = state_after apiCall (snd (apiCall s)) k"
  unfolding state_after_def by (simp only: funpow_Suc_right o_apply)

lemma nth_result_Suc: "nth_result apiCall s (Suc k) = nth_result apiCall (snd (apiCall s)) k"
  by (simp add: nth_result_def state_after_Suc)

lemma retry_trace_from_Suc:
  "1 \<le> m \<Longrightarrow> retry_trace_from j (Suc m) = [Invoke, Wait (2 ^ j * 500)] @ retry_trace_from (Suc j) m"
  by (simp add: retry_trace_from_def upt_conv_Cons)

lemma loop_exhausted:
  "maxRetries \<le> attempt \<Longrightarrow>
   executeWithRetry_loop apiCall maxRetries attempt lastError s tr = (Inl lastError, s, tr)"
  by simp

lemma loop_shape:
  "int j < n \<Longrightarrow>
   \<exists>m. 1 \<le> m \<and> int (j + m) \<le> n \<and>
       (\<forall>k. k < m - 1 \<longrightarrow> isl (nth_result apiCall s k)) \<and>
       (isl (nth_result apiCall s (m - 1)) \<longrightarrow> int (j + m) = n) \<and>
       executeWithRetry_loop apiCall n (int j) lastError s tr =
         (thrown_or_returned (nth_result apiCall s (m - 1)), state_after apiCall s m,
          tr @ retry_trace_from j m)"
proof (induction "nat n - j" arbitrary: j s lastError tr)
  case 0
  then show ?case by simp
next
  case (Suc d)
  obtain r s' where call: "apiCall s = (r, s')" by (cases "apiCall s")
  have r0: "nth_result apiCall s 0 = r" and s1: "state_after apiCall s 1 = s'"
    using call by (simp_all add: nth_result_def state_after_def)
  show ?case
  proof (cases r)
    case (Inr v)
    have "executeWithRetry_loop apiCall n (int j) lastError s tr = (Inr v, s', tr @ [Invoke])"
      using Suc.prems call Inr by simp
    then show ?thesis
      using Suc.prems r0 s1 Inr
      by (intro exI[of _ 1]) (simp add: thrown_or_returned_def retry_trace_from_def)
  next
    case (Inl e)
    show ?thesis
    proof (cases "int j < n - 1")
      case False
      then have jn: "int j + 1 = n" using Suc.prems by simp
      have "executeWithRetry_loop apiCall n (int j) lastError s tr = (Inl (Some e), s', tr @ [Invoke])"
        using Suc.prems call Inl False jn by simp
      then show ?thesis
        using Suc.prems r0 s1 Inl jn
        by (intro exI[of _ 1]) (simp add: thrown_or_returned_def retry_trace_from_def)
    next
      case True
      then have lt: "int (Suc j) < n" by simp
      have d: "d = nat n - Suc j" using Suc.hyps(2) by simp
      from Suc.hyps(1)[OF d lt, of s' "Some e" "tr @ [Invoke, Wait (2 ^ j * 500)]"]
      obtain m where m: "1 \<le> m" "int (Suc j + m) \<le> n"
        "\<forall>k. k < m - 1 \<longrightarrow> isl (nth_result apiCall s' k)"
        "isl (nth_result apiCall s' (m - 1)) \<longrightarrow> int (Suc j + m) = n"
        "executeWithRetry_loop apiCall n (int (Suc j)) (Some e) s' (tr @ [Invoke, Wait (2 ^ j * 500)]) =
           (thrown_or_returned (nth_result apiCall s' (m - 1)), state_after apiCall s' m,
            (tr @ [Invoke, Wait (2 ^ j * 500)]) @ retry_trace_from (Suc j) m)"
        by blast
      have step: "executeWithRetry_loop apiCall n (int j) lastError s tr =
          executeWithRetry_loop apiCall n (int (Suc j)) (Some e) s' (tr @ [Invoke, Wait (2 ^ j * 500)])"
        using Suc.prems call Inl True by (simp add: add.commute)
      have snd_call: "snd (apiCall s) = s'" using call by simp
      have res: "\<And>k. nth_result apiCall s (Suc k) = nth_result apiCall s' k"
        by (simp add: nth_result_Suc snd_call)
      have sta: "state_after apiCall s (Suc m) = state_after apiCall s' m"
        by (simp add: state_after_Suc snd_call)
      have fails: "\<forall>k. k < Suc m - 1 \<longrightarrow> isl (nth_result apiCall s k)"
      proof (intro allI impI)
        fix k assume "k < Suc m - 1"
        then show "isl (nth_result apiCall s k)"
          using m(3) r0 Inl res by (cases k) auto
      qed
      have lastm: "nth_result apiCall s (Suc m - 1) = nth_result apiCall s' (m - 1)"
        using m(1) res[of "m - 1"] by simp
      show ?thesis
        using m(1,2,4,5) step fails sta lastm retry_trace_from_Suc[OF m(1), of j]
        by (intro exI[of _ "Suc m"]) simp
    qed
  qed
qed

lemma flaky_call_run:
  "executeWithRetry flaky_call 3 0 = (Inr 42, 3, [Invoke, Wait 500, Invoke, Wait 1000, Invoke])"
  by (simp add: executeWithRetry_def flaky_call_def)

lemma flaky_call_exhausted:
  "executeWithRetry flaky_call 2 0 = (Inl (Some 1), 2, [Invoke, Wait 500, Invoke])"
  by (simp add: executeWithRetry_def flaky_call_def)

text \<open>
  Claim C3. For every operation and every \<open>maxRetries = n \<ge> 1\<close> the run of the executor
  consists of \<open>m\<close> invocations with \<open>1 \<le> m \<le> n\<close>. The first \<open>m - 1\<close> of them throw,
  and each of those is followed by a wait of \<open>500 * 2 ^ attempt\<close> ms; the last invocation
  is the last event of the trace (no wait and no invocation follows it). If the last
  invocation returns, the executor returns that value; if it throws, all \<open>n\<close> attempts
  were used and the executor throws exactly that error.
\<close>

theorem executeWithRetry_bounded_backoff:
  assumes "1 \<le> n"
  shows "\<exists>m. 1 \<le> m \<and> int m \<le> n \<and>
       (\<forall>k. k < m - 1 \<longrightarrow> isl (nth_result apiCall s k)) \<and>
       (isl (nth_result apiCall s (m - 1)) \<longrightarrow> int m = n) \<and>
       executeWithRetry apiCall n s =
         (thrown_or_returned (nth_result apiCall s (m - 1)), state_after apiCall s m,
          retry_trace_from 0 m)"
  using loop_shape[of 0 n apiCall s None "[]"] assms
  by (simp add: executeWithRetry_def)

theorem executeWithRetry_bounded_backoff_witness:
  "(1::int) \<le> 3 \<and>
   (\<exists>m. 1 \<le> m \<and> int m \<le> 3 \<and>
      executeWithRetry flaky_call 3 0 =
        (thrown_or_returned (nth_result flaky_call 0 (m - 1)), state_after flaky_call 0 m,
         retry_trace_from 0 m))"
proof -
  have h: "(1::int) \<le> 3" by simp
  from executeWithRetry_bounded_backoff[OF h, of flaky_call 0]
  show ?thesis using h by blast
qed

text \<open>
  Claim C10. With \<open>maxRetries \<le> 0\<close> the loop body never runs: the operation is not
  invoked, the world is untouched, nothing is waited for, and the executor throws the
  still uninitialised \<open>lastError\<close>, that is \<open>undefined\<close> (\<open>None\<close>), not an error object.
\<close>

theorem executeWithRetry_nonpositive:
  "maxRetries \<le> 0 \<Longrightarrow> executeWithRetry apiCall maxRetries s = (Inl None, s, [])"
  by (simp add: executeWithRetry_def)

theorem executeWithRetry_nonpositive_witness:
  "(0::int) \<le> 0 \<and> executeWithRetry flaky_call 0 0 = (Inl None, 0, [])"
  using executeWithRetry_nonpositive[of 0 flaky_call 0] by simp

section \<open>OrderLadderPlanner: \<open>FuturesTradingStrategy.calculateShortOrders\<close>\<close>

text \<open>
  Source: \<open>src/core/futuresTradingStrategy.js\<close>, \<open>calculateFuturesOrders\<close> (lines 34-100)
  and \<open>calculateShortOrders\<close> (lines 114-186).

  JavaScript numbers are modelled as exact reals. Two things are outside the model.
  Rounding of binary floating point: the code computes \<open>price * (orderAmount / price)\<close>
  in doubles, where the product can exceed \<open>orderAmount\<close> in the last place (for
  instance \<open>101 * (52.38095238095239 / 101) = 52.380952380952394\<close>), so what is
  proved below about amounts is proved about the formulas, and an inequality between
  amounts that holds with equality there can fail by a rounding error in the code. The
  prices of the rungs and the structure of the returned list do not depend on it.
  Non-finite values: a division with a zero divisor gives \<open>Infinity\<close> or \<open>NaN\<close> in
  JavaScript, and in each such run of the planner that value reaches one of the two
  \<open>Formatter\<close> helpers, whose code is missing; such a run is reported as \<open>None\<close>, every
  other run is \<open>Some\<close> of the returned order list.

  The two rounding helpers \<open>Formatter.adjustPriceToTickSize\<close> and
  \<open>Formatter.adjustQuantityToStepSize\<close> live in \<open>utils/formatter.js\<close>, which is not
  part of the sources at hand. The planner takes them as parameters (for a fixed trading
  coin and configuration each is a function from numbers to numbers).
\<close>

record order =
  price :: real
  quantity :: real
  amount :: real
  side :: string
  positionSide :: string

type_synonym formatter = "real \<Rightarrow> real"

text \<open>
  Modelled from the spec: \<open>Formatter.adjustQuantityToStepSize\<close> and
  \<open>Formatter.adjustPriceToTickSize\<close> (utils/formatter.js is missing). The spec says the
  quantity is "rounded to the venue's quantity step"; \<open>floor_to_step\<close> rounds down to a
  multiple of the step. It is used only to instantiate the parameters at concrete inputs.
\<close>

definition floor_to_step :: "real \<Rightarrow> formatter" where
  "floor_to_step step x = of_int \<lfloor>x / step\<rfloor> * step"

text \<open>
  Sizing, lines 130-143: \<open>r = 1 + incrementPercentage / 100\<close>, the closed form of the
  base amount, its clamp \<open>Math.max(minOrderAmount, calculatedBaseAmount)\<close>, the loop that
  accumulates \<open>actualTotalAmount\<close>, and the scale factor.
\<close>

definition increment_ratio :: "real \<Rightarrow> real" where
  "increment_ratio incrementPercentage = 1 + incrementPercentage / 100"

definition calculatedBaseAmount :: "real \<Rightarrow> nat \<Rightarrow> real \<Rightarrow> real" where
  "calculatedBaseAmount totalAmount orderCount incrementPercentage =
     (let r = increment_ratio incrementPercentage
      in totalAmount * (r - 1) / (r ^ orderCount - 1))"

definition baseAmount :: "real \<Rightarrow> nat \<Rightarrow> real \<Rightarrow> real \<Rightarrow> real" where
  "baseAmount totalAmount orderCount incrementPercentage minOrderAmount =
     max minOrderAmount (calculatedBaseAmount totalAmount orderCount incrementPercentage)"

fun actualTotalAmount_loop :: "real \<Rightarrow> real \<Rightarrow> nat \<Rightarrow> nat \<Rightarrow> real \<Rightarrow> real" where
  "actualTotalAmount_loop base r i 0 acc = acc"
| "actualTotalAmount_loop base r i (Suc k) acc = actualTotalAmount_loop base r (Suc i) k (acc + base * r ^ i)"

definition actualTotalAmount :: "real \<Rightarrow> nat \<Rightarrow> real \<Rightarrow> real \<Rightarrow> real" where
  "actualTotalAmount totalAmount orderCount incrementPercentage minOrderAmount =
     actualTotalAmount_loop (baseAmount totalAmount orderCount incrementPercentage minOrderAmount)
       (increment_ratio incrementPercentage) 0 orderCount 0"

definition orderScale :: "real \<Rightarrow> nat \<Rightarrow> real \<Rightarrow> real \<Rightarrow> real" where
  "orderScale totalAmount orderCount incrementPercentage minOrderAmount =
     (let actual = actualTotalAmount totalAmount orderCount incrementPercentage minOrderAmount
      in if actual > totalAmount then totalAmount / actual else 1)"

text \<open>
  Pricing, lines 127-128 and 148: \<open>priceStep\<close> and the raw price of rung \<open>i\<close>.
\<close>

definition shortPriceStep :: "real \<Rightarrow> real \<Rightarrow> nat \<Rightarrow> real" where
  "shortPriceStep currentPrice maxRisePercentage orderCount =
     (let highestPrice = currentPrice * (1 + maxRisePercentage / 100)
      in (highestPrice - currentPrice) / (real orderCount - 1))"

definition shortRawPrice :: "real \<Rightarrow> real \<Rightarrow> nat \<Rightarrow> nat \<Rightarrow> real" where
  "shortRawPrice currentPrice maxRisePercentage orderCount i =
     currentPrice + shortPriceStep currentPrice maxRisePercentage orderCount * real i"

text \<open>
  The body of the order loop, lines 146-177: the tick-adjusted price, the planned amount
  \<open>baseAmount * r ^ i * scale\<close>, the step-adjusted quantity, the actual amount
  \<open>price * quantity\<close>, and the test \<open>actualAmount >= minOrderAmount\<close> that decides
  whether the rung is pushed. The constant fields of the order are \<open>side = 'Ask'\<close> and
  \<open>positionSide = 'SHORT'\<close>.
\<close>

definition orderAmount :: "real \<Rightarrow> nat \<Rightarrow> real \<Rightarrow> real \<Rightarrow> nat \<Rightarrow> real" where
  "orderAmount totalAmount orderCount incrementPercentage minOrderAmount i =
     baseAmount totalAmount orderCount incrementPercentage minOrderAmount
       * increment_ratio incrementPercentage ^ i
       * orderScale totalAmount orderCount incrementPercentage minOrderAmount"

definition shortRungPrice :: "formatter \<Rightarrow> real \<Rightarrow> real \<Rightarrow> nat \<Rightarrow> nat \<Rightarrow> real" where
  "shortRungPrice adjustPriceToTickSize currentPrice maxRisePercentage orderCount i =
     adjustPriceToTickSize (shortRawPrice currentPrice maxRisePercentage orderCount i)"

definition shortRungQuantity ::
  "formatter \<Rightarrow> formatter \<Rightarrow> real \<Rightarrow> real \<Rightarrow> real \<Rightarrow> nat \<Rightarrow> real \<Rightarrow> real \<Rightarrow> nat \<Rightarrow> real" where
  "shortRungQuantity adjustPriceToTickSize adjustQuantityToStepSize
       currentPrice maxRisePercentage totalAmount orderCount incrementPercentage minOrderAmount i =
     adjustQuantityToStepSize
       (orderAmount totalAmount orderCount incrementPercentage minOrderAmount i
          / shortRungPrice adjustPriceToTickSize currentPrice maxRisePercentage orderCount i)"

definition shortRungAmount ::
  "formatter \<Rightarrow> formatter \<Rightarrow> real \<Rightarrow> real \<Rightarrow> real \<Rightarrow> nat \<Rightarrow> real \<Rightarrow> real \<Rightarrow> nat \<Rightarrow> real" where
  "shortRungAmount adjustPriceToTickSize adjustQuantityToStepSize
       currentPrice maxRisePercentage totalAmount orderCount incrementPercentage minOrderAmount i =
     shortRungPrice adjustPriceToTickSize currentPrice maxRisePercentage orderCount i
       * shortRungQuantity adjustPriceToTickSize adjustQuantityToStepSize
           currentPrice maxRisePercentage totalAmount orderCount incrementPercentage minOrderAmount i"

definition shortRung ::
  "formatter \<Rightarrow> formatter \<Rightarrow> real \<Rightarrow> real \<Rightarrow> real \<Rightarrow> nat \<Rightarrow> real \<Rightarrow> real \<Rightarrow> nat \<Rightarrow> order list" where
  "shortRung adjustPriceToTickSize adjustQuantityToStepSize
       currentPrice maxRisePercentage totalAmount orderCount incrementPercentage minOrderAmount i =
     (let p = shortRungPrice adjustPriceToTickSize currentPrice maxRisePercentage orderCount i;
          q = shortRungQuantity adjustPriceToTickSize adjustQuantityToStepSize
                currentPrice maxRisePercentage totalAmount orderCount incrementPercentage minOrderAmount i;
          actualAmount = shortRungAmount adjustPriceToTickSize adjustQuantityToStepSize
                currentPrice maxRisePercentage totalAmount orderCount incrementPercentage minOrderAmount i
      in if actualAmount \<ge> minOrderAmount
         then [\<lparr>price = p, quantity = q, amount = actualAmount, side = ''Ask'', positionSide = ''SHORT''\<rparr>]
         else [])"

fun shortOrders_loop ::
  "formatter \<Rightarrow> formatter \<Rightarrow> real \<Rightarrow> real \<Rightarrow> real \<Rightarrow> nat \<Rightarrow> real \<Rightarrow> real \<Rightarrow> nat \<Rightarrow> nat \<Rightarrow> order list \<Rightarrow> order list" where
  "shortOrders_loop aP aQ cp mr ta n inc mn i 0 orders = orders"
| "shortOrders_loop aP aQ cp mr ta n inc mn i (Suc k) orders =
     shortOrders_loop aP aQ cp mr ta n inc mn (Suc i) k (orders @ shortRung aP aQ cp mr ta n inc mn i)"

text \<open>
  The divisors of the function: \<open>orderCount - 1\<close> (line 128), \<open>r ^ orderCount - 1\<close>
  (line 132), \<open>actualTotalAmount\<close> when the scale is computed (line 143) and the price of
  each rung (line 156).
\<close>

definition short_zero_divisor ::
  "formatter \<Rightarrow> real \<Rightarrow> real \<Rightarrow> real \<Rightarrow> nat \<Rightarrow> real \<Rightarrow> real \<Rightarrow> bool" where
  "short_zero_divisor adjustPriceToTickSize currentPrice maxRisePercentage totalAmount orderCount
       incrementPercentage minOrderAmount =
     (real orderCount - 1 = 0
      \<or> increment_ratio incrementPercentage ^ orderCount - 1 = 0
      \<or> (actualTotalAmount totalAmount orderCount incrementPercentage minOrderAmount > totalAmount
           \<and> actualTotalAmount totalAmount orderCount incrementPercentage minOrderAmount = 0)
      \<or> list_ex (\<lambda>i. shortRungPrice adjustPriceToTickSize currentPrice maxRisePercentage orderCount i = 0)
            [0..<orderCount])"

definition calculateShortOrders ::
  "formatter \<Rightarrow> formatter \<Rightarrow> real \<Rightarrow> real \<Rightarrow> real \<Rightarrow> nat \<Rightarrow> real \<Rightarrow> real \<Rightarrow> order list option" where
  "calculateShortOrders adjustPriceToTickSize adjustQuantityToStepSize
       currentPrice maxRisePercentage totalAmount orderCount incrementPercentage minOrderAmount =
     (if orderCount = 0 then Some []
      else if short_zero_divisor adjustPriceToTickSize currentPrice maxRisePercentage totalAmount
                orderCount incrementPercentage minOrderAmount
      then None
      else Some (shortOrders_loop adjustPriceToTickSize adjustQuantityToStepSize
                   currentPrice maxRisePercentage totalAmount orderCount incrementPercentage
                   minOrderAmount 0 orderCount []))"

text \<open>
  \<open>calculateFuturesOrders\<close>, lines 44-56: the price step for either side. For the short
  side the orders come from \<open>calculateShortOrders\<close> above; for the long side they come
  from \<open>super.calculateIncrementalOrders\<close> of \<open>core/tradingStrategy.js\<close>, which is
  missing.
\<close>

definition calculateFuturesOrders_priceStep :: "bool \<Rightarrow> real \<Rightarrow> real \<Rightarrow> nat \<Rightarrow> real" where
  "calculateFuturesOrders_priceStep isLong currentPrice maxDropPercentage orderCount =
     (if isLong
      then (let lowestPrice = currentPrice * (1 - maxDropPercentage / 100)
            in (currentPrice - lowestPrice) / (real orderCount - 1))
      else (let highestPrice = currentPrice * (1 + maxDropPercentage / 100)
            in (highestPrice - currentPrice) / (real orderCount - 1)))"

text \<open>
  Modelled from the spec: the rung prices of \<open>TradingStrategy.calculateIncrementalOrders\<close>
  (core/tradingStrategy.js is missing). The spec says: "rungs are evenly spaced from
  currentPrice to currentPrice * (1 - maxMovePercent/100)" for the long side; rung \<open>i\<close>
  is priced \<open>i\<close> steps below the current price, with the step that
  \<open>calculateFuturesOrders\<close> computes for the long side.
\<close>

definition longRawPrice :: "real \<Rightarrow> real \<Rightarrow> nat \<Rightarrow> nat \<Rightarrow> real" where
  "longRawPrice currentPrice maxDropPercentage orderCount i =
     currentPrice - calculateFuturesOrders_priceStep True currentPrice maxDropPercentage orderCount * real i"

lemma actualTotalAmount_loop_sum:
  "actualTotalAmount_loop base r i k acc = acc + (\<Sum>j<k. base * r ^ (i + j))"
proof (induction k arbitrary: i acc)
  case 0
  show ?case by simp
next
  case (Suc k)
  have "(\<Sum>j<Suc k. base * r ^ (i + j)) = base * r ^ i + (\<Sum>j<k. base * r ^ (Suc i + j))"
    by (subst sum.lessThan_Suc_shift) simp
  then show ?case by (simp add: Suc.IH)
qed

lemma actualTotalAmount_sum:
  "actualTotalAmount ta n inc mn = (\<Sum>j<n. baseAmount ta n inc mn * increment_ratio inc ^ j)"
  by (simp add: actualTotalAmount_def actualTotalAmount_loop_sum)

lemma orderAmount_sum:
  "(\<Sum>i<n. orderAmount ta n inc mn i) = actualTotalAmount ta n inc mn * orderScale ta n inc mn"
  by (simp add: orderAmount_def actualTotalAmount_sum sum_distrib_right)

lemma shortOrders_loop_concat:
  "shortOrders_loop aP aQ cp mr ta n inc mn i k orders =
     orders @ concat (map (shortRung aP aQ cp mr ta n inc mn) [i..<i + k])"
proof (induction k arbitrary: i orders)
  case 0
  show ?case by simp
next
  case (Suc k)
  have "[i..<i + Suc k] = i # [Suc i..<Suc i + k]" by (simp add: upt_conv_Cons)
  then show ?case by (simp add: Suc.IH)
qed

lemma amounts_of_rungs:
  "map amount (concat (map (shortRung aP aQ cp mr ta n inc mn) is)) =
     filter (\<lambda>a. mn \<le> a) (map (shortRungAmount aP aQ cp mr ta n inc mn) is)"
  by (induction "is") (simp_all add: shortRung_def)

lemma filtered_sum_le:
  fixes f g :: "nat \<Rightarrow> real"
  assumes "\<And>i. i \<in> set is \<Longrightarrow> f i \<le> g i" and "\<And>i. i \<in> set is \<Longrightarrow> 0 \<le> g i"
  shows "sum_list (filter (\<lambda>a. mn \<le> a) (map f is)) \<le> sum_list (map g is)"
  using assms
proof (induction "is")
  case Nil
  show ?case by simp
next
  case (Cons i "is")
  have ih: "sum_list (filter (\<lambda>a. mn \<le> a) (map f is)) \<le> sum_list (map g is)"
    using Cons by simp
  have "f i \<le> g i" "0 \<le> g i" using Cons.prems by simp_all
  then show ?case using ih by simp
qed

lemma increment_ratio_gt1: "0 < inc \<Longrightarrow> 1 < increment_ratio inc"
  by (simp add: increment_ratio_def)

lemma baseAmount_ge_min: "mn \<le> baseAmount ta n inc mn"
  by (simp add: baseAmount_def)

lemma actualTotalAmount_pos:
  assumes "0 < inc" "0 < mn" "1 \<le> n"
  shows "0 < actualTotalAmount ta n inc mn"
proof -
  have b: "0 < baseAmount ta n inc mn" using baseAmount_ge_min[of mn ta n inc] assms(2) by linarith
  have r: "0 < increment_ratio inc" using increment_ratio_gt1[OF assms(1)] by linarith
  have "0 < (\<Sum>j<n. baseAmount ta n inc mn * increment_ratio inc ^ j)"
  proof (intro sum_pos)
    show "{..<n} \<noteq> {}" using assms(3) by (auto simp: lessThan_empty_iff)
  qed (use b r in simp_all)
  then show ?thesis by (simp add: actualTotalAmount_sum)
qed

lemma orderScale_bounds:
  assumes "0 < inc" "0 < mn" "1 \<le> n" "0 < ta"
  shows "0 < orderScale ta n inc mn" and "orderScale ta n inc mn \<le> 1"
    and "actualTotalAmount ta n inc mn * orderScale ta n inc mn = min ta (actualTotalAmount ta n inc mn)"
    and "orderScale ta n inc mn = 1 \<longleftrightarrow> actualTotalAmount ta n inc mn \<le> ta"
proof -
  have A: "0 < actualTotalAmount ta n inc mn" using actualTotalAmount_pos assms by blast
  show "0 < orderScale ta n inc mn" using A assms(4) by (simp add: orderScale_def Let_def)
  show "orderScale ta n inc mn \<le> 1" using A assms(4) by (simp add: orderScale_def Let_def)
  show "actualTotalAmount ta n inc mn * orderScale ta n inc mn = min ta (actualTotalAmount ta n inc mn)"
    using A by (simp add: orderScale_def Let_def)
  show "orderScale ta n inc mn = 1 \<longleftrightarrow> actualTotalAmount ta n inc mn \<le> ta"
    using A assms(4) by (auto simp add: orderScale_def Let_def)
qed

lemma orderAmount_nonneg:
  assumes "0 < inc" "0 < mn" "1 \<le> n" "0 < ta"
  shows "0 \<le> orderAmount ta n inc mn i"
proof -
  have b: "0 \<le> baseAmount ta n inc mn" using baseAmount_ge_min[of mn ta n inc] assms(2) by linarith
  have r: "0 \<le> increment_ratio inc ^ i" using increment_ratio_gt1[OF assms(1)] by simp
  have s: "0 \<le> orderScale ta n inc mn" using orderScale_bounds(1)[OF assms] by linarith
  show ?thesis unfolding orderAmount_def using b r s by (intro mult_nonneg_nonneg)
qed

lemma shortRawPrice_pos:
  assumes "0 < cp" "0 \<le> mr" "2 \<le> n"
  shows "0 < shortRawPrice cp mr n i"
proof -
  have "0 \<le> cp * (1 + mr / 100) - cp" using assms(1,2) by (simp add: algebra_simps)
  moreover have "0 < real n - 1" using assms(3) by simp
  ultimately have "0 \<le> shortPriceStep cp mr n" by (simp add: shortPriceStep_def Let_def)
  then have "0 \<le> shortPriceStep cp mr n * real i" by simp
  then show ?thesis using assms(1) by (simp add: shortRawPrice_def)
qed

lemma shortRungAmount_le:
  assumes "0 < shortRungPrice aP cp mr n i" and "\<And>q. aQ q \<le> q"
  shows "shortRungAmount aP aQ cp mr ta n inc mn i \<le> orderAmount ta n inc mn i"
proof -
  let ?p = "shortRungPrice aP cp mr n i" and ?a = "orderAmount ta n inc mn i"
  have "?p * aQ (?a / ?p) \<le> ?p * (?a / ?p)"
    using assms by (intro mult_left_mono) simp_all
  also have "\<dots> = ?a" using assms(1) by simp
  finally show ?thesis by (simp add: shortRungAmount_def shortRungQuantity_def)
qed

text \<open>
  The amounts in exact arithmetic. For a valid planner input (positive current price,
  total amount and minimum order amount, at least two rungs, positive increment percent),
  a tick adjustment that leaves every rung price positive and a quantity adjustment that
  never rounds up, the short ladder is returned and: the returned amounts sum to at most
  \<open>totalAmount\<close>; every returned amount is at least \<open>minOrderAmount\<close>; the returned
  amounts are exactly the rung amounts that pass the test, in rung order (a failing rung
  is dropped, not resized); the base amount is
  \<open>totalAmount * (r - 1) / (r ^ orderCount - 1)\<close> clamped up to \<open>minOrderAmount\<close>; the
  scale lies in \<open>(0, 1]\<close> and is 1 exactly when the achieved sum does not exceed
  \<open>totalAmount\<close>; the planned amounts sum to the smaller of \<open>totalAmount\<close> and the
  achieved sum. The bound on the sum rests on \<open>price * (orderAmount / price) = orderAmount\<close>,
  which doubles do not satisfy: with the adjustments leaving their arguments unchanged,
  the code returns for \<open>(100, 1, 100, 2, 10, 1)\<close> the amounts 47.61904761904762 and
  52.380952380952394, whose sum is above 100. So this is a property of the formulas and
  not of the numbers the code returns.
\<close>

lemma exact_arithmetic_within_budget:
  assumes "0 < currentPrice" and "0 < totalAmount"
    and "0 < minOrderAmount" and "2 \<le> orderCount" and "0 < incrementPercentage"
    and adjP: "\<And>i. i < orderCount \<Longrightarrow>
                 0 < shortRungPrice adjustPriceToTickSize currentPrice maxRisePercentage orderCount i"
    and adjQ: "\<And>q. adjustQuantityToStepSize q \<le> q"
  shows "\<exists>orders.
      calculateShortOrders adjustPriceToTickSize adjustQuantityToStepSize currentPrice
          maxRisePercentage totalAmount orderCount incrementPercentage minOrderAmount = Some orders
    \<and> sum_list (map amount orders) \<le> totalAmount
    \<and> (\<forall>ord \<in> set orders. minOrderAmount \<le> amount ord)
    \<and> map amount orders =
        filter (\<lambda>a. minOrderAmount \<le> a)
          (map (shortRungAmount adjustPriceToTickSize adjustQuantityToStepSize currentPrice
                  maxRisePercentage totalAmount orderCount incrementPercentage minOrderAmount)
             [0..<orderCount])
    \<and> baseAmount totalAmount orderCount incrementPercentage minOrderAmount =
        max minOrderAmount
          (totalAmount * ((1 + incrementPercentage / 100) - 1)
             / ((1 + incrementPercentage / 100) ^ orderCount - 1))
    \<and> 0 < orderScale totalAmount orderCount incrementPercentage minOrderAmount
    \<and> orderScale totalAmount orderCount incrementPercentage minOrderAmount \<le> 1
    \<and> (orderScale totalAmount orderCount incrementPercentage minOrderAmount = 1
         \<longleftrightarrow> actualTotalAmount totalAmount orderCount incrementPercentage minOrderAmount \<le> totalAmount)
    \<and> (\<Sum>i<orderCount. orderAmount totalAmount orderCount incrementPercentage minOrderAmount i)
         = min totalAmount (actualTotalAmount totalAmount orderCount incrementPercentage minOrderAmount)"
proof -
  let ?aP = adjustPriceToTickSize and ?aQ = adjustQuantityToStepSize
  let ?cp = currentPrice and ?mr = maxRisePercentage and ?ta = totalAmount
  let ?n = orderCount and ?inc = incrementPercentage and ?mn = minOrderAmount
  let ?orders = "concat (map (shortRung ?aP ?aQ ?cp ?mr ?ta ?n ?inc ?mn) [0..<?n])"
  have n1: "1 \<le> ?n" using assms(4) by simp
  have sc: "0 < ?inc" "0 < ?mn" "1 \<le> ?n" "0 < ?ta" using assms n1 by simp_all
  have pricepos: "\<And>i. i < ?n \<Longrightarrow> 0 < shortRungPrice ?aP ?cp ?mr ?n i"
    using adjP by blast
  have r1: "1 < increment_ratio ?inc" using increment_ratio_gt1 assms(5) by blast
  then have rn: "1 < increment_ratio ?inc ^ ?n" using n1 by (intro one_less_power) simp_all
  have A: "0 < actualTotalAmount ?ta ?n ?inc ?mn" using actualTotalAmount_pos[OF sc(1,2,3)] .
  have noprice0: "\<not> list_ex (\<lambda>i. shortRungPrice ?aP ?cp ?mr ?n i = 0) [0..<?n]"
  proof
    assume "list_ex (\<lambda>i. shortRungPrice ?aP ?cp ?mr ?n i = 0) [0..<?n]"
    then obtain i where "i < ?n" "shortRungPrice ?aP ?cp ?mr ?n i = 0" by (auto simp: list_ex_iff)
    then show False using pricepos[of i] by simp
  qed
  have nz: "\<not> short_zero_divisor ?aP ?cp ?mr ?ta ?n ?inc ?mn"
    unfolding short_zero_divisor_def using assms(4) rn A noprice0 by auto
  have res: "calculateShortOrders ?aP ?aQ ?cp ?mr ?ta ?n ?inc ?mn = Some ?orders"
    using nz assms(4) by (simp add: calculateShortOrders_def shortOrders_loop_concat)
  have amts: "map amount ?orders =
      filter (\<lambda>a. ?mn \<le> a) (map (shortRungAmount ?aP ?aQ ?cp ?mr ?ta ?n ?inc ?mn) [0..<?n])"
    by (rule amounts_of_rungs)
  have "sum_list (map amount ?orders) \<le> sum_list (map (orderAmount ?ta ?n ?inc ?mn) [0..<?n])"
    unfolding amts
    by (rule filtered_sum_le) (simp_all add: shortRungAmount_le[OF pricepos adjQ] orderAmount_nonneg[OF sc])
  also have "\<dots> = (\<Sum>i<?n. orderAmount ?ta ?n ?inc ?mn i)"
    by (simp add: interv_sum_list_conv_sum_set_nat atLeast0LessThan)
  also have "\<dots> = min ?ta (actualTotalAmount ?ta ?n ?inc ?mn)"
    by (simp add: orderAmount_sum orderScale_bounds(3)[OF sc])
  finally have budget: "sum_list (map amount ?orders) \<le> ?ta" by simp
  have each: "\<forall>ord \<in> set ?orders. ?mn \<le> amount ord"
  proof
    fix ord assume "ord \<in> set ?orders"
    then have "amount ord \<in> set (map amount ?orders)" by simp
    then show "?mn \<le> amount ord" unfolding amts by simp
  qed
  have base: "baseAmount ?ta ?n ?inc ?mn =
      max ?mn (?ta * ((1 + ?inc / 100) - 1) / ((1 + ?inc / 100) ^ ?n - 1))"
    by (simp add: baseAmount_def calculatedBaseAmount_def increment_ratio_def Let_def)
  have total: "(\<Sum>i<?n. orderAmount ?ta ?n ?inc ?mn i) = min ?ta (actualTotalAmount ?ta ?n ?inc ?mn)"
    by (simp add: orderAmount_sum orderScale_bounds(3)[OF sc])
  show ?thesis
    using res budget each amts base orderScale_bounds(1,2,4)[OF sc] total by blast
qed

lemma sample_short_ladder:
  "calculateShortOrders (floor_to_step (1/10)) (floor_to_step (1/100000)) 100 3 100 3 50 10 =
     Some [\<lparr>price = 100, quantity = 5263 / 25000, amount = 5263 / 250, side = ''Ask'', positionSide = ''SHORT''\<rparr>,
           \<lparr>price = 203 / 2, quantity = 3889 / 12500, amount = 789467 / 25000, side = ''Ask'', positionSide = ''SHORT''\<rparr>,
           \<lparr>price = 103, quantity = 11497 / 25000, amount = 1184191 / 25000, side = ''Ask'', positionSide = ''SHORT''\<rparr>]"
  by (simp add: calculateShortOrders_def short_zero_divisor_def shortRung_def shortRungAmount_def
      shortRungQuantity_def shortRungPrice_def shortRawPrice_def shortPriceStep_def orderAmount_def
      orderScale_def actualTotalAmount_def baseAmount_def calculatedBaseAmount_def increment_ratio_def
      floor_to_step_def Let_def upt_conv_Cons numeral_3_eq_3)

lemma shortPriceStep_eq:
  "2 \<le> n \<Longrightarrow> shortPriceStep cp m n = cp * ((m / 100) / (real n - 1))"
  by (simp add: shortPriceStep_def Let_def algebra_simps)

lemma longPriceStep_eq:
  "2 \<le> n \<Longrightarrow> calculateFuturesOrders_priceStep True cp m n = cp * ((m / 100) / (real n - 1))"
  by (simp add: calculateFuturesOrders_priceStep_def Let_def algebra_simps)

lemma futures_short_step_is_shortPriceStep:
  "calculateFuturesOrders_priceStep False cp m n = shortPriceStep cp m n"
  by (simp add: calculateFuturesOrders_priceStep_def shortPriceStep_def)

lemma step_pos:
  assumes "2 \<le> n" "0 < cp" "0 < m"
  shows "0 < cp * ((m / 100) / (real n - 1))"
proof -
  have "0 < real n - 1" using assms(1) by simp
  then show ?thesis using assms(2,3) by simp
qed

lemma divide_then_times: "(b::real) \<noteq> 0 \<Longrightarrow> a / b * b = a"
  by simp

lemma prices_of_rungs:
  "map price (concat (map (shortRung aP aQ cp mr ta n inc mn) is)) =
     map (shortRungPrice aP cp mr n)
       (filter (\<lambda>i. mn \<le> shortRungAmount aP aQ cp mr ta n inc mn i) is)"
  by (induction "is") (simp_all add: shortRung_def)

text \<open>
  Claim C2, as amended. For \<open>orderCount \<ge> 2\<close> the raw rung prices start at the current
  price, end at \<open>currentPrice * (1 + maxMovePercent / 100)\<close> (short) or
  \<open>currentPrice * (1 - maxMovePercent / 100)\<close> (long), and consecutive rungs differ by
  \<open>currentPrice * (maxMovePercent / 100) / (orderCount - 1)\<close>. They are strictly
  increasing (short) or decreasing (long) when the current price and the percentage are
  positive. The prices of the returned short orders are the tick adjustments of the raw
  prices of the kept rungs, in increasing rung order.
\<close>

theorem rung_prices_linear:
  assumes "2 \<le> orderCount"
  shows "shortRawPrice currentPrice maxMovePercent orderCount 0 = currentPrice
    \<and> shortRawPrice currentPrice maxMovePercent orderCount (orderCount - 1)
         = currentPrice * (1 + maxMovePercent / 100)
    \<and> (\<forall>i. shortRawPrice currentPrice maxMovePercent orderCount (Suc i)
              - shortRawPrice currentPrice maxMovePercent orderCount i
            = currentPrice * ((maxMovePercent / 100) / (real orderCount - 1)))
    \<and> longRawPrice currentPrice maxMovePercent orderCount 0 = currentPrice
    \<and> longRawPrice currentPrice maxMovePercent orderCount (orderCount - 1)
         = currentPrice * (1 - maxMovePercent / 100)
    \<and> (\<forall>i. longRawPrice currentPrice maxMovePercent orderCount i
              - longRawPrice currentPrice maxMovePercent orderCount (Suc i)
            = currentPrice * ((maxMovePercent / 100) / (real orderCount - 1)))
    \<and> (0 < currentPrice \<and> 0 < maxMovePercent \<longrightarrow>
         (\<forall>i j. i < j \<longrightarrow>
            shortRawPrice currentPrice maxMovePercent orderCount i
              < shortRawPrice currentPrice maxMovePercent orderCount j
          \<and> longRawPrice currentPrice maxMovePercent orderCount j
              < longRawPrice currentPrice maxMovePercent orderCount i))
    \<and> (\<forall>orders.
         calculateShortOrders adjustPriceToTickSize adjustQuantityToStepSize currentPrice
           maxMovePercent totalAmount orderCount incrementPercentage minOrderAmount = Some orders
         \<longrightarrow> (\<exists>is. sorted_wrt (<) is \<and> set is \<subseteq> {..<orderCount}
                \<and> map price orders =
                    map (\<lambda>i. adjustPriceToTickSize
                               (shortRawPrice currentPrice maxMovePercent orderCount i)) is))"
proof -
  let ?cp = currentPrice and ?m = maxMovePercent and ?n = orderCount
  define d where "d = ?cp * ((?m / 100) / (real ?n - 1))"
  have n1: "real ?n - 1 \<noteq> 0" using assms by simp
  have S: "\<And>i. shortRawPrice ?cp ?m ?n i = ?cp + d * real i"
    by (simp add: shortRawPrice_def shortPriceStep_eq[OF assms] d_def)
  have L: "\<And>i. longRawPrice ?cp ?m ?n i = ?cp - d * real i"
    by (simp add: longRawPrice_def longPriceStep_eq[OF assms] d_def)
  have last: "real (?n - 1) = real ?n - 1" using assms by (simp add: of_nat_diff)
  have "((?m / 100) / (real ?n - 1)) * (real ?n - 1) = ?m / 100"
    using n1 by (rule divide_then_times)
  then have dlast: "d * (real ?n - 1) = ?cp * (?m / 100)"
    by (simp only: d_def mult.assoc)
  have c1: "shortRawPrice ?cp ?m ?n 0 = ?cp" by (simp add: S)
  have c2: "shortRawPrice ?cp ?m ?n (?n - 1) = ?cp * (1 + ?m / 100)"
    unfolding S last dlast by (simp add: algebra_simps)
  have c3: "\<forall>i. shortRawPrice ?cp ?m ?n (Suc i) - shortRawPrice ?cp ?m ?n i = d"
    unfolding S by (simp add: algebra_simps)
  have c4: "longRawPrice ?cp ?m ?n 0 = ?cp" by (simp add: L)
  have c5: "longRawPrice ?cp ?m ?n (?n - 1) = ?cp * (1 - ?m / 100)"
    unfolding L last dlast by (simp add: algebra_simps)
  have c6: "\<forall>i. longRawPrice ?cp ?m ?n i - longRawPrice ?cp ?m ?n (Suc i) = d"
    unfolding L by (simp add: algebra_simps)
  have c7: "0 < ?cp \<and> 0 < ?m \<longrightarrow>
         (\<forall>i j. i < j \<longrightarrow> shortRawPrice ?cp ?m ?n i < shortRawPrice ?cp ?m ?n j
                      \<and> longRawPrice ?cp ?m ?n j < longRawPrice ?cp ?m ?n i)"
  proof (intro impI allI)
    fix i j :: nat
    assume pos: "0 < ?cp \<and> 0 < ?m" and ij: "i < j"
    have dpos: "0 < d" unfolding d_def using step_pos[OF assms] pos by blast
    have "d * real i < d * real j" using dpos ij by simp
    then show "shortRawPrice ?cp ?m ?n i < shortRawPrice ?cp ?m ?n j
                      \<and> longRawPrice ?cp ?m ?n j < longRawPrice ?cp ?m ?n i"
      unfolding S L by simp
  qed
  have c8: "\<forall>orders.
         calculateShortOrders adjustPriceToTickSize adjustQuantityToStepSize ?cp
           ?m totalAmount ?n incrementPercentage minOrderAmount = Some orders
         \<longrightarrow> (\<exists>is. sorted_wrt (<) is \<and> set is \<subseteq> {..<?n}
                \<and> map price orders =
                    map (\<lambda>i. adjustPriceToTickSize (shortRawPrice ?cp ?m ?n i)) is)"
  proof (intro allI impI)
    fix orders
    assume res: "calculateShortOrders adjustPriceToTickSize adjustQuantityToStepSize ?cp
           ?m totalAmount ?n incrementPercentage minOrderAmount = Some orders"
    let ?is = "filter (\<lambda>i. minOrderAmount \<le> shortRungAmount adjustPriceToTickSize
                 adjustQuantityToStepSize ?cp ?m totalAmount ?n incrementPercentage minOrderAmount i) [0..<?n]"
    have "orders = concat (map (shortRung adjustPriceToTickSize adjustQuantityToStepSize ?cp ?m
                 totalAmount ?n incrementPercentage minOrderAmount) [0..<?n])"
      using res assms by (simp add: calculateShortOrders_def shortOrders_loop_concat split: if_splits)
    then have "map price orders = map (\<lambda>i. adjustPriceToTickSize (shortRawPrice ?cp ?m ?n i)) ?is"
      by (simp add: prices_of_rungs shortRungPrice_def[abs_def])
    moreover have "sorted_wrt (<) ?is" by (intro sorted_wrt_filter) simp
    moreover have "set ?is \<subseteq> {..<?n}" by auto
    ultimately show "\<exists>is. sorted_wrt (<) is \<and> set is \<subseteq> {..<?n}
                \<and> map price orders =
                    map (\<lambda>i. adjustPriceToTickSize (shortRawPrice ?cp ?m ?n i)) is"
      by blast
  qed
  show ?thesis using c1 c2 c3[unfolded d_def] c4 c5 c6[unfolded d_def] c7 c8 by blast
qed

text \<open>
  Claim C2 as stated fails: with \<open>maxMovePercent = 0\<close> and two rungs both orders are
  returned at the same price, so the returned prices are not strictly monotonic.
\<close>

theorem rung_prices_not_strict_counterexample:
  "calculateShortOrders (floor_to_step (1/10)) (floor_to_step (1/100000)) 100 0 100 2 50 10 =
     Some [\<lparr>price = 100, quantity = 2 / 5, amount = 40, side = ''Ask'', positionSide = ''SHORT''\<rparr>,
           \<lparr>price = 100, quantity = 3 / 5, amount = 60, side = ''Ask'', positionSide = ''SHORT''\<rparr>]
   \<and> \<not> sorted_wrt (<) (map price
          (the (calculateShortOrders (floor_to_step (1/10)) (floor_to_step (1/100000)) 100 0 100 2 50 10)))"
proof -
  have "calculateShortOrders (floor_to_step (1/10)) (floor_to_step (1/100000)) 100 0 100 2 50 10 =
     Some [\<lparr>price = 100, quantity = 2 / 5, amount = 40, side = ''Ask'', positionSide = ''SHORT''\<rparr>,
           \<lparr>price = 100, quantity = 3 / 5, amount = 60, side = ''Ask'', positionSide = ''SHORT''\<rparr>]"
    by (simp add: calculateShortOrders_def short_zero_divisor_def shortRung_def shortRungAmount_def
      shortRungQuantity_def shortRungPrice_def shortRawPrice_def shortPriceStep_def orderAmount_def
      orderScale_def actualTotalAmount_def baseAmount_def calculatedBaseAmount_def increment_ratio_def
      floor_to_step_def Let_def upt_conv_Cons numeral_2_eq_2)
  then show ?thesis by simp
qed

theorem rung_prices_linear_witness:
  "(2::nat) \<le> 3
   \<and> shortRawPrice 100 3 3 0 = 100 \<and> shortRawPrice 100 3 3 2 = 103
   \<and> shortRawPrice 100 3 3 1 < shortRawPrice 100 3 3 2
   \<and> longRawPrice 100 3 3 2 = 97 \<and> longRawPrice 100 3 3 2 < longRawPrice 100 3 3 1
   \<and> (\<exists>is. sorted_wrt (<) is \<and> set is \<subseteq> {..<3}
        \<and> map price (the (calculateShortOrders (floor_to_step (1/10)) (floor_to_step (1/100000))
                             100 3 100 3 50 10))
            = map (\<lambda>i. floor_to_step (1/10) (shortRawPrice 100 3 3 i)) is)"
proof -
  have n: "(2::nat) \<le> 3" by simp
  have p: "(0::real) < 100 \<and> (0::real) < 3" by simp
  have lt: "(1::nat) < 2" by simp
  note T = rung_prices_linear[OF n, of 100 3 "floor_to_step (1/10)" "floor_to_step (1/100000)" 100 50 10]
  have a: "shortRawPrice 100 3 3 0 = 100" using T by blast
  have b: "shortRawPrice 100 3 3 2 = 103" using T by simp
  have c: "shortRawPrice 100 3 3 1 < shortRawPrice 100 3 3 2
           \<and> longRawPrice 100 3 3 2 < longRawPrice 100 3 3 1" using T p lt by blast
  have d: "longRawPrice 100 3 3 2 = 97" using T by simp
  have e: "\<exists>is. sorted_wrt (<) is \<and> set is \<subseteq> {..<3}
        \<and> map price (the (calculateShortOrders (floor_to_step (1/10)) (floor_to_step (1/100000))
                             100 3 100 3 50 10))
            = map (\<lambda>i. floor_to_step (1/10) (shortRawPrice 100 3 3 i)) is"
    using T sample_short_ladder by (metis option.sel)
  show ?thesis using n a b c d e by blast
qed

section \<open>Trailing stop: \<open>FuturesTradingStrategy.calculateDynamicStopLoss\<close>\<close>

text \<open>
  Source: \<open>src/core/futuresTradingStrategy.js\<close>, lines 231-260. The function reads
  \<open>this.riskManagement\<close> and is otherwise pure: it keeps no previous stop and is called
  with the entry price, the current price and the side. A field of the configuration that
  is \<open>undefined\<close> is \<open>None\<close>; \<open>x || d\<close> takes the default \<open>d\<close> when \<open>x\<close> is
  \<open>undefined\<close> or 0. The activation test divides by the entry price; for a zero entry
  price JavaScript yields \<open>+Infinity\<close>, \<open>NaN\<close> or \<open>-Infinity\<close>, and the comparison
  with the activation percent is true for \<open>+Infinity\<close> only, which
  \<open>js_percent_reached\<close> writes out.
\<close>

record riskManagement =
  dynamicStopLoss :: bool
  trailingStopActivation :: "real option"
  trailingStopDistance :: "real option"

definition js_or :: "real option \<Rightarrow> real \<Rightarrow> real" where
  "js_or v d = (case v of None \<Rightarrow> d | Some x \<Rightarrow> if x = 0 then d else x)"

definition js_percent_reached :: "real \<Rightarrow> real \<Rightarrow> real \<Rightarrow> bool" where
  "js_percent_reached num den threshold =
     (if den = 0 then 0 < num else (num / den) * 100 \<ge> threshold)"

definition calculateDynamicStopLoss :: "riskManagement \<Rightarrow> real \<Rightarrow> real \<Rightarrow> bool \<Rightarrow> real option" where
  "calculateDynamicStopLoss rm entryPrice currentPrice isLong =
     (if \<not> dynamicStopLoss rm then None
      else
        (let activationPercentage = js_or (trailingStopActivation rm) 1;
             trailingDistance = js_or (trailingStopDistance rm) (1/2)
         in if isLong
            then (if js_percent_reached (currentPrice - entryPrice) entryPrice activationPercentage
                  then Some (currentPrice * (1 - trailingDistance / 100))
                  else None)
            else (if js_percent_reached (entryPrice - currentPrice) entryPrice activationPercentage
                  then Some (currentPrice * (1 + trailingDistance / 100))
                  else None)))"

text \<open>A configuration with the dynamic stop switched on and the default percentages.\<close>

definition trailing_rm :: riskManagement where
  "trailing_rm = \<lparr>dynamicStopLoss = True, trailingStopActivation = Some 1, trailingStopDistance = Some (1/2)\<rparr>"

text \<open>
  Claim C8 as stated fails: for a LONG position entered at 100 with the default
  activation (1 percent) and distance (0.5 percent), the stop computed at price 110 is
  109.45 and the stop computed at the next price 105 is 104.475, which is lower.
\<close>

theorem dynamic_stop_loosens_counterexample:
  "calculateDynamicStopLoss trailing_rm 100 110 True = Some (2189 / 20)
   \<and> calculateDynamicStopLoss trailing_rm 100 105 True = Some (4179 / 40)
   \<and> (4179 / 40 :: real) < 2189 / 20"
  by (simp add: calculateDynamicStopLoss_def trailing_rm_def js_or_def js_percent_reached_def Let_def)

text \<open>
  Claim C8, as amended. Whenever the dynamic stop is returned it is the current price
  times \<open>1 - trailingDistance / 100\<close> (LONG) or \<open>1 + trailingDistance / 100\<close> (SHORT),
  a function of the current price alone. For a trailing distance below 100 percent in
  absolute value, the stop of a later update is at least the stop of an earlier one
  exactly when the later price is at least the earlier price: the stop follows the price
  in both directions.
\<close>

theorem dynamic_stop_follows_price:
  assumes "calculateDynamicStopLoss rm entryPrice p1 isLong = Some s1"
    and "calculateDynamicStopLoss rm entryPrice p2 isLong = Some s2"
    and "\<bar>js_or (trailingStopDistance rm) (1/2)\<bar> < 100"
  shows "s1 = p1 * (1 + (if isLong then - 1 else 1) * js_or (trailingStopDistance rm) (1/2) / 100)
       \<and> s2 = p2 * (1 + (if isLong then - 1 else 1) * js_or (trailingStopDistance rm) (1/2) / 100)
       \<and> (s1 \<le> s2 \<longleftrightarrow> p1 \<le> p2)"
proof -
  define f where "f = 1 + (if isLong then - 1 else 1) * js_or (trailingStopDistance rm) (1/2) / 100"
  have fpos: "0 < f" using assms(3) unfolding f_def by (auto simp: abs_less_iff)
  have s1: "s1 = p1 * f" using assms(1)
    by (auto simp: calculateDynamicStopLoss_def Let_def f_def split: if_splits)
  have s2: "s2 = p2 * f" using assms(2)
    by (auto simp: calculateDynamicStopLoss_def Let_def f_def split: if_splits)
  have "(p1 * f \<le> p2 * f) = (p1 \<le> p2)" using fpos by simp
  then show ?thesis using s1 s2 unfolding f_def by simp
qed

theorem dynamic_stop_follows_price_witness:
  "calculateDynamicStopLoss trailing_rm 100 110 True = Some (2189 / 20)
   \<and> calculateDynamicStopLoss trailing_rm 100 105 True = Some (4179 / 40)
   \<and> \<bar>js_or (trailingStopDistance trailing_rm) (1/2)\<bar> < 100
   \<and> ((2189 / 20 :: real) \<le> 4179 / 40 \<longleftrightarrow> (110::real) \<le> 105)"
proof -
  have a: "calculateDynamicStopLoss trailing_rm 100 110 True = Some (2189 / 20)"
    and b: "calculateDynamicStopLoss trailing_rm 100 105 True = Some (4179 / 40)"
    and c: "\<bar>js_or (trailingStopDistance trailing_rm) (1/2)\<bar> < 100"
    by (simp_all add: calculateDynamicStopLoss_def trailing_rm_def js_or_def js_percent_reached_def Let_def)
  from dynamic_stop_follows_price[OF a b c] show ?thesis using a b c by blast
qed

section \<open>TradingCycleController: the risk gate of \<open>FuturesTradingApp\<close>\<close>

text \<open>
  Source: the futures application class (\<open>getPositionInfo\<close>, \<open>executeTrade\<close>,
  \<open>cancelOpenOrders\<close>, \<open>closePosition\<close>, \<open>setPositionProtection\<close> and the interval
  callback of \<open>startTakeProfitMonitoring\<close>) and \<open>calculateProfitPercentage\<close> of
  \<open>src/core/futuresTradingStrategy.js\<close>.

  The exchange is outside the program. Its state is a type parameter \<open>'x\<close>, and each
  remote call is a function on that state which returns the answer and the next state.
  The position query is modelled down to the HTTP request, because the risk gate depends
  on how \<open>BackpackFuturesService.getPositions\<close> reports a failure; for the other calls
  of \<open>this.tradingService\<close> the answer \<open>None\<close> is a rejected promise or no result. The
  calls that cancel or create orders are also appended to the list \<open>actions\<close>, so that
  "no order was cancelled or created" is a statement about that list. Logging, the sleeps
  between requests and the display code are left out. The ladder itself comes from
  \<open>tradingStrategy.calculateIncrementalOrders\<close>, whose class is missing; the
  configuration carries it as a function from the current price to the list of order
  requests.
\<close>

datatype position_side = LONG | SHORT

record position =
  pos_netQuantity :: real
  pos_entryPrice :: real
  pos_pnlUnrealized :: real

record order_request =
  r_side :: string
  r_orderType :: string
  r_quantity :: real
  r_price :: "real option"

datatype create_result = Accepted | NoResponse | Rejected bool

datatype action = CancelAllOrders | CreateOrder order_request

text \<open>
  What the position request can come to. \<open>SignatureError\<close>: \<open>createSignature\<close> throws
  and no request is sent. \<open>Response status data\<close>: the request resolves. \<open>Failure\<close>:
  the request is rejected, without a response (network error, timeout) or with the status
  of \<open>error.response\<close> and the truth value of the test on \<open>error.response.data\<close> for
  "unauthorized" (lines 295-300). The body \<open>response.data\<close> is an array, an object (with
  the truth value of its \<open>symbol\<close> field), a string (with the value \<open>JSON.parse\<close> gives
  for it, \<open>None\<close> when it throws), or anything else. An element of an array is a
  position, or \<open>None\<close> for \<open>null\<close>, on which a field access throws.
\<close>

datatype body =
    Positions "position option list"
  | Object position bool
  | Text "body option"
  | Scalar

datatype failure = NoReply | ErrorResponse nat bool

datatype request_outcome = SignatureError | Response nat body | Failure failure

record 'x trading_service =
  mockMode :: bool
  positionRequest :: "'x \<Rightarrow> request_outcome \<times> 'x"
  alternativeRequest :: "'x \<Rightarrow> request_outcome \<times> 'x"
  getOpenOrders :: "'x \<Rightarrow> nat option \<times> 'x"
  cancelAllOrders :: "'x \<Rightarrow> bool option \<times> 'x"
  createFuturesOrder :: "order_request \<Rightarrow> 'x \<Rightarrow> create_result \<times> 'x"
  getMarketPrice :: "'x \<Rightarrow> real option \<times> 'x"
  priceDataAge :: "'x \<Rightarrow> int option"
  clock :: "'x \<Rightarrow> int"

record 'x world =
  ex :: 'x
  actions :: "action list"

record trading_config =
  cancelExistingOrdersOnStart :: "bool option"
  takeProfitPercentage :: real
  noFillRestartMinutes :: "real option"
  calculateIncrementalOrders :: "real \<Rightarrow> order_request list"

record controller =
  running :: bool
  canFetchPositions :: bool
  hasOpenPosition :: bool
  positionAmount :: real
  entryPrice :: real
  unrealizedPnl :: real
  app_positionSide :: position_side
  app_stopLossPercentage :: real
  app_takeProfitPercentage :: real
  stopLossPrice :: real
  takeProfitPrice :: real
  takeProfitTriggered :: bool
  lastPositionClosedReason :: "string option"
  monitoringInterval :: bool
  lastPositionCheckTime :: int
  monitor_lastPositionCheckTime :: int
  monitoringAttempts :: nat

text \<open>
  \<open>BackpackFuturesService.getPositions\<close>, \<open>src/services/backpackFuturesService.js\<close>,
  lines 209-327, and \<open>getPositionsAlternative\<close>, lines 334-424. The result is the value
  the promise resolves to: \<open>Inr (Some ps)\<close> for an array, \<open>Inr None\<close> for \<open>null\<close>, and
  \<open>Inl ()\<close> for a rejected promise. The whole body of \<open>getPositions\<close> is inside
  \<open>try\<close> blocks whose handlers return \<open>null\<close> or \<open>[]\<close>: \<open>after_failure\<close> is the
  handler of the inner block (lines 291-319), which also catches the exception of line 251
  when the first element of the array is \<open>null\<close>.
\<close>

fun positions_of_body :: "body \<Rightarrow> position option list" where
  "positions_of_body (Positions ps) = ps"
| "positions_of_body (Object p hasSymbol) = (if hasSymbol then [Some p] else [])"
| "positions_of_body (Text None) = []"
| "positions_of_body (Text (Some (Positions ps))) = ps"
| "positions_of_body (Text (Some (Object p hasSymbol))) = [Some p]"
| "positions_of_body (Text (Some (Text t))) = []"
| "positions_of_body (Text (Some Scalar)) = []"
| "positions_of_body Scalar = []"

definition isAuthError :: "failure \<Rightarrow> bool" where
  "isAuthError err =
     (case err of NoReply \<Rightarrow> False
      | ErrorResponse status unauthorized \<Rightarrow> (status = 401 \<or> status = 400) \<and> unauthorized)"

definition isNotFoundError :: "failure \<Rightarrow> bool" where
  "isNotFoundError err =
     (case err of NoReply \<Rightarrow> False | ErrorResponse status unauthorized \<Rightarrow> status = 404)"

definition getPositionsAlternative ::
  "'x trading_service \<Rightarrow> 'x \<Rightarrow> position option list option \<times> 'x" where
  "getPositionsAlternative svc x =
     (case alternativeRequest svc x of
        (Response status data, x1) \<Rightarrow>
          (if status = 200
           then (case data of Positions ps \<Rightarrow> Some ps | _ \<Rightarrow> None)
           else None, x1)
      | (outcome, x1) \<Rightarrow> (None, x1))"

definition after_failure ::
  "'x trading_service \<Rightarrow> failure \<Rightarrow> 'x \<Rightarrow> (unit + position option list option) \<times> 'x" where
  "after_failure svc err x1 =
     (if isAuthError err
      then (case getPositionsAlternative svc x1 of (r, x2) \<Rightarrow> (Inr r, x2))
      else if isNotFoundError err then (Inr (Some []), x1)
      else if mockMode svc then (Inr (Some []), x1)
      else (Inr None, x1))"

definition getPositions ::
  "'x trading_service \<Rightarrow> 'x \<Rightarrow> (unit + position option list option) \<times> 'x" where
  "getPositions svc x =
     (case positionRequest svc x of
        (SignatureError, x1) \<Rightarrow> (Inr (if mockMode svc then Some [] else None), x)
      | (Response status data, x1) \<Rightarrow>
          if mockMode svc then (Inr (Some []), x)
          else if status = 200
          then (case data of
                  Positions (None # ps) \<Rightarrow> after_failure svc NoReply x1
                | _ \<Rightarrow> (Inr (Some (positions_of_body data)), x1))
          else (Inr None, x1)
      | (Failure err, x1) \<Rightarrow>
          if mockMode svc then (Inr (Some []), x) else after_failure svc err x1)"

text \<open>
  \<open>getPositionInfo\<close>, lines 372-419: once \<open>getPositions\<close> has resolved,
  \<open>canFetchPositions\<close> is set; an array with a first element refreshes the position
  fields, and \<open>null\<close> or an empty array clears them. Only an exception clears
  \<open>canFetchPositions\<close>, and it leaves \<open>positionAmount\<close> and \<open>entryPrice\<close> as
  they were. The one exception inside the function is the field access on a first element
  that is \<open>null\<close>, after \<open>hasOpenPosition\<close> was set.
\<close>

definition no_position :: "controller \<Rightarrow> controller" where
  "no_position c =
     c\<lparr>canFetchPositions := True, hasOpenPosition := False, positionAmount := 0,
       entryPrice := 0, unrealizedPnl := 0\<rparr>"

definition getPositionInfo ::
  "'x trading_service \<Rightarrow> controller \<Rightarrow> 'x world \<Rightarrow> controller \<times> 'x world" where
  "getPositionInfo svc c w =
     (case getPositions svc (ex w) of
        (Inl err, x') \<Rightarrow> (c\<lparr>canFetchPositions := False\<rparr>, w\<lparr>ex := x'\<rparr>)
      | (Inr None, x') \<Rightarrow> (no_position c, w\<lparr>ex := x'\<rparr>)
      | (Inr (Some []), x') \<Rightarrow> (no_position c, w\<lparr>ex := x'\<rparr>)
      | (Inr (Some (None # ps)), x') \<Rightarrow>
          (c\<lparr>hasOpenPosition := True, canFetchPositions := False\<rparr>, w\<lparr>ex := x'\<rparr>)
      | (Inr (Some (Some p # ps)), x') \<Rightarrow>
          (c\<lparr>canFetchPositions := True, hasOpenPosition := True,
             positionAmount := pos_netQuantity p, entryPrice := pos_entryPrice p,
             unrealizedPnl := pos_pnlUnrealized p,
             app_positionSide := (if pos_netQuantity p > 0 then LONG else SHORT)\<rparr>,
           w\<lparr>ex := x'\<rparr>))"

text \<open>
  \<open>cancelOpenOrders\<close>: nothing to cancel returns true; otherwise \<open>cancelAllOrders\<close> is
  called, the open orders are read again, and the result of the cancellation is returned.
  Any exception makes it return false.
\<close>

definition cancelOpenOrders :: "'x trading_service \<Rightarrow> 'x world \<Rightarrow> bool \<times> 'x world" where
  "cancelOpenOrders svc w =
     (case getOpenOrders svc (ex w) of
        (None, x1) \<Rightarrow> (False, w\<lparr>ex := x1\<rparr>)
      | (Some n, x1) \<Rightarrow>
          if n = 0 then (True, w\<lparr>ex := x1\<rparr>)
          else
            (case cancelAllOrders svc x1 of
               (None, x2) \<Rightarrow> (False, w\<lparr>ex := x2, actions := actions w @ [CancelAllOrders]\<rparr>)
             | (Some result, x2) \<Rightarrow>
                 (case getOpenOrders svc x2 of
                    (None, x3) \<Rightarrow> (False, w\<lparr>ex := x3, actions := actions w @ [CancelAllOrders]\<rparr>)
                  | (Some remaining, x3) \<Rightarrow>
                      (result, w\<lparr>ex := x3, actions := actions w @ [CancelAllOrders]\<rparr>))))"

text \<open>
  The order loop of \<open>executeTrade\<close>: one \<open>createFuturesOrder\<close> per planned order; an
  exception whose message contains "Insufficient" (\<open>Rejected True\<close>) stops the loop.
\<close>

fun createOrders_loop ::
  "'x trading_service \<Rightarrow> order_request list \<Rightarrow> 'x world \<Rightarrow> nat \<Rightarrow> nat \<times> 'x world" where
  "createOrders_loop svc [] w successCount = (successCount, w)"
| "createOrders_loop svc (orderData # rest) w successCount =
     (case createFuturesOrder svc orderData (ex w) of
        (Accepted, x') \<Rightarrow>
          createOrders_loop svc rest (w\<lparr>ex := x', actions := actions w @ [CreateOrder orderData]\<rparr>)
            (successCount + 1)
      | (NoResponse, x') \<Rightarrow>
          createOrders_loop svc rest (w\<lparr>ex := x', actions := actions w @ [CreateOrder orderData]\<rparr>)
            successCount
      | (Rejected insufficient, x') \<Rightarrow>
          if insufficient
          then (successCount, w\<lparr>ex := x', actions := actions w @ [CreateOrder orderData]\<rparr>)
          else createOrders_loop svc rest
                 (w\<lparr>ex := x', actions := actions w @ [CreateOrder orderData]\<rparr>) successCount)"

definition js_or_default :: "real \<Rightarrow> real \<Rightarrow> real" where
  "js_or_default v d = (if v = 0 then d else v)"

definition setPositionProtection :: "controller \<Rightarrow> controller" where
  "setPositionProtection c =
     (if \<not> hasOpenPosition c \<or> \<bar>positionAmount c\<bar> \<le> 0 then c
      else
        (let stopLossPercentage = js_or_default (app_stopLossPercentage c) 3;
             takeProfitPercentage = js_or_default (app_takeProfitPercentage c) (1/2)
         in c\<lparr>stopLossPrice := (if app_positionSide c = LONG
                                  then entryPrice c * (1 - stopLossPercentage / 100)
                                  else entryPrice c * (1 + stopLossPercentage / 100)),
               takeProfitPrice := (if app_positionSide c = LONG
                                    then entryPrice c * (1 + takeProfitPercentage / 100)
                                    else entryPrice c * (1 - takeProfitPercentage / 100))\<rparr>))"

definition js_truthy_real :: "real option \<Rightarrow> bool" where
  "js_truthy_real v = (case v of None \<Rightarrow> False | Some x \<Rightarrow> x \<noteq> 0)"

definition startTakeProfitMonitoring :: "controller \<Rightarrow> int \<Rightarrow> controller" where
  "startTakeProfitMonitoring c now =
     (if \<not> running c then c
      else c\<lparr>monitoringInterval := True, takeProfitTriggered := False,
             monitor_lastPositionCheckTime := now, monitoringAttempts := 0\<rparr>)"

text \<open>
  The tail of \<open>executeTrade\<close> once the open orders are known: the reason bookkeeping, the
  planned ladder, the order loop and the start of the monitoring.
\<close>

definition place_ladder ::
  "'x trading_service \<Rightarrow> trading_config \<Rightarrow> real \<Rightarrow> bool \<Rightarrow> controller \<Rightarrow> 'x world
     \<Rightarrow> controller \<times> 'x world" where
  "place_ladder svc cfg currentPrice hasExistingOrders c w =
     (let c1 = (if cancelExistingOrdersOnStart cfg = Some True \<and> hasExistingOrders then c
                else if lastPositionClosedReason c \<noteq> None \<and> lastPositionClosedReason c \<noteq> Some []
                then c\<lparr>lastPositionClosedReason := None\<rparr>
                else c);
          orders = calculateIncrementalOrders cfg currentPrice
      in if orders = [] then (c1, w)
         else
           (case createOrders_loop svc orders w 0 of
              (successCount, w') \<Rightarrow>
                if successCount > 0
                then (let c2 = c1\<lparr>lastPositionCheckTime := clock svc (ex w')\<rparr>
                      in if \<not> monitoringInterval c2
                         then (startTakeProfitMonitoring c2 (clock svc (ex w')), w')
                         else (c2, w'))
                else (c1, w')))"

definition executeTrade ::
  "'x trading_service \<Rightarrow> trading_config \<Rightarrow> controller \<Rightarrow> 'x world \<Rightarrow> controller \<times> 'x world" where
  "executeTrade svc cfg c w =
     (case getMarketPrice svc (ex w) of
        (marketPrice, x1) \<Rightarrow>
          if \<not> js_truthy_real marketPrice then (c, w\<lparr>ex := x1\<rparr>)
          else if (case priceDataAge svc x1 of None \<Rightarrow> True | Some age \<Rightarrow> age > 60000)
          then (c, w\<lparr>ex := x1\<rparr>)
          else
            (case getPositionInfo svc c (w\<lparr>ex := x1\<rparr>) of
               (c1, w1) \<Rightarrow>
                 if \<not> canFetchPositions c1 then (c1, w1)
                 else if hasOpenPosition c1
                 then (if stopLossPrice c1 = 0 \<or> takeProfitPrice c1 = 0
                       then (setPositionProtection c1, w1)
                       else (c1, w1))
                 else
                   (case getOpenOrders svc (ex w1) of
                      (None, x2) \<Rightarrow> (c1, w1\<lparr>ex := x2\<rparr>)
                    | (Some n, x2) \<Rightarrow>
                        if n > 0
                        then (if cancelExistingOrdersOnStart cfg \<noteq> Some False
                              then (case cancelOpenOrders svc (w1\<lparr>ex := x2\<rparr>) of
                                      (r, w2) \<Rightarrow> place_ladder svc cfg (the marketPrice) True c1 w2)
                              else (c1, w1\<lparr>ex := x2\<rparr>))
                        else place_ladder svc cfg (the marketPrice) False c1 (w1\<lparr>ex := x2\<rparr>))))"

definition calculateProfitPercentage :: "real \<Rightarrow> real \<Rightarrow> bool \<Rightarrow> real" where
  "calculateProfitPercentage currentPrice entry isLong =
     (if currentPrice = 0 \<or> entry = 0 \<or> entry \<le> 0 then 0
      else if isLong then ((currentPrice - entry) / entry) * 100
      else ((entry - currentPrice) / entry) * 100)"

definition closePosition ::
  "'x trading_service \<Rightarrow> controller \<Rightarrow> 'x world \<Rightarrow> bool \<times> 'x world" where
  "closePosition svc c w =
     (if \<not> hasOpenPosition c then (False, w)
      else
        (let orderData = \<lparr>r_side = (if app_positionSide c = LONG then ''Sell'' else ''Buy''),
                           r_orderType = ''Market'', r_quantity = \<bar>positionAmount c\<bar>,
                           r_price = None\<rparr>
         in case createFuturesOrder svc orderData (ex w) of
              (Accepted, x') \<Rightarrow> (True, w\<lparr>ex := x', actions := actions w @ [CreateOrder orderData]\<rparr>)
            | (r, x') \<Rightarrow> (False, w\<lparr>ex := x', actions := actions w @ [CreateOrder orderData]\<rparr>)))"

definition reorder_after_cancel ::
  "'x trading_service \<Rightarrow> trading_config \<Rightarrow> controller \<Rightarrow> 'x world \<Rightarrow> controller \<times> 'x world" where
  "reorder_after_cancel svc cfg c w =
     (case getOpenOrders svc (ex w) of
        (None, x1) \<Rightarrow> (c, w\<lparr>ex := x1\<rparr>)
      | (Some remaining, x1) \<Rightarrow>
          if remaining > 0 then (c, w\<lparr>ex := x1\<rparr>)
          else executeTrade svc cfg c (w\<lparr>ex := x1\<rparr>))"

text \<open>
  The interval callback of \<open>startTakeProfitMonitoring\<close>. Its first branch runs when
  \<open>hasOpenPosition\<close> is set and no take profit is in progress; it closes the position
  and cancels the open orders when the profit reaches the configured percentage, and it
  does not read \<open>canFetchPositions\<close>. The second branch is the no-fill timer, which
  does. \<open>lastPositionCheckTime\<close> of the callback is a variable of the closure
  (\<open>monitor_lastPositionCheckTime\<close>), distinct from the field of the same name. The
  texts written to \<open>lastPositionClosedReason\<close> are abbreviated.
\<close>

definition take_profit_branch ::
  "'x trading_service \<Rightarrow> trading_config \<Rightarrow> controller \<Rightarrow> 'x world \<Rightarrow> controller \<times> 'x world" where
  "take_profit_branch svc cfg c w =
     (let c1 = c\<lparr>monitor_lastPositionCheckTime := clock svc (ex w)\<rparr>
      in case getMarketPrice svc (ex w) of
           (marketPrice, x1) \<Rightarrow>
             if \<not> js_truthy_real marketPrice then (c1, w\<lparr>ex := x1\<rparr>)
             else
               (let profitPercentage =
                      calculateProfitPercentage (the marketPrice) (entryPrice c1) (app_positionSide c1 = LONG)
                in if profitPercentage \<ge> takeProfitPercentage cfg
                   then
                     (let c2 = c1\<lparr>takeProfitTriggered := True,
                                  lastPositionClosedReason := Some ''take profit''\<rparr>
                      in case closePosition svc c2 (w\<lparr>ex := x1\<rparr>) of
                           (closedOk, w2) \<Rightarrow>
                             (case cancelOpenOrders svc w2 of
                                (cancelled, w3) \<Rightarrow>
                                  reorder_after_cancel svc cfg
                                    (c2\<lparr>takeProfitTriggered := False, hasOpenPosition := False,
                                        positionAmount := 0, entryPrice := 0, unrealizedPnl := 0\<rparr>)
                                    w3))
                   else (c1, w\<lparr>ex := x1\<rparr>)))"

definition noFillIntervalMs :: "trading_config \<Rightarrow> real" where
  "noFillIntervalMs cfg =
     max 1 (case noFillRestartMinutes cfg of None \<Rightarrow> 30 | Some m \<Rightarrow> if m = 0 then 30 else m)
       * 60 * 1000"

definition no_fill_branch ::
  "'x trading_service \<Rightarrow> trading_config \<Rightarrow> controller \<Rightarrow> 'x world \<Rightarrow> controller \<times> 'x world" where
  "no_fill_branch svc cfg c w =
     (let currentTime = clock svc (ex w)
      in if real_of_int (currentTime - monitor_lastPositionCheckTime c) > noFillIntervalMs cfg
         then
           (let c1 = c\<lparr>monitor_lastPositionCheckTime := currentTime\<rparr>
            in if \<not> canFetchPositions c1 then (c1, w)
               else
                 (case getPositionInfo svc c1 w of
                    (c2, w2) \<Rightarrow>
                      if hasOpenPosition c2 then (c2, w2)
                      else
                        (let c3 = c2\<lparr>lastPositionClosedReason := Some ''no fill''\<rparr>
                         in case cancelOpenOrders svc w2 of
                              (cancelResult, w3) \<Rightarrow>
                                if cancelResult
                                then (case getOpenOrders svc (ex w3) of
                                        (None, x4) \<Rightarrow> (c3, w3\<lparr>ex := x4\<rparr>)
                                      | (Some remaining, x4) \<Rightarrow>
                                          if remaining > 0 then (c3, w3\<lparr>ex := x4\<rparr>)
                                          else (case executeTrade svc cfg c3 (w3\<lparr>ex := x4\<rparr>) of
                                                  (c4, w4) \<Rightarrow>
                                                    (c4\<lparr>monitor_lastPositionCheckTime :=
                                                          clock svc (ex w4)\<rparr>, w4)))
                                else (c3, w3))))
         else (c, w))"

definition monitoring_tick ::
  "'x trading_service \<Rightarrow> trading_config \<Rightarrow> controller \<Rightarrow> 'x world \<Rightarrow> controller \<times> 'x world" where
  "monitoring_tick svc cfg c w =
     (case getPositionInfo svc (c\<lparr>monitoringAttempts := monitoringAttempts c + 1\<rparr>) w of
        (c1, w1) \<Rightarrow>
          if hasOpenPosition c1 \<and> \<not> takeProfitTriggered c1
          then take_profit_branch svc cfg c1 w1
          else no_fill_branch svc cfg c1 w1)"

text \<open>
  A concrete situation. The exchange state is the number of open orders. The controller
  holds a LONG position of 1 entered at 100, known from an earlier query; two limit orders
  are open; the market price is 101 and fresh; the position request gets no reply (a
  network error or a timeout); the other calls succeed.
\<close>

definition offline_service :: "nat trading_service" where
  "offline_service =
     \<lparr>mockMode = False,
      positionRequest = (\<lambda>x. (Failure NoReply, x)),
      alternativeRequest = (\<lambda>x. (Failure NoReply, x)),
      getOpenOrders = (\<lambda>x. (Some x, x)),
      cancelAllOrders = (\<lambda>x. (Some True, 0)),
      createFuturesOrder = (\<lambda>r x. (Accepted, x + 1)),
      getMarketPrice = (\<lambda>x. (Some 101, x)),
      priceDataAge = (\<lambda>x. Some 0),
      clock = (\<lambda>x. 2000000)\<rparr>"

definition sample_config :: trading_config where
  "sample_config =
     \<lparr>cancelExistingOrdersOnStart = Some True, takeProfitPercentage = 1/2,
      noFillRestartMinutes = Some 30,
      calculateIncrementalOrders =
        (\<lambda>p. [\<lparr>r_side = ''Buy'', r_orderType = ''Limit'', r_quantity = 1, r_price = Some p\<rparr>])\<rparr>"

definition holding_long :: controller where
  "holding_long =
     \<lparr>running = True, canFetchPositions = True, hasOpenPosition = True, positionAmount = 1,
      entryPrice = 100, unrealizedPnl = 0, app_positionSide = LONG,
      app_stopLossPercentage = 3, app_takeProfitPercentage = 1/2, stopLossPrice = 97,
      takeProfitPrice = 201/2, takeProfitTriggered = False, lastPositionClosedReason = None,
      monitoringInterval = True, lastPositionCheckTime = 0, monitor_lastPositionCheckTime = 0,
      monitoringAttempts = 0\<rparr>"

definition two_open_orders :: "nat world" where
  "two_open_orders = \<lparr>ex = 2, actions = []\<rparr>"

text \<open>
  The promise of \<open>getPositions\<close> is never rejected, and a failed request resolves to
  \<open>null\<close> (or to \<open>[]\<close>, or to what the alternative request gives).
  \<open>getPositionInfo\<close> then sets \<open>canFetchPositions\<close>: the flag is cleared only when
  the service hands over an array whose first element is \<open>null\<close>. So the tests of the
  flag in \<open>executeTrade\<close> (lines 450-454) and in the no-fill branch of the monitoring
  callback (lines 908-912) do not fire when the position query fails.
\<close>

lemma after_failure_resolves: "\<exists>r. fst (after_failure svc err x1) = Inr r"
proof -
  obtain r x2 where alt: "getPositionsAlternative svc x1 = (r, x2)"
    by (cases "getPositionsAlternative svc x1")
  show ?thesis using alt by (simp add: after_failure_def)
qed

lemma getPositions_never_rejects: "\<exists>r. fst (getPositions svc x) = Inr r"
proof (cases "positionRequest svc x")
  case (Pair outcome x1)
  show ?thesis
  proof (cases outcome)
    case SignatureError
    then show ?thesis using Pair by (simp add: getPositions_def)
  next
    case (Response status data)
    then show ?thesis using Pair after_failure_resolves[of svc NoReply x1]
      by (auto simp add: getPositions_def split: body.splits list.splits option.splits)
  next
    case (Failure err)
    then show ?thesis using Pair after_failure_resolves[of svc err x1]
      by (simp add: getPositions_def)
  qed
qed

lemma canFetchPositions_cleared_only_by_null_element:
  assumes "\<not> canFetchPositions (fst (getPositionInfo svc c w))"
  shows "\<exists>ps. fst (getPositions svc (ex w)) = Inr (Some (None # ps))"
proof -
  obtain r where r: "fst (getPositions svc (ex w)) = Inr r"
    using getPositions_never_rejects[of svc "ex w"] by auto
  then obtain x' where g: "getPositions svc (ex w) = (Inr r, x')"
    by (cases "getPositions svc (ex w)") simp
  show ?thesis
  proof (cases r)
    case None
    then show ?thesis using assms g by (simp add: getPositionInfo_def no_position_def)
  next
    case (Some ps)
    show ?thesis
    proof (cases ps)
      case Nil
      then show ?thesis using assms g Some by (simp add: getPositionInfo_def no_position_def)
    next
      case (Cons p ps')
      then show ?thesis using assms g Some by (cases p) (simp_all add: getPositionInfo_def)
    qed
  qed
qed

lemma failed_request_is_null:
  "\<not> mockMode svc \<Longrightarrow> positionRequest svc x = (Failure NoReply, x1) \<Longrightarrow>
     getPositions svc x = (Inr None, x1)"
  by (simp add: getPositions_def after_failure_def isAuthError_def isNotFoundError_def)

lemma failed_request_clears_position:
  "\<not> mockMode svc \<Longrightarrow> positionRequest svc (ex w) = (Failure NoReply, x1) \<Longrightarrow>
     getPositionInfo svc c w = (no_position c, w\<lparr>ex := x1\<rparr>)"
  by (simp add: getPositionInfo_def failed_request_is_null)

text \<open>
  Claim C7. The claim says that a tick in which the position query fails cancels and
  creates no orders, on the trade-execution path and on the monitoring path. The code
  has the risk check (\<open>canFetchPositions\<close>, tested in \<open>executeTrade\<close> and in the
  no-fill branch), but the flag is cleared by an exception that \<open>getPositions\<close> never
  raises: a failed request resolves to \<open>null\<close>, \<open>getPositionInfo\<close> takes it for "no position",
  sets \<open>canFetchPositions\<close> and clears the position it knew. In the situation above
  the position request fails, and \<open>executeTrade\<close> cancels the open orders and submits
  a new ladder on top of the position it has forgotten; the monitoring tick, with the
  no-fill interval elapsed, does the same.
\<close>

theorem failed_position_query_places_orders:
  "fst (positionRequest offline_service 2) = Failure NoReply
   \<and> fst (getPositions offline_service 2) = Inr None
   \<and> canFetchPositions (fst (executeTrade offline_service sample_config holding_long two_open_orders))
   \<and> \<not> hasOpenPosition (fst (executeTrade offline_service sample_config holding_long two_open_orders))
   \<and> actions (snd (executeTrade offline_service sample_config holding_long two_open_orders)) =
       [CancelAllOrders,
        CreateOrder \<lparr>r_side = ''Buy'', r_orderType = ''Limit'', r_quantity = 1, r_price = Some 101\<rparr>]
   \<and> actions (snd (monitoring_tick offline_service sample_config holding_long two_open_orders)) =
       [CancelAllOrders,
        CreateOrder \<lparr>r_side = ''Buy'', r_orderType = ''Limit'', r_quantity = 1, r_price = Some 101\<rparr>]"
  by code_simp

section \<open>ConnectionManager: \<open>WebSocketManager\<close>\<close>

text \<open>
  Source: \<open>src/network/webSocketManager.js\<close>.

  The manager is an object with mutable fields and callbacks registered on a socket and
  on timers. The model is a record of the fields the control flow reads or the claims
  mention, and one function per method or callback, from the state before to the state
  after. The socket \<open>this.ws\<close> is the ready state of the socket object, or \<open>None\<close>
  for \<open>null\<close>. Timers are fields too: \<open>reconnectTimeout\<close> holds the delay of the
  armed reconnect timer, \<open>heartbeatInterval\<close> and \<open>messageCleanupInterval\<close> say
  whether the interval is armed, \<open>connectionTimeouts\<close> lists the connection ids whose
  10 s connection timeout is armed, \<open>retryTimers\<close> and \<open>resetTimers\<close> count the armed
  anonymous timers of \<open>setupPriceWebSocket\<close> (1 s retry while a socket is closing) and of
  \<open>resetConnection\<close> (5 s reconnect). Every clock reading \<open>Date.now()\<close> is an
  argument \<open>now\<close>. Logging fields and log calls are left out; of the heartbeat
  callback only its call of \<open>resetConnection\<close> is modelled, as an event of the next
  section.

  \<open>processedMessages\<close> is a JavaScript \<open>Map\<close>; it is the list of its entries in
  insertion order.
\<close>

datatype readyState = CONNECTING | OPEN | CLOSING | CLOSED

text \<open>
  What \<open>processMessage\<close> observes of an inbound payload. A text field that is
  \<open>undefined\<close> or empty is the empty string (both are falsy); the event timestamp
  \<open>E\<close> is a number, with 0 for a missing one (both are falsy). A price field is absent,
  a text \<open>parseFloat\<close> cannot read, or a text with its \<open>parseFloat\<close> value.
  \<open>msg_data = None\<close> stands for a message without usable \<open>data\<close>;
  \<open>msg_subscription_ack\<close> is the truth value of the subscription test of lines
  481-485.
\<close>

datatype num_field = Absent | Unparseable | Number real

record ticker_data =
  d_e :: string
  d_s :: string
  d_E :: int
  d_symbol :: string
  d_price :: num_field
  d_c :: num_field
  d_lastPrice :: num_field

record ws_message =
  msg_data :: "ticker_data option"
  msg_symbol :: string
  msg_error :: bool
  msg_subscription_ack :: bool

record price_info =
  pi_symbol :: string
  pi_price :: "real option"
  pi_time :: int
  pi_raw :: ticker_data

record subscription_state =
  lastAttemptTime :: int
  attemptCount :: nat
  currentFormatIndex :: nat
  isSubscribed :: bool
  pendingSubscription :: bool
  subscribed :: bool
  lastSubscribedTime :: int

record ws_manager =
  ws :: "readyState option"
  connectionActive :: bool
  heartbeatInterval :: bool
  reconnectTimeout :: "real option"
  messageCleanupInterval :: bool
  reconnectAttempts :: nat
  maxReconnectAttempts :: nat
  reconnectDelay :: "real option"
  failedToConnect :: bool
  lastConnectTime :: int
  connectionId :: nat
  connectOperationInProgress :: bool
  pendingConnection :: bool
  lastCloseTime :: int
  activeConnectionCount :: int
  lastHeartbeatResponse :: int
  lastResponseTime :: int
  symbol :: string
  subscriptionState :: subscription_state
  processedMessages :: "(string \<times> int) list"
  maxProcessedMessages :: nat
  lastPriceData :: "ticker_data option"
  connectionTimeouts :: "nat list"
  retryTimers :: nat
  resetTimers :: nat

definition constructor :: "int \<Rightarrow> ws_manager" where
  "constructor now =
     \<lparr>ws = None, connectionActive = False, heartbeatInterval = False, reconnectTimeout = None,
      messageCleanupInterval = True, reconnectAttempts = 0, maxReconnectAttempts = 5,
      reconnectDelay = None, failedToConnect = False, lastConnectTime = 0, connectionId = 0,
      connectOperationInProgress = False, pendingConnection = False, lastCloseTime = 0,
      activeConnectionCount = 0, lastHeartbeatResponse = now, lastResponseTime = now,
      symbol = [],
      subscriptionState = \<lparr>lastAttemptTime = 0, attemptCount = 0, currentFormatIndex = 0,
         isSubscribed = False, pendingSubscription = False, subscribed = False,
         lastSubscribedTime = 0\<rparr>,
      processedMessages = [], maxProcessedMessages = 1000, lastPriceData = None,
      connectionTimeouts = [], retryTimers = 0, resetTimers = 0\<rparr>"

text \<open>
  \<open>terminate()\<close> of the \<open>ws\<close> library leaves a closed socket closed and puts any
  other socket into the closing state.
\<close>

definition terminate :: "readyState \<Rightarrow> readyState" where
  "terminate st = (if st = CLOSED then CLOSED else CLOSING)"

definition closeWebSocket :: "ws_manager \<Rightarrow> int \<Rightarrow> ws_manager" where
  "closeWebSocket s now =
     (let s1 = s\<lparr>connectionActive := False, heartbeatInterval := False, reconnectTimeout := None,
                 messageCleanupInterval := False, connectOperationInProgress := False,
                 pendingConnection := False\<rparr>;
          s2 = (case ws s1 of
                  Some st \<Rightarrow> s1\<lparr>ws := None, lastCloseTime := now, activeConnectionCount := 0\<rparr>
                | None \<Rightarrow> s1\<lparr>activeConnectionCount := 0\<rparr>)
      in s2\<lparr>subscriptionState := (subscriptionState s2)
               \<lparr>isSubscribed := False, pendingSubscription := False, attemptCount := 0\<rparr>\<rparr>)"

definition resetConnectionState :: "ws_manager \<Rightarrow> ws_manager" where
  "resetConnectionState s =
     s\<lparr>reconnectAttempts := 0, failedToConnect := False, lastConnectTime := 0,
       connectOperationInProgress := False, pendingConnection := False,
       activeConnectionCount := 0,
       subscriptionState := (subscriptionState s)
         \<lparr>isSubscribed := False, attemptCount := 0, lastAttemptTime := 0, currentFormatIndex := 0\<rparr>,
       processedMessages := [],
       messageCleanupInterval := True\<rparr>"

definition closeAllConnections :: "ws_manager \<Rightarrow> int \<Rightarrow> ws_manager" where
  "closeAllConnections s now =
     resetConnectionState
       ((closeWebSocket s now)
          \<lparr>activeConnectionCount := 0, connectOperationInProgress := False,
           connectionActive := False, pendingConnection := False, reconnectTimeout := None,
           heartbeatInterval := False, messageCleanupInterval := False, processedMessages := [],
           ws := None\<rparr>)"

definition subscribeTicker :: "ws_manager \<Rightarrow> string \<Rightarrow> int \<Rightarrow> ws_manager" where
  "subscribeTicker s symb now =
     (if ws s \<noteq> Some OPEN then s
      else s\<lparr>subscriptionState := (subscriptionState s)
                \<lparr>pendingSubscription := True, lastAttemptTime := now\<rparr>,
             symbol := symb\<rparr>)"

definition setupHeartbeat :: "ws_manager \<Rightarrow> ws_manager" where
  "setupHeartbeat s = s\<lparr>heartbeatInterval := True\<rparr>"

definition js_or_real :: "real option \<Rightarrow> real \<Rightarrow> real" where
  "js_or_real v d = (case v of None \<Rightarrow> d | Some x \<Rightarrow> if x = 0 then d else x)"

definition handleReconnect :: "ws_manager \<Rightarrow> ws_manager" where
  "handleReconnect s =
     (if reconnectTimeout s \<noteq> None then s
      else if reconnectAttempts s \<ge> maxReconnectAttempts s then s\<lparr>failedToConnect := True\<rparr>
      else
        (let attempts = reconnectAttempts s + 1;
             baseDelay = js_or_real (reconnectDelay s) 5000;
             delay = min (baseDelay * (3/2) ^ (attempts - 1)) 60000
         in s\<lparr>reconnectAttempts := attempts, reconnectTimeout := Some delay\<rparr>))"

definition isConnected :: "ws_manager \<Rightarrow> int \<Rightarrow> bool" where
  "isConnected s now =
     (let wsValid = (connectionActive s \<and> ws s = Some OPEN)
      in if wsValid \<and> lastHeartbeatResponse s \<noteq> 0
         then (if now - lastHeartbeatResponse s > 90000 then False else wsValid)
         else wsValid)"

definition setupPriceWebSocket :: "ws_manager \<Rightarrow> string \<Rightarrow> int \<Rightarrow> bool \<Rightarrow> ws_manager" where
  "setupPriceWebSocket s symb now constructed =
     (let s0 = s\<lparr>symbol := symb\<rparr>
      in if ws s0 = Some OPEN \<and> activeConnectionCount s0 > 0
         then (if isSubscribed (subscriptionState s0) then s0 else subscribeTicker s0 symb now)
         else if ws s0 = Some CLOSING
         then s0\<lparr>pendingConnection := True, retryTimers := retryTimers s0 + 1\<rparr>
         else if ws s0 = Some CONNECTING then s0
         else
           (let s1 = (if ws s0 \<noteq> None \<or> activeConnectionCount s0 > 0
                      then (closeAllConnections s0 now)\<lparr>activeConnectionCount := 0\<rparr>
                      else s0)
            in if connectOperationInProgress s1 then s1\<lparr>pendingConnection := True\<rparr>
               else
                 (let s2 = s1\<lparr>connectOperationInProgress := True,
                              connectionId := connectionId s1 + 1,
                              lastConnectTime := now,
                              activeConnectionCount := 1\<rparr>
                  in if constructed
                     then s2\<lparr>ws := Some CONNECTING,
                             connectionTimeouts := connectionTimeouts s2 @ [connectionId s2]\<rparr>
                     else handleReconnect
                            (s2\<lparr>connectOperationInProgress := False,
                                activeConnectionCount := activeConnectionCount s2 - 1\<rparr>))))"

definition connectionTimeout_callback :: "ws_manager \<Rightarrow> ws_manager" where
  "connectionTimeout_callback s =
     (case ws s of
        None \<Rightarrow> s
      | Some st \<Rightarrow>
          (if st \<noteq> OPEN
           then handleReconnect
                  (s\<lparr>ws := None, activeConnectionCount := 0, connectOperationInProgress := False\<rparr>)
           else s))"

definition reconnectTimeout_callback :: "ws_manager \<Rightarrow> int \<Rightarrow> bool \<Rightarrow> ws_manager" where
  "reconnectTimeout_callback s now constructed =
     (let s1 = s\<lparr>reconnectTimeout := None, connectOperationInProgress := False\<rparr>
      in if isConnected s1 now then s1
         else
           (let s2 = (if now - lastCloseTime s1 > 30000
                      then s1\<lparr>subscriptionState := (subscriptionState s1)\<lparr>isSubscribed := False\<rparr>\<rparr>
                      else s1)
            in setupPriceWebSocket s2 (symbol s2) now constructed))"

definition pendingRetry_callback :: "ws_manager \<Rightarrow> int \<Rightarrow> bool \<Rightarrow> ws_manager" where
  "pendingRetry_callback s now constructed =
     (if pendingConnection s
      then setupPriceWebSocket (s\<lparr>pendingConnection := False\<rparr>) (symbol s) now constructed
      else s)"

definition onOpen :: "ws_manager \<Rightarrow> nat \<Rightarrow> int \<Rightarrow> ws_manager" where
  "onOpen s currentConnectionId now =
     (if currentConnectionId \<noteq> connectionId s
      then (case ws s of
              None \<Rightarrow> s
            | Some st \<Rightarrow> s\<lparr>ws := Some (terminate st),
                            activeConnectionCount := activeConnectionCount s - 1\<rparr>)
      else
        (let s1 = s\<lparr>connectionTimeouts := removeAll currentConnectionId (connectionTimeouts s),
                     connectionActive := True, connectOperationInProgress := False,
                     reconnectAttempts := 0, failedToConnect := False\<rparr>;
             s2 = setupHeartbeat (subscribeTicker s1 (symbol s1) now)
         in if pendingConnection s2 then s2\<lparr>pendingConnection := False\<rparr> else s2))"

definition onClose :: "ws_manager \<Rightarrow> nat \<Rightarrow> int \<Rightarrow> ws_manager" where
  "onClose s currentConnectionId now =
     (if currentConnectionId \<noteq> connectionId s then s
      else handleReconnect
             (s\<lparr>connectionTimeouts := removeAll currentConnectionId (connectionTimeouts s),
                connectionActive := False,
                activeConnectionCount := activeConnectionCount s - 1,
                lastCloseTime := now,
                connectOperationInProgress := False,
                heartbeatInterval := False\<rparr>))"

definition onError :: "ws_manager \<Rightarrow> nat \<Rightarrow> ws_manager" where
  "onError s currentConnectionId = (if currentConnectionId \<noteq> connectionId s then s else s)"

text \<open>
  Text helpers: \<open>a || d\<close> on texts, the decimal rendering of a number inside a template
  literal, ASCII \<open>toLowerCase\<close>, \<open>a || b || c\<close> on price fields and \<open>parseFloat\<close>
  (\<open>None\<close> is \<open>NaN\<close>). \<open>String.replace('_', '')\<close> removes the first underscore only,
  which is \<open>remove1\<close>.
\<close>

definition js_str_or :: "string \<Rightarrow> string \<Rightarrow> string" where
  "js_str_or s d = (if s = [] then d else s)"

definition digit_char :: "int \<Rightarrow> char" where
  "digit_char d = ''0123456789'' ! nat d"

function show_digits :: "int \<Rightarrow> string" where
  "show_digits n = (if n < 10 then [digit_char n] else show_digits (n div 10) @ [digit_char (n mod 10)])"
  by pat_completeness auto
termination
  by (relation "measure nat") auto

declare show_digits.simps [simp del]

definition show_int :: "int \<Rightarrow> string" where
  "show_int n = (if n < 0 then CHR ''-'' # show_digits (- n) else show_digits n)"

definition lower_char :: "char \<Rightarrow> char" where
  "lower_char c =
     (if 65 \<le> (of_char c :: nat) \<and> (of_char c :: nat) \<le> 90
      then char_of ((of_char c :: nat) + 32) else c)"

definition toLowerCase :: "string \<Rightarrow> string" where
  "toLowerCase s = map lower_char s"

definition first_present :: "num_field list \<Rightarrow> num_field" where
  "first_present fs = (case filter (\<lambda>f. f \<noteq> Absent) fs of [] \<Rightarrow> Absent | f # _ \<Rightarrow> f)"

definition parseFloat :: "num_field \<Rightarrow> real option" where
  "parseFloat f = (case f of Number r \<Rightarrow> Some r | _ \<Rightarrow> None)"

definition messageId :: "ticker_data \<Rightarrow> string" where
  "messageId priceData =
     js_str_or (d_e priceData) ''unknown'' @ ''_'' @ js_str_or (d_s priceData) ''unknown''
       @ ''_'' @ show_int (d_E priceData)"

text \<open>
  \<open>processMessage\<close>, lines 422-580, in its steps: the dedup test and the insertion into
  \<open>processedMessages\<close> (lines 436-450), the ticker symbol (line 453), the subscription
  confirmation (lines 481-492), and the price information handed to \<open>onPriceUpdate\<close>
  (lines 505-554). The function returns the new state and the argument of the
  \<open>onPriceUpdate\<close> call, if the call is made.
\<close>

definition already_processed :: "ws_manager \<Rightarrow> ticker_data \<Rightarrow> bool" where
  "already_processed s priceData =
     (d_E priceData \<noteq> 0 \<and> messageId priceData \<in> fst ` set (processedMessages s))"

definition mark_processed :: "ws_manager \<Rightarrow> ticker_data \<Rightarrow> int \<Rightarrow> ws_manager" where
  "mark_processed s priceData currentTime =
     (if d_E priceData \<noteq> 0
      then s\<lparr>processedMessages := processedMessages s @ [(messageId priceData, currentTime)]\<rparr>
      else s)"

definition tickerSymbol_of :: "ws_message \<Rightarrow> ticker_data \<Rightarrow> string" where
  "tickerSymbol_of message priceData =
     (if d_symbol priceData \<noteq> [] then d_symbol priceData
      else if d_s priceData \<noteq> [] then d_s priceData
      else if d_e priceData = ''ticker'' then msg_symbol message
      else [])"

definition confirm_subscription :: "ws_manager \<Rightarrow> ws_message \<Rightarrow> int \<Rightarrow> ws_manager" where
  "confirm_subscription s message currentTime =
     (if msg_subscription_ack message \<and> pendingSubscription (subscriptionState s)
      then s\<lparr>subscriptionState := (subscriptionState s)
              \<lparr>pendingSubscription := False, subscribed := True,
               lastSubscribedTime := currentTime\<rparr>\<rparr>
      else s)"

definition priceInfo_of :: "string \<Rightarrow> ws_message \<Rightarrow> ticker_data \<Rightarrow> int \<Rightarrow> price_info option" where
  "priceInfo_of this_symbol message priceData now =
     (let tickerSymbol = tickerSymbol_of message priceData
      in if this_symbol \<noteq> [] \<and> tickerSymbol \<noteq> []
            \<and> toLowerCase this_symbol = toLowerCase tickerSymbol
         then Some \<lparr>pi_symbol = tickerSymbol,
                    pi_price = parseFloat (first_present
                                 [d_price priceData, d_c priceData, d_lastPrice priceData]),
                    pi_time = now, pi_raw = priceData\<rparr>
         else if d_e priceData = ''ticker''
         then
           (let backpackSymbol = d_s priceData;
                normalizedSymbol = toLowerCase (remove1 CHR ''_'' backpackSymbol);
                normalizedConfigSymbol = toLowerCase (remove1 CHR ''_'' this_symbol)
            in if normalizedSymbol = normalizedConfigSymbol
               then Some \<lparr>pi_symbol = backpackSymbol,
                          pi_price = parseFloat (first_present
                                       [d_c priceData, d_price priceData, d_lastPrice priceData]),
                          pi_time = now, pi_raw = priceData\<rparr>
               else None)
         else None)"

definition processMessage ::
  "ws_manager \<Rightarrow> ws_message \<Rightarrow> int \<Rightarrow> ws_manager \<times> price_info option" where
  "processMessage s message now =
     (case msg_data message of
        None \<Rightarrow> (s, None)
      | Some priceData \<Rightarrow>
          if already_processed s priceData then (s, None)
          else
            (let s1 = mark_processed s priceData now;
                 s2 = s1\<lparr>lastResponseTime := now\<rparr>;
                 s3 = confirm_subscription s2 message now
             in if msg_error message then (s3, None)
                else (case priceInfo_of (symbol s3) message priceData now of
                        None \<Rightarrow> (s3, None)
                      | Some priceInfo \<Rightarrow> (s3\<lparr>lastPriceData := Some priceData\<rparr>, Some priceInfo))))"

definition onMessage ::
  "ws_manager \<Rightarrow> nat \<Rightarrow> ws_message \<Rightarrow> int \<Rightarrow> ws_manager \<times> price_info option" where
  "onMessage s currentConnectionId message now =
     (if currentConnectionId \<noteq> connectionId s then (s, None)
      else processMessage s message now)"

definition messageCleanup_callback :: "ws_manager \<Rightarrow> int \<Rightarrow> ws_manager" where
  "messageCleanup_callback s now =
     (if processedMessages s = [] then s
      else
        (let kept = filter (\<lambda>(key, timestamp). \<not> (now - timestamp > 10 * 60 * 1000))
                      (processedMessages s);
             kept' = (if length kept > maxProcessedMessages s
                      then (let entriesToRemove = length kept - maxProcessedMessages s;
                                entries = take entriesToRemove (sort_key snd kept)
                            in filter (\<lambda>(key, timestamp). key \<notin> fst ` set entries) kept)
                      else kept)
         in s\<lparr>processedMessages := kept'\<rparr>))"

definition resetConnection :: "ws_manager \<Rightarrow> int \<Rightarrow> ws_manager" where
  "resetConnection s now =
     (let s1 = (closeWebSocket s now)
                 \<lparr>connectionActive := False, activeConnectionCount := 0,
                  connectOperationInProgress := False, pendingConnection := False,
                  heartbeatInterval := False, reconnectTimeout := None\<rparr>
      in s1\<lparr>subscriptionState := (subscriptionState s1)
               \<lparr>isSubscribed := False, attemptCount := 0, lastAttemptTime := 0,
                currentFormatIndex := 0\<rparr>,
            resetTimers := resetTimers s1 + 1\<rparr>)"

definition resetTimer_callback :: "ws_manager \<Rightarrow> int \<Rightarrow> bool \<Rightarrow> ws_manager" where
  "resetTimer_callback s now constructed =
     (if symbol s \<noteq> [] then setupPriceWebSocket s (symbol s) now constructed else s)"

text \<open>
  The callbacks as events. An event carries the connection id its closure captured. What
  the \<open>ws\<close> library guarantees is written into the step: the open event of the current
  connection comes from a connecting socket, which is open when the handler runs; a close
  event of the current connection leaves the socket closed; a message of the current
  connection needs an open socket; a timer callback runs only when its timer is armed.
  \<open>None\<close> means that the event cannot occur in the state. The flag of the three timer
  events says whether \<open>new WebSocket(...)\<close> returns (\<open>True\<close>) or throws.
\<close>

datatype ws_event =
    EvOpen nat
  | EvMessage nat ws_message
  | EvError nat
  | EvClose nat
  | EvConnectionTimeout nat
  | EvReconnectTimer bool
  | EvPendingRetry bool
  | EvResetTimer bool

fun wsm_step :: "ws_manager \<Rightarrow> int \<times> ws_event \<Rightarrow> ws_manager option" where
  "wsm_step s (now, EvOpen cid) =
     (if cid = connectionId s
      then (if ws s = Some CONNECTING then Some (onOpen (s\<lparr>ws := Some OPEN\<rparr>) cid now) else None)
      else Some (onOpen s cid now))"
| "wsm_step s (now, EvMessage cid message) =
     (if cid = connectionId s \<and> ws s \<noteq> Some OPEN then None
      else Some (fst (onMessage s cid message now)))"
| "wsm_step s (now, EvError cid) = Some (onError s cid)"
| "wsm_step s (now, EvClose cid) =
     (if cid = connectionId s
      then Some (onClose (s\<lparr>ws := map_option (\<lambda>st. CLOSED) (ws s)\<rparr>) cid now)
      else Some (onClose s cid now))"
| "wsm_step s (now, EvConnectionTimeout cid) =
     (if cid \<in> set (connectionTimeouts s)
      then Some (connectionTimeout_callback
                   (s\<lparr>connectionTimeouts := removeAll cid (connectionTimeouts s)\<rparr>))
      else None)"
| "wsm_step s (now, EvReconnectTimer constructed) =
     (if reconnectTimeout s \<noteq> None then Some (reconnectTimeout_callback s now constructed)
      else None)"
| "wsm_step s (now, EvPendingRetry constructed) =
     (if retryTimers s > 0
      then Some (pendingRetry_callback (s\<lparr>retryTimers := retryTimers s - 1\<rparr>) now constructed)
      else None)"
| "wsm_step s (now, EvResetTimer constructed) =
     (if resetTimers s > 0
      then Some (resetTimer_callback (s\<lparr>resetTimers := resetTimers s - 1\<rparr>) now constructed)
      else None)"

fun wsm_run :: "ws_manager \<Rightarrow> (int \<times> ws_event) list \<Rightarrow> ws_manager option" where
  "wsm_run s [] = Some s"
| "wsm_run s (e # es) = (case wsm_step s e of None \<Rightarrow> None | Some s' \<Rightarrow> wsm_run s' es)"

text \<open>
  The manager has used up its reconnect attempts and nothing is armed that would connect
  again: no reconnect timer, no retry timer, no reset timer, and no socket still
  connecting.
\<close>

definition gave_up :: "ws_manager \<Rightarrow> bool" where
  "gave_up s =
     (reconnectAttempts s \<ge> maxReconnectAttempts s \<and> reconnectTimeout s = None
      \<and> retryTimers s = 0 \<and> resetTimers s = 0 \<and> ws s \<noteq> Some CONNECTING)"

text \<open>
  Two concrete runs after the first \<open>setupPriceWebSocket\<close>: every connection attempt
  times out (the reconnect delays are 5, 7.5, 11.25, 16.875 and 25.3125 s), and every
  connection attempt is closed by the server.
\<close>

definition timeouts_trace :: "(int \<times> ws_event) list" where
  "timeouts_trace =
     [(11000, EvConnectionTimeout 1), (16000, EvReconnectTimer True),
      (26000, EvConnectionTimeout 2), (33500, EvReconnectTimer True),
      (43500, EvConnectionTimeout 3), (54750, EvReconnectTimer True),
      (64750, EvConnectionTimeout 4), (81625, EvReconnectTimer True),
      (91625, EvConnectionTimeout 5), (116938, EvReconnectTimer True),
      (126938, EvConnectionTimeout 6)]"

definition closes_trace :: "(int \<times> ws_event) list" where
  "closes_trace =
     [(2000, EvClose 1), (7000, EvReconnectTimer True),
      (8000, EvClose 2), (13000, EvReconnectTimer True),
      (14000, EvClose 3), (19000, EvReconnectTimer True)]"

definition wsm_connecting :: ws_manager where
  "wsm_connecting = setupPriceWebSocket (constructor 0) ''BTC_USDC_PERP'' 1000 True"

definition wsm_gave_up :: ws_manager where
  "wsm_gave_up =
     (constructor 0)\<lparr>reconnectAttempts := 5, failedToConnect := True, lastConnectTime := 116938,
        connectionId := 6, symbol := ''BTC_USDC_PERP''\<rparr>"

definition conn_view ::
  "ws_manager \<Rightarrow> readyState option \<times> nat \<times> nat \<times> real option \<times> nat \<times> nat \<times> nat \<times> bool" where
  "conn_view s = (ws s, reconnectAttempts s, maxReconnectAttempts s, reconnectTimeout s,
                  retryTimers s, resetTimers s, connectionId s, failedToConnect s)"

definition stays_given_up :: "ws_manager \<Rightarrow> ws_manager \<Rightarrow> bool" where
  "stays_given_up s s' =
     (gave_up s' \<and> failedToConnect s' \<and> connectionId s' = connectionId s
      \<and> reconnectAttempts s' = reconnectAttempts s
      \<and> maxReconnectAttempts s' = maxReconnectAttempts s)"

definition after_gave_up_trace :: "(int \<times> ws_event) list" where
  "after_gave_up_trace = [(127000, EvError 6), (127001, EvClose 6), (127002, EvOpen 3),
                          (127003, EvClose 5)]"

text \<open>
  The state after the first connection timed out and the reconnect timer opened
  connection 2, which is still connecting.
\<close>

definition wsm_second :: ws_manager where
  "wsm_second =
     (constructor 0)\<lparr>ws := Some CONNECTING, reconnectAttempts := 1, lastConnectTime := 16000,
        connectionId := 2, connectOperationInProgress := True, activeConnectionCount := 1,
        symbol := ''BTC_USDC_PERP'', connectionTimeouts := [2]\<rparr>"

lemma handleReconnect_gave_up:
  "gave_up s \<Longrightarrow> handleReconnect s = s\<lparr>failedToConnect := True\<rparr>"
  by (simp add: gave_up_def handleReconnect_def)

lemma gave_up_flag_update [simp]: "gave_up (s\<lparr>failedToConnect := b\<rparr>) = gave_up s"
  by (simp add: gave_up_def)

lemma conn_view_mark_processed [simp]: "conn_view (mark_processed s d t) = conn_view s"
  by (simp add: mark_processed_def conn_view_def)

lemma conn_view_confirm_subscription [simp]: "conn_view (confirm_subscription s m t) = conn_view s"
  by (simp add: confirm_subscription_def conn_view_def)

lemma conn_view_lastResponseTime [simp]: "conn_view (s\<lparr>lastResponseTime := t\<rparr>) = conn_view s"
  by (simp add: conn_view_def)

lemma conn_view_lastPriceData [simp]: "conn_view (s\<lparr>lastPriceData := d\<rparr>) = conn_view s"
  by (simp add: conn_view_def)

lemma conn_view_processMessage: "conn_view (fst (processMessage s m now)) = conn_view s"
  by (simp add: processMessage_def Let_def split: option.split)

lemma gave_up_conn_view: "conn_view s' = conn_view s \<Longrightarrow> gave_up s' = gave_up s"
  by (simp add: gave_up_def conn_view_def)

lemma conn_view_fields:
  "conn_view s' = conn_view s \<Longrightarrow>
     failedToConnect s' = failedToConnect s \<and> connectionId s' = connectionId s
     \<and> reconnectAttempts s' = reconnectAttempts s
     \<and> maxReconnectAttempts s' = maxReconnectAttempts s"
  by (simp add: conn_view_def)

lemma stays_given_up_view:
  "gave_up s \<Longrightarrow> failedToConnect s \<Longrightarrow> conn_view s' = conn_view s \<Longrightarrow> stays_given_up s s'"
  using gave_up_conn_view[of s' s] conn_view_fields[of s' s] by (simp add: stays_given_up_def)

lemma handleReconnect_stays:
  assumes "reconnectAttempts s \<ge> maxReconnectAttempts s" "reconnectTimeout s = None"
  shows "handleReconnect s = s\<lparr>failedToConnect := True\<rparr>"
  using assms by (simp add: handleReconnect_def)

lemma onOpen_stale_stays:
  assumes "gave_up s" "failedToConnect s" "cid \<noteq> connectionId s"
  shows "stays_given_up s (onOpen s cid now)"
proof (cases "ws s")
  case None
  then show ?thesis using assms by (simp add: onOpen_def stays_given_up_def)
next
  case (Some st)
  then have "onOpen s cid now =
      s\<lparr>ws := Some (terminate st), activeConnectionCount := activeConnectionCount s - 1\<rparr>"
    using assms(3) by (simp add: onOpen_def)
  then show ?thesis using assms(1,2) by (simp add: stays_given_up_def gave_up_def terminate_def)
qed

lemma onClose_view:
  assumes "reconnectAttempts t \<ge> maxReconnectAttempts t" "reconnectTimeout t = None"
  shows "conn_view (onClose t cid now) =
           (ws t, reconnectAttempts t, maxReconnectAttempts t, None, retryTimers t, resetTimers t,
            connectionId t, (cid = connectionId t \<or> failedToConnect t))"
  using assms by (simp add: onClose_def handleReconnect_def conn_view_def)

lemma onClose_stays:
  assumes "gave_up s" "failedToConnect s"
  shows "stays_given_up s (onClose (s\<lparr>ws := map_option (\<lambda>st. CLOSED) (ws s)\<rparr>) cid now)"
    and "stays_given_up s (onClose s cid now)"
proof -
  let ?s0 = "s\<lparr>ws := map_option (\<lambda>st. CLOSED) (ws s)\<rparr>"
  have a: "reconnectAttempts s \<ge> maxReconnectAttempts s" "reconnectTimeout s = None"
    using assms(1) by (simp_all add: gave_up_def)
  have ws0: "map_option (\<lambda>st. CLOSED) (ws s) \<noteq> Some CONNECTING" by (cases "ws s") simp_all
  have v0: "conn_view (onClose ?s0 cid now) =
           (ws ?s0, reconnectAttempts ?s0, maxReconnectAttempts ?s0, None, retryTimers ?s0,
            resetTimers ?s0, connectionId ?s0, (cid = connectionId ?s0 \<or> failedToConnect ?s0))"
    by (rule onClose_view) (simp_all add: a)
  show "stays_given_up s (onClose ?s0 cid now)"
    using v0 assms ws0 by (simp add: stays_given_up_def gave_up_def conn_view_def)
  have v1: "conn_view (onClose s cid now) =
           (ws s, reconnectAttempts s, maxReconnectAttempts s, None, retryTimers s,
            resetTimers s, connectionId s, (cid = connectionId s \<or> failedToConnect s))"
    by (rule onClose_view) (simp_all add: a)
  show "stays_given_up s (onClose s cid now)"
    using v1 assms by (simp add: stays_given_up_def gave_up_def conn_view_def)
qed

lemma connectionTimeout_stays:
  assumes "gave_up s" "failedToConnect s"
  shows "stays_given_up s
           (connectionTimeout_callback (s\<lparr>connectionTimeouts := removeAll cid (connectionTimeouts s)\<rparr>))"
proof -
  let ?s0 = "s\<lparr>connectionTimeouts := removeAll cid (connectionTimeouts s)\<rparr>"
  let ?s1 = "?s0\<lparr>ws := None, activeConnectionCount := 0, connectOperationInProgress := False\<rparr>"
  have a: "reconnectAttempts s \<ge> maxReconnectAttempts s" "reconnectTimeout s = None"
    using assms(1) by (simp_all add: gave_up_def)
  have h: "handleReconnect ?s1 = ?s1\<lparr>failedToConnect := True\<rparr>"
    by (rule handleReconnect_stays) (simp_all add: a)
  show ?thesis
  proof (cases "ws s")
    case None
    then have "connectionTimeout_callback ?s0 = ?s0" by (simp add: connectionTimeout_callback_def)
    then show ?thesis using assms by (simp add: stays_given_up_def gave_up_def)
  next
    case (Some st)
    show ?thesis
    proof (cases "st = OPEN")
      case True
      then have "connectionTimeout_callback ?s0 = ?s0"
        using Some by (simp add: connectionTimeout_callback_def)
      then show ?thesis using assms by (simp add: stays_given_up_def gave_up_def)
    next
      case False
      then have "connectionTimeout_callback ?s0 = ?s1\<lparr>failedToConnect := True\<rparr>"
        using Some by (simp add: connectionTimeout_callback_def h)
      then show ?thesis using assms by (simp add: stays_given_up_def gave_up_def)
    qed
  qed
qed

lemma wsm_step_gave_up:
  assumes "gave_up s" "failedToConnect s" "wsm_step s e = Some s'"
  shows "stays_given_up s s'"
proof (cases e)
  case (Pair now ev)
  show ?thesis
  proof (cases ev)
    case (EvOpen cid)
    show ?thesis
    proof (cases "cid = connectionId s")
      case True
      then show ?thesis using assms Pair EvOpen by (simp add: gave_up_def split: if_splits)
    next
      case False
      then have "s' = onOpen s cid now" using assms(3) Pair EvOpen by simp
      then show ?thesis using onOpen_stale_stays[OF assms(1,2) False] by simp
    qed
  next
    case (EvMessage cid m)
    have "s' = fst (onMessage s cid m now)"
      using assms(3) Pair EvMessage by (simp split: if_splits)
    then have "conn_view s' = conn_view s"
      by (simp add: onMessage_def conn_view_processMessage)
    then show ?thesis using assms(1,2) by (rule stays_given_up_view[rotated 2])
  next
    case (EvError cid)
    then have "s' = s" using assms(3) Pair by (simp add: onError_def)
    then show ?thesis using assms(1,2) by (simp add: stays_given_up_def)
  next
    case (EvClose cid)
    then show ?thesis using assms(3) Pair onClose_stays[OF assms(1,2)]
      by (auto split: if_splits)
  next
    case (EvConnectionTimeout cid)
    then show ?thesis using assms(3) Pair connectionTimeout_stays[OF assms(1,2)]
      by (auto split: if_splits)
  next
    case (EvReconnectTimer c)
    then show ?thesis using assms Pair by (simp add: gave_up_def split: if_splits)
  next
    case (EvPendingRetry c)
    then show ?thesis using assms Pair by (simp add: gave_up_def split: if_splits)
  next
    case (EvResetTimer c)
    then show ?thesis using assms Pair by (simp add: gave_up_def split: if_splits)
  qed
qed

lemma wsm_run_gave_up:
  "gave_up s \<Longrightarrow> failedToConnect s \<Longrightarrow> wsm_run s evs = Some s' \<Longrightarrow> stays_given_up s s'"
proof (induction evs arbitrary: s)
  case Nil
  then show ?case by (simp add: stays_given_up_def)
next
  case (Cons e evs)
  from Cons.prems(3) obtain s1 where st: "wsm_step s e = Some s1" and run: "wsm_run s1 evs = Some s'"
    by (auto split: option.splits)
  have a: "stays_given_up s s1" using wsm_step_gave_up[OF Cons.prems(1,2) st] .
  then have "gave_up s1" "failedToConnect s1" by (simp_all add: stays_given_up_def)
  from Cons.IH[OF this run] a show ?case by (simp add: stays_given_up_def)
qed

text \<open>
  Claim C5, as amended. When \<open>handleReconnect\<close> runs in a state in which the attempt
  counter has reached \<open>maxReconnectAttempts\<close> and nothing is armed, it sets
  \<open>failedToConnect\<close> and schedules nothing. From then on no socket callback (open,
  message, error, close, for any captured connection id) and no timer callback starts
  another connection: \<open>connectionId\<close>, which is incremented by every connection attempt,
  keeps its value, and \<open>failedToConnect\<close> stays true.
\<close>

theorem reconnect_gives_up:
  assumes "gave_up s" and "wsm_run (handleReconnect s) evs = Some s'"
  shows "failedToConnect (handleReconnect s)
       \<and> reconnectTimeout (handleReconnect s) = None
       \<and> connectionId (handleReconnect s) = connectionId s
       \<and> failedToConnect s' \<and> connectionId s' = connectionId s \<and> gave_up s'"
proof -
  have h: "handleReconnect s = s\<lparr>failedToConnect := True\<rparr>"
    using assms(1) by (simp add: gave_up_def handleReconnect_stays)
  have g: "gave_up (handleReconnect s)" "failedToConnect (handleReconnect s)"
    using assms(1) by (simp_all add: h gave_up_def)
  from wsm_run_gave_up[OF g assms(2)] show ?thesis
    using assms(1) by (simp add: h gave_up_def stays_given_up_def)
qed

lemma timeouts_reach_gave_up: "wsm_run wsm_connecting timeouts_trace = Some wsm_gave_up"
  by code_simp

lemma gave_up_wsm_gave_up: "gave_up wsm_gave_up"
  by code_simp

lemma after_gave_up_run:
  "wsm_run (handleReconnect wsm_gave_up) after_gave_up_trace =
     Some (wsm_gave_up\<lparr>activeConnectionCount := - 1, lastCloseTime := 127001\<rparr>)"
  by code_simp

theorem reconnect_gives_up_witness:
  "gave_up wsm_gave_up
   \<and> wsm_run (handleReconnect wsm_gave_up) after_gave_up_trace =
       Some (wsm_gave_up\<lparr>activeConnectionCount := - 1, lastCloseTime := 127001\<rparr>)
   \<and> failedToConnect (wsm_gave_up\<lparr>activeConnectionCount := - 1, lastCloseTime := 127001\<rparr>)
   \<and> connectionId (wsm_gave_up\<lparr>activeConnectionCount := - 1, lastCloseTime := 127001\<rparr>)
       = connectionId wsm_gave_up"
  using reconnect_gives_up[OF gave_up_wsm_gave_up after_gave_up_run]
        gave_up_wsm_gave_up after_gave_up_run
  by simp

text \<open>
  Claim C5 as stated fails: after five timed-out reconnect attempts the manager has set
  \<open>failedToConnect\<close>, and a call of \<open>setupPriceWebSocket\<close> (which the price monitor
  makes from its periodic staleness check) opens connection 7 at once, without any reset:
  the flag is still true and the attempt counter is still 5.
\<close>

theorem connect_after_giving_up_counterexample:
  "wsm_run wsm_connecting timeouts_trace = Some wsm_gave_up
   \<and> failedToConnect wsm_gave_up
   \<and> reconnectAttempts wsm_gave_up = maxReconnectAttempts wsm_gave_up
   \<and> connectionId wsm_gave_up = 6
   \<and> connectionId (setupPriceWebSocket wsm_gave_up ''BTC_USDC_PERP'' 130000 True) = 7
   \<and> ws (setupPriceWebSocket wsm_gave_up ''BTC_USDC_PERP'' 130000 True) = Some CONNECTING
   \<and> failedToConnect (setupPriceWebSocket wsm_gave_up ''BTC_USDC_PERP'' 130000 True)
   \<and> reconnectAttempts (setupPriceWebSocket wsm_gave_up ''BTC_USDC_PERP'' 130000 True) = 5"
  by code_simp

text \<open>
  When the attempts are closed by the server instead of timing out, \<open>this.ws\<close> still
  holds the closed socket at the next \<open>setupPriceWebSocket\<close>, which therefore calls
  \<open>closeAllConnections\<close> and with it \<open>resetConnectionState\<close>: the attempt counter is
  back to 0 at every reconnect.
\<close>

lemma close_path_never_counts:
  "map_option reconnectAttempts (wsm_run wsm_connecting closes_trace) = Some 0
   \<and> map_option connectionId (wsm_run wsm_connecting closes_trace) = Some 4
   \<and> map_option failedToConnect (wsm_run wsm_connecting closes_trace) = Some False"
  by code_simp

lemma wsm_second_reached:
  "wsm_run wsm_connecting [(11000, EvConnectionTimeout 1), (16000, EvReconnectTimer True)]
     = Some wsm_second"
  by code_simp

lemma stale_message_dropped:
  "cid \<noteq> connectionId s \<Longrightarrow> onMessage s cid message now = (s, None)"
  by (simp add: onMessage_def)

lemma stale_close_dropped: "cid \<noteq> connectionId s \<Longrightarrow> onClose s cid now = s"
  by (simp add: onClose_def)

lemma stale_error_dropped: "onError s cid = s"
  by (simp add: onError_def)

text \<open>
  The open handler is the only one of the four whose branch for a superseded connection
  changes the state: it terminates \<open>this.ws\<close> and decrements
  \<open>activeConnectionCount\<close>.
\<close>

lemma stale_open_effect:
  "cid \<noteq> connectionId s \<Longrightarrow> ws s = Some st \<Longrightarrow>
     onOpen s cid now = s\<lparr>ws := Some (terminate st),
                           activeConnectionCount := activeConnectionCount s - 1\<rparr>"
  by (simp add: onOpen_def)

section \<open>ConnectionManager: the sockets behind \<open>WebSocketManager\<close>\<close>

text \<open>
  The handlers of \<open>setupPriceWebSocket\<close> are closures registered on one socket object
  each, and \<open>this.ws\<close> is a reference to the newest of these objects or \<open>null\<close>.
  Whether a callback of a superseded connection can still run depends on what happened
  to its socket object, so the socket objects are put into a store, keyed by the
  connection id under which each was created. A socket has its ready state and the
  information whether the handlers are still registered on it
  (\<open>removeAllListeners\<close> takes them off).

  The socket class comes from the \<open>ws\<close> package and is not part of the sources. The
  model takes from its documentation: a socket emits \<open>open\<close> once, when it leaves the
  connecting state; it emits \<open>message\<close> while it is open or closing; it emits
  \<open>close\<close> once, when it becomes closed; \<open>close()\<close> and \<open>terminate()\<close> leave a
  closed socket closed and put any other socket into the closing state (the model does
  not distinguish the two), after which it emits no \<open>open\<close> event; a handler that was
  removed is not called.
\<close>

record sock =
  s_state :: readyState
  s_listening :: bool

type_synonym sockets = "(nat \<times> sock) list"

definition sock_of :: "sockets \<Rightarrow> nat \<Rightarrow> sock option" where
  "sock_of pool i = map_of pool i"

fun put_sock :: "nat \<Rightarrow> sock \<Rightarrow> sockets \<Rightarrow> sockets" where
  "put_sock i k [] = [(i, k)]"
| "put_sock i k ((j, k') # pool) =
     (if j = i then (i, k) # pool else (j, k') # put_sock i k pool)"

definition on_sock :: "nat \<Rightarrow> (sock \<Rightarrow> sock) \<Rightarrow> sockets \<Rightarrow> sockets" where
  "on_sock i f pool = (case map_of pool i of None \<Rightarrow> pool | Some k \<Rightarrow> put_sock i (f k) pool)"

definition sock_terminate :: "sock \<Rightarrow> sock" where
  "sock_terminate k = k\<lparr>s_state := terminate (s_state k)\<rparr>"

definition removeAllListeners :: "sock \<Rightarrow> sock" where
  "removeAllListeners k = k\<lparr>s_listening := False\<rparr>"

record net =
  mgr :: ws_manager
  socks :: sockets

definition net_constructor :: "int \<Rightarrow> net" where
  "net_constructor now = \<lparr>mgr = constructor now, socks = []\<rparr>"

text \<open>
  What each method does to the socket objects, next to what it does to the fields of
  the manager (the functions of the previous section). \<open>closeWebSocket\<close>, lines
  771-803: the handlers are removed from \<open>this.ws\<close>, an open socket is closed and a
  connecting one terminated. The connection timeout, lines 227-238, and the branch of the
  open handler for a superseded connection, lines 243-252, terminate \<open>this.ws\<close>.
  \<open>setupPriceWebSocket\<close> goes through \<open>closeAllConnections\<close> and creates the socket of
  the next connection id under the same conditions as in the previous section.
\<close>

definition closeWebSocket_socks :: "ws_manager \<Rightarrow> sockets \<Rightarrow> sockets" where
  "closeWebSocket_socks s pool =
     (case ws s of
        None \<Rightarrow> pool
      | Some st \<Rightarrow>
          on_sock (connectionId s)
            (\<lambda>k. let k1 = removeAllListeners k
                 in if s_state k1 = OPEN then sock_terminate k1
                    else if s_state k1 = CONNECTING then sock_terminate k1
                    else k1)
            pool)"

definition n_closeWebSocket :: "net \<Rightarrow> int \<Rightarrow> net" where
  "n_closeWebSocket w now =
     \<lparr>mgr = closeWebSocket (mgr w) now, socks = closeWebSocket_socks (mgr w) (socks w)\<rparr>"

definition n_closeAllConnections :: "net \<Rightarrow> int \<Rightarrow> net" where
  "n_closeAllConnections w now =
     \<lparr>mgr = closeAllConnections (mgr w) now, socks = closeWebSocket_socks (mgr w) (socks w)\<rparr>"

definition n_resetConnection :: "net \<Rightarrow> int \<Rightarrow> net" where
  "n_resetConnection w now =
     \<lparr>mgr = resetConnection (mgr w) now, socks = closeWebSocket_socks (mgr w) (socks w)\<rparr>"

definition setupPriceWebSocket_socks ::
  "ws_manager \<Rightarrow> string \<Rightarrow> int \<Rightarrow> bool \<Rightarrow> sockets \<Rightarrow> sockets" where
  "setupPriceWebSocket_socks s symb now constructed pool =
     (let s0 = s\<lparr>symbol := symb\<rparr>
      in if ws s0 = Some OPEN \<and> activeConnectionCount s0 > 0 then pool
         else if ws s0 = Some CLOSING then pool
         else if ws s0 = Some CONNECTING then pool
         else
           (let closing = (ws s0 \<noteq> None \<or> activeConnectionCount s0 > 0);
                pool1 = (if closing then closeWebSocket_socks s0 pool else pool);
                s1 = (if closing then (closeAllConnections s0 now)\<lparr>activeConnectionCount := 0\<rparr>
                      else s0)
            in if connectOperationInProgress s1 then pool1
               else if constructed
               then put_sock (connectionId s1 + 1) \<lparr>s_state = CONNECTING, s_listening = True\<rparr> pool1
               else pool1))"

definition n_setupPriceWebSocket :: "net \<Rightarrow> string \<Rightarrow> int \<Rightarrow> bool \<Rightarrow> net" where
  "n_setupPriceWebSocket w symb now constructed =
     \<lparr>mgr = setupPriceWebSocket (mgr w) symb now constructed,
      socks = setupPriceWebSocket_socks (mgr w) symb now constructed (socks w)\<rparr>"

definition n_connectionTimeout_callback :: "net \<Rightarrow> net" where
  "n_connectionTimeout_callback w =
     \<lparr>mgr = connectionTimeout_callback (mgr w),
      socks = (case ws (mgr w) of
                 None \<Rightarrow> socks w
               | Some st \<Rightarrow> if st \<noteq> OPEN
                            then on_sock (connectionId (mgr w)) sock_terminate (socks w)
                            else socks w)\<rparr>"

definition n_reconnectTimeout_callback :: "net \<Rightarrow> int \<Rightarrow> bool \<Rightarrow> net" where
  "n_reconnectTimeout_callback w now constructed =
     (let s1 = (mgr w)\<lparr>reconnectTimeout := None, connectOperationInProgress := False\<rparr>
      in if isConnected s1 now then w\<lparr>mgr := s1\<rparr>
         else
           (let s2 = (if now - lastCloseTime s1 > 30000
                      then s1\<lparr>subscriptionState := (subscriptionState s1)\<lparr>isSubscribed := False\<rparr>\<rparr>
                      else s1)
            in n_setupPriceWebSocket (w\<lparr>mgr := s2\<rparr>) (symbol s2) now constructed))"

definition n_pendingRetry_callback :: "net \<Rightarrow> int \<Rightarrow> bool \<Rightarrow> net" where
  "n_pendingRetry_callback w now constructed =
     (if pendingConnection (mgr w)
      then n_setupPriceWebSocket (w\<lparr>mgr := (mgr w)\<lparr>pendingConnection := False\<rparr>\<rparr>)
             (symbol (mgr w)) now constructed
      else w)"

definition n_resetTimer_callback :: "net \<Rightarrow> int \<Rightarrow> bool \<Rightarrow> net" where
  "n_resetTimer_callback w now constructed =
     (if symbol (mgr w) \<noteq> [] then n_setupPriceWebSocket w (symbol (mgr w)) now constructed
      else w)"

definition n_onOpen :: "net \<Rightarrow> nat \<Rightarrow> int \<Rightarrow> net" where
  "n_onOpen w currentConnectionId now =
     \<lparr>mgr = onOpen (mgr w) currentConnectionId now,
      socks = (if currentConnectionId \<noteq> connectionId (mgr w)
               then (case ws (mgr w) of
                       None \<Rightarrow> socks w
                     | Some st \<Rightarrow> on_sock (connectionId (mgr w)) sock_terminate (socks w))
               else socks w)\<rparr>"

text \<open>
  The application also reaches into the manager: \<open>TradingApp.stop\<close>, \<open>src/app.js\<close>
  lines 426-432 and 469-470, terminates \<open>wsManager.ws\<close> and overwrites fields, and
  \<open>PriceMonitor.clearPriceData\<close> clears \<open>lastPriceData\<close>.
\<close>

definition app_forceTerminate :: "net \<Rightarrow> net" where
  "app_forceTerminate w =
     (let w1 = (case ws (mgr w) of
                  None \<Rightarrow> w
                | Some st \<Rightarrow> \<lparr>mgr = (mgr w)\<lparr>ws := None\<rparr>,
                              socks = on_sock (connectionId (mgr w)) sock_terminate (socks w)\<rparr>)
      in w1\<lparr>mgr := (mgr w1)\<lparr>activeConnectionCount := 0, connectOperationInProgress := False\<rparr>\<rparr>)"

definition app_clearTimers :: "net \<Rightarrow> net" where
  "app_clearTimers w = w\<lparr>mgr := (mgr w)\<lparr>heartbeatInterval := False, reconnectTimeout := None\<rparr>\<rparr>"

definition app_clearLastPriceData :: "net \<Rightarrow> net" where
  "app_clearLastPriceData w = w\<lparr>mgr := (mgr w)\<lparr>lastPriceData := None\<rparr>\<rparr>"

text \<open>
  A change of the ready state of socket \<open>i\<close> that comes from the network. The manager
  reads the ready state through \<open>this.ws\<close>, so the field \<open>ws\<close> of the previous section
  follows when \<open>this.ws\<close> is that socket.
\<close>

definition socket_becomes :: "nat \<Rightarrow> readyState \<Rightarrow> net \<Rightarrow> net" where
  "socket_becomes i st w =
     \<lparr>mgr = (if i = connectionId (mgr w) \<and> ws (mgr w) \<noteq> None
             then (mgr w)\<lparr>ws := Some st\<rparr> else mgr w),
      socks = on_sock i (\<lambda>k. k\<lparr>s_state := st\<rparr>) (socks w)\<rparr>"

datatype socket_event = SOpen | SMessage ws_message | SError | SClosing | SClose

datatype timer_event =
    ConnectionTimeout nat
  | ReconnectTimer bool
  | PendingRetry bool
  | ResetTimer bool
  | HeartbeatReset

datatype call =
    Setup string bool
  | CloseWebSocket
  | CloseAllConnections
  | ResetConnectionState
  | SubscribeTicker string
  | ForceTerminate
  | ClearTimers
  | ClearLastPriceData

datatype net_event = Socket nat socket_event | Timer timer_event | Call call

text \<open>
  One step. A socket event of socket \<open>i\<close> is possible in the ready states given above; it
  runs the handler that captured the connection id \<open>i\<close>, if the handlers are still
  registered. A timer event needs its timer armed; \<open>HeartbeatReset\<close> is a run of the
  heartbeat callback that ends in \<open>resetConnection\<close>. A call is a call of a method by
  the price monitor or the application, possible at any time. \<open>None\<close>: the event
  cannot occur in the state.
\<close>

definition socket_step :: "net \<Rightarrow> int \<Rightarrow> nat \<Rightarrow> socket_event \<Rightarrow> net option" where
  "socket_step w now i ev =
     (case sock_of (socks w) i of
        None \<Rightarrow> None
      | Some k \<Rightarrow>
          (case ev of
             SOpen \<Rightarrow>
               if s_state k = CONNECTING
               then Some (let w1 = socket_becomes i OPEN w
                          in if s_listening k then n_onOpen w1 i now else w1)
               else None
           | SMessage message \<Rightarrow>
               if s_state k = OPEN \<or> s_state k = CLOSING
               then Some (if s_listening k
                          then w\<lparr>mgr := fst (onMessage (mgr w) i message now)\<rparr> else w)
               else None
           | SError \<Rightarrow>
               if s_state k \<noteq> CLOSED
               then Some (if s_listening k then w\<lparr>mgr := onError (mgr w) i\<rparr> else w)
               else None
           | SClosing \<Rightarrow>
               if s_state k = OPEN then Some (socket_becomes i CLOSING w) else None
           | SClose \<Rightarrow>
               if s_state k \<noteq> CLOSED
               then Some (let w1 = socket_becomes i CLOSED w
                          in if s_listening k then w1\<lparr>mgr := onClose (mgr w1) i now\<rparr> else w1)
               else None))"

definition timer_step :: "net \<Rightarrow> int \<Rightarrow> timer_event \<Rightarrow> net option" where
  "timer_step w now ev =
     (case ev of
        ConnectionTimeout cid \<Rightarrow>
          if cid \<in> set (connectionTimeouts (mgr w))
          then Some (n_connectionTimeout_callback
                       (w\<lparr>mgr := (mgr w)\<lparr>connectionTimeouts :=
                                             removeAll cid (connectionTimeouts (mgr w))\<rparr>\<rparr>))
          else None
      | ReconnectTimer constructed \<Rightarrow>
          if reconnectTimeout (mgr w) \<noteq> None
          then Some (n_reconnectTimeout_callback w now constructed) else None
      | PendingRetry constructed \<Rightarrow>
          if retryTimers (mgr w) > 0
          then Some (n_pendingRetry_callback
                       (w\<lparr>mgr := (mgr w)\<lparr>retryTimers := retryTimers (mgr w) - 1\<rparr>\<rparr>)
                       now constructed)
          else None
      | ResetTimer constructed \<Rightarrow>
          if resetTimers (mgr w) > 0
          then Some (n_resetTimer_callback
                       (w\<lparr>mgr := (mgr w)\<lparr>resetTimers := resetTimers (mgr w) - 1\<rparr>\<rparr>)
                       now constructed)
          else None
      | HeartbeatReset \<Rightarrow>
          if heartbeatInterval (mgr w) \<and> ws (mgr w) = Some OPEN
          then Some (n_resetConnection w now) else None)"

definition call_step :: "net \<Rightarrow> int \<Rightarrow> call \<Rightarrow> net" where
  "call_step w now c =
     (case c of
        Setup symb constructed \<Rightarrow> n_setupPriceWebSocket w symb now constructed
      | CloseWebSocket \<Rightarrow> n_closeWebSocket w now
      | CloseAllConnections \<Rightarrow> n_closeAllConnections w now
      | ResetConnectionState \<Rightarrow> w\<lparr>mgr := resetConnectionState (mgr w)\<rparr>
      | SubscribeTicker symb \<Rightarrow> w\<lparr>mgr := subscribeTicker (mgr w) symb now\<rparr>
      | ForceTerminate \<Rightarrow> app_forceTerminate w
      | ClearTimers \<Rightarrow> app_clearTimers w
      | ClearLastPriceData \<Rightarrow> app_clearLastPriceData w)"

fun net_step :: "net \<Rightarrow> int \<times> net_event \<Rightarrow> net option" where
  "net_step w (now, Socket i ev) = socket_step w now i ev"
| "net_step w (now, Timer ev) = timer_step w now ev"
| "net_step w (now, Call c) = Some (call_step w now c)"

fun net_run :: "net \<Rightarrow> (int \<times> net_event) list \<Rightarrow> net option" where
  "net_run w [] = Some w"
| "net_run w (e # es) = (case net_step w e of None \<Rightarrow> None | Some w' \<Rightarrow> net_run w' es)"

text \<open>
  The invariant: \<open>this.ws\<close>, when not \<open>null\<close>, is the socket of the current connection
  id, with its handlers registered; and a socket that is connecting with its handlers
  registered is \<open>this.ws\<close>. So no other socket can deliver an open event to its handler.
  \<open>silent\<close>: no socket at all can.
\<close>

definition conn_inv :: "readyState option \<Rightarrow> nat \<Rightarrow> sockets \<Rightarrow> bool" where
  "conn_inv this_ws cid pool =
     ((\<forall>st. this_ws = Some st \<longrightarrow>
         sock_of pool cid = Some \<lparr>s_state = st, s_listening = True\<rparr>)
      \<and> (\<forall>i k. sock_of pool i = Some k \<longrightarrow> s_listening k \<longrightarrow> s_state k = CONNECTING \<longrightarrow>
            i = cid \<and> this_ws = Some CONNECTING))"

definition net_inv :: "net \<Rightarrow> bool" where
  "net_inv w = conn_inv (ws (mgr w)) (connectionId (mgr w)) (socks w)"

definition silent :: "sockets \<Rightarrow> bool" where
  "silent pool =
     (\<forall>i k. sock_of pool i = Some k \<longrightarrow> \<not> (s_listening k \<and> s_state k = CONNECTING))"

definition wc :: "ws_manager \<Rightarrow> readyState option \<times> nat" where
  "wc s = (ws s, connectionId s)"

text \<open>
  The state in which \<open>setupPriceWebSocket\<close> decides whether to create a socket: after
  \<open>closeAllConnections\<close> when there was a socket or a positive count, unchanged
  otherwise.
\<close>

definition setup_s1 :: "ws_manager \<Rightarrow> string \<Rightarrow> int \<Rightarrow> ws_manager" where
  "setup_s1 s symb now =
     (if ws s \<noteq> None \<or> activeConnectionCount s > 0
      then (closeAllConnections (s\<lparr>symbol := symb\<rparr>) now)\<lparr>activeConnectionCount := 0\<rparr>
      else s\<lparr>symbol := symb\<rparr>)"

text \<open>
  A concrete run: the first connection attempt times out and the reconnect timer opens
  connection 2. The socket of connection 1 was terminated while it was connecting; its
  handlers are still registered, and it has yet to emit its close event.
\<close>

definition timed_out_trace :: "(int \<times> net_event) list" where
  "timed_out_trace =
     [(1000, Call (Setup ''BTC_USDC_PERP'' True)),
      (11000, Timer (ConnectionTimeout 1)),
      (16000, Timer (ReconnectTimer True))]"

definition net_second :: net where
  "net_second =
     \<lparr>mgr = wsm_second,
      socks = [(1, \<lparr>s_state = CLOSING, s_listening = True\<rparr>),
               (2, \<lparr>s_state = CONNECTING, s_listening = True\<rparr>)]\<rparr>"

definition net_second_closed :: net where
  "net_second_closed =
     \<lparr>mgr = wsm_second,
      socks = [(1, \<lparr>s_state = CLOSED, s_listening = True\<rparr>),
               (2, \<lparr>s_state = CONNECTING, s_listening = True\<rparr>)]\<rparr>"

lemma sock_of_put_sock [simp]:
  "sock_of (put_sock i k pool) j = (if j = i then Some k else sock_of pool j)"
  by (induction pool) (auto simp add: sock_of_def)

lemma sock_of_on_sock [simp]:
  "sock_of (on_sock i f pool) j = (if j = i then map_option f (sock_of pool i) else sock_of pool j)"
proof (cases "map_of pool i")
  case None
  then show ?thesis by (simp add: sock_of_def on_sock_def)
next
  case (Some k)
  have "sock_of (put_sock i (f k) pool) j = (if j = i then Some (f k) else sock_of pool j)"
    by simp
  then show ?thesis using Some by (simp add: on_sock_def) (simp add: sock_of_def)
qed

lemma terminate_not_CONNECTING [simp]: "terminate st \<noteq> CONNECTING"
  by (simp add: terminate_def)

lemma silent_of_inv:
  "conn_inv this_ws cid pool \<Longrightarrow> this_ws \<noteq> Some CONNECTING \<Longrightarrow> silent pool"
  unfolding conn_inv_def silent_def by blast

lemma inv_of_silent: "silent pool \<Longrightarrow> conn_inv None cid pool"
  unfolding conn_inv_def silent_def by blast

lemma inv_create:
  assumes "silent pool"
  shows "conn_inv (Some CONNECTING) c (put_sock c \<lparr>s_state = CONNECTING, s_listening = True\<rparr> pool)"
  unfolding conn_inv_def
proof (intro conjI allI impI)
  fix st assume "Some CONNECTING = Some st"
  then show "sock_of (put_sock c \<lparr>s_state = CONNECTING, s_listening = True\<rparr> pool) c
               = Some \<lparr>s_state = st, s_listening = True\<rparr>" by simp
next
  fix i k
  assume a: "sock_of (put_sock c \<lparr>s_state = CONNECTING, s_listening = True\<rparr> pool) i = Some k"
    and l: "s_listening k" and st: "s_state k = CONNECTING"
  show "i = c"
  proof (rule ccontr)
    assume "i \<noteq> c"
    then have "sock_of pool i = Some k" using a by simp
    then show False using assms l st unfolding silent_def by blast
  qed
next
  show "Some CONNECTING = Some CONNECTING" by simp
qed

lemma silent_strip:
  assumes inv: "conn_inv (Some st) cid pool"
    and f: "\<And>k. \<not> (s_listening (f k) \<and> s_state (f k) = CONNECTING)"
  shows "silent (on_sock cid f pool)"
  unfolding silent_def
proof (intro allI impI)
  fix i k assume a: "sock_of (on_sock cid f pool) i = Some k"
  show "\<not> (s_listening k \<and> s_state k = CONNECTING)"
  proof (cases "i = cid")
    case True
    then obtain k0 where "k = f k0" using a by auto
    then show ?thesis using f by simp
  next
    case False
    then have "sock_of pool i = Some k" using a by simp
    then show ?thesis using inv False unfolding conn_inv_def by blast
  qed
qed

lemma silent_terminate:
  assumes "conn_inv (Some st) cid pool"
  shows "silent (on_sock cid sock_terminate pool)"
  by (rule silent_strip[OF assms]) (simp add: sock_terminate_def)

lemma silent_closeWebSocket_socks:
  assumes "conn_inv (ws s) (connectionId s) pool"
  shows "silent (closeWebSocket_socks s pool)"
proof (cases "ws s")
  case None
  then show ?thesis using assms silent_of_inv[of None "connectionId s" pool]
    by (simp add: closeWebSocket_socks_def)
next
  case (Some st)
  have "silent (on_sock (connectionId s)
            (\<lambda>k. let k1 = removeAllListeners k
                 in if s_state k1 = OPEN then sock_terminate k1
                    else if s_state k1 = CONNECTING then sock_terminate k1
                    else k1) pool)"
  proof (rule silent_strip[of st])
    show "conn_inv (Some st) (connectionId s) pool" using assms Some by simp
  next
    fix k show "\<not> (s_listening (let k1 = removeAllListeners k
                 in if s_state k1 = OPEN then sock_terminate k1
                    else if s_state k1 = CONNECTING then sock_terminate k1
                    else k1) \<and> s_state (let k1 = removeAllListeners k
                 in if s_state k1 = OPEN then sock_terminate k1
                    else if s_state k1 = CONNECTING then sock_terminate k1
                    else k1) = CONNECTING)"
      by (simp add: Let_def removeAllListeners_def sock_terminate_def)
  qed
  then show ?thesis using Some by (simp add: closeWebSocket_socks_def)
qed

lemma inv_terminate_keep:
  assumes inv: "conn_inv (Some st) cid pool"
  shows "conn_inv (Some (terminate st)) cid (on_sock cid sock_terminate pool)"
  unfolding conn_inv_def
proof (intro conjI allI impI)
  fix st' assume "Some (terminate st) = Some st'"
  moreover have "sock_of pool cid = Some \<lparr>s_state = st, s_listening = True\<rparr>"
    using inv unfolding conn_inv_def by blast
  ultimately show "sock_of (on_sock cid sock_terminate pool) cid
                     = Some \<lparr>s_state = st', s_listening = True\<rparr>"
    by (auto simp add: sock_terminate_def)
next
  fix i k
  assume a: "sock_of (on_sock cid sock_terminate pool) i = Some k"
    and l: "s_listening k" and c: "s_state k = CONNECTING"
  have "silent (on_sock cid sock_terminate pool)" using silent_terminate[OF inv] .
  then have False using a l c unfolding silent_def by blast
  then show "i = cid" and "Some (terminate st) = Some CONNECTING" by simp_all
qed

lemma inv_becomes:
  assumes inv: "conn_inv this_ws cid pool" and st: "st \<noteq> CONNECTING"
  shows "conn_inv (if i = cid \<and> this_ws \<noteq> None then Some st else this_ws) cid
           (on_sock i (\<lambda>k. k\<lparr>s_state := st\<rparr>) pool)"
  unfolding conn_inv_def
proof (intro conjI allI impI)
  fix st'
  assume a: "(if i = cid \<and> this_ws \<noteq> None then Some st else this_ws) = Some st'"
  show "sock_of (on_sock i (\<lambda>k. k\<lparr>s_state := st\<rparr>) pool) cid
          = Some \<lparr>s_state = st', s_listening = True\<rparr>"
  proof (cases "i = cid")
    case True
    show ?thesis
    proof (cases this_ws)
      case None then show ?thesis using a True by simp
    next
      case (Some st0)
      then have "sock_of pool cid = Some \<lparr>s_state = st0, s_listening = True\<rparr>"
        using inv unfolding conn_inv_def by blast
      moreover have "st' = st" using a True Some by simp
      ultimately show ?thesis using True by simp
    qed
  next
    case False
    then have "this_ws = Some st'" using a by simp
    then have "sock_of pool cid = Some \<lparr>s_state = st', s_listening = True\<rparr>"
      using inv unfolding conn_inv_def by blast
    then show ?thesis using False by simp
  qed
next
  fix j k
  assume a: "sock_of (on_sock i (\<lambda>k. k\<lparr>s_state := st\<rparr>) pool) j = Some k"
    and l: "s_listening k" and c: "s_state k = CONNECTING"
  have ji: "j \<noteq> i"
  proof
    assume "j = i"
    then obtain k0 where "k = k0\<lparr>s_state := st\<rparr>" using a by auto
    then show False using c st by simp
  qed
  then have "sock_of pool j = Some k" using a by simp
  then have jc: "j = cid \<and> this_ws = Some CONNECTING"
    using inv l c unfolding conn_inv_def by blast
  show "j = cid" using jc by simp
  show "(if i = cid \<and> this_ws \<noteq> None then Some st else this_ws) = Some CONNECTING"
    using jc ji by auto
qed

lemma wc_handleReconnect [simp]: "wc (handleReconnect s) = wc s"
  by (simp add: wc_def handleReconnect_def Let_def)

lemma wc_closeWebSocket [simp]: "wc (closeWebSocket s now) = (None, connectionId s)"
  by (simp add: wc_def closeWebSocket_def Let_def split: option.split)

lemma wc_resetConnectionState [simp]: "wc (resetConnectionState s) = wc s"
  by (simp add: wc_def resetConnectionState_def)

lemma wc_closeAllConnections [simp]: "wc (closeAllConnections s now) = (None, connectionId s)"
proof -
  have "connectionId (closeWebSocket s now) = connectionId s"
    using wc_closeWebSocket[of s now] by (simp add: wc_def)
  then show ?thesis by (simp add: wc_def closeAllConnections_def resetConnectionState_def)
qed

lemma inProgress_closeAllConnections [simp]:
  "\<not> connectOperationInProgress (closeAllConnections s now)"
  by (simp add: closeAllConnections_def resetConnectionState_def)

lemma wc_resetConnection [simp]: "wc (resetConnection s now) = (None, connectionId s)"
proof -
  have "wc (closeWebSocket s now) = (None, connectionId s)" by simp
  then have "ws (closeWebSocket s now) = None" "connectionId (closeWebSocket s now) = connectionId s"
    by (simp_all add: wc_def)
  then show ?thesis by (simp add: wc_def resetConnection_def Let_def)
qed

lemma wc_subscribeTicker [simp]: "wc (subscribeTicker s symb now) = wc s"
  by (simp add: wc_def subscribeTicker_def)

lemma wc_setupHeartbeat [simp]: "wc (setupHeartbeat s) = wc s"
  by (simp add: wc_def setupHeartbeat_def)

lemma wc_onClose [simp]: "wc (onClose s cid now) = wc s"
proof -
  have "\<And>t. wc (handleReconnect t) = wc t" by simp
  then show ?thesis by (simp add: onClose_def) (simp add: wc_def)
qed

lemma wc_onMessage [simp]: "wc (fst (onMessage s cid m now)) = wc s"
  using conn_view_processMessage[of s m now]
  by (simp add: onMessage_def wc_def conn_view_def)

lemma wc_onError [simp]: "wc (onError s cid) = wc s"
  by (simp add: onError_def)

lemma wc_onOpen_current:
  "cid = connectionId s \<Longrightarrow> wc (onOpen s cid now) = wc s"
proof -
  assume c: "cid = connectionId s"
  let ?s1 = "s\<lparr>connectionTimeouts := removeAll cid (connectionTimeouts s),
                 connectionActive := True, connectOperationInProgress := False,
                 reconnectAttempts := 0, failedToConnect := False\<rparr>"
  have a: "wc (setupHeartbeat (subscribeTicker ?s1 (symbol ?s1) now)) = wc s"
    by (simp) (simp add: wc_def)
  have b: "\<And>t b. wc (t\<lparr>pendingConnection := b\<rparr>) = wc t" by (simp add: wc_def)
  show ?thesis using c a b by (simp add: onOpen_def Let_def)
qed

lemma wc_onOpen_stale:
  "cid \<noteq> connectionId s \<Longrightarrow> wc (onOpen s cid now) = (map_option terminate (ws s), connectionId s)"
  by (cases "ws s") (simp_all add: onOpen_def wc_def)

lemma wc_connectionTimeout_callback:
  "wc (connectionTimeout_callback s) =
     ((case ws s of None \<Rightarrow> None | Some st \<Rightarrow> if st \<noteq> OPEN then None else Some st),
      connectionId s)"
proof (cases "ws s")
  case None then show ?thesis by (simp add: connectionTimeout_callback_def wc_def)
next
  case (Some st)
  have "\<And>t. wc (handleReconnect t) = wc t" by simp
  then show ?thesis using Some
    by (simp add: connectionTimeout_callback_def) (simp add: wc_def)
qed

lemma wc_setup_s1:
  "ws s \<noteq> Some CLOSING \<Longrightarrow> ws s \<noteq> Some CONNECTING \<Longrightarrow>
   \<not> (ws s = Some OPEN \<and> activeConnectionCount s > 0) \<Longrightarrow>
     wc (setup_s1 s symb now) = (None, connectionId s)"
proof -
  have a: "wc (closeAllConnections (s\<lparr>symbol := symb\<rparr>) now) = (None, connectionId s)"
    by simp
  have b: "\<And>t n. wc (t\<lparr>activeConnectionCount := n\<rparr>) = wc t" by (simp add: wc_def)
  show ?thesis
  proof (cases "ws s \<noteq> None \<or> activeConnectionCount s > 0")
    case True
    then show ?thesis using a b by (simp add: setup_s1_def)
  next
    case False
    then show ?thesis by (simp add: setup_s1_def wc_def)
  qed
qed

lemma setup_unfold_replace:
  assumes "ws s \<noteq> Some CLOSING" "ws s \<noteq> Some CONNECTING"
    "\<not> (ws s = Some OPEN \<and> activeConnectionCount s > 0)"
  shows "setupPriceWebSocket s symb now c =
     (let s1 = setup_s1 s symb now
      in if connectOperationInProgress s1 then s1\<lparr>pendingConnection := True\<rparr>
         else
           (let s2 = s1\<lparr>connectOperationInProgress := True,
                        connectionId := connectionId s1 + 1,
                        lastConnectTime := now,
                        activeConnectionCount := 1\<rparr>
            in if c
               then s2\<lparr>ws := Some CONNECTING,
                       connectionTimeouts := connectionTimeouts s2 @ [connectionId s2]\<rparr>
               else handleReconnect
                      (s2\<lparr>connectOperationInProgress := False,
                          activeConnectionCount := activeConnectionCount s2 - 1\<rparr>)))"
  using assms unfolding setupPriceWebSocket_def setup_s1_def Let_def
  by (cases "ws s = Some OPEN") simp_all

lemma setup_socks_unfold_replace:
  assumes "ws s \<noteq> Some CLOSING" "ws s \<noteq> Some CONNECTING"
    "\<not> (ws s = Some OPEN \<and> activeConnectionCount s > 0)"
  shows "setupPriceWebSocket_socks s symb now c pool =
     (let pool1 = (if ws s \<noteq> None \<or> activeConnectionCount s > 0
                   then closeWebSocket_socks (s\<lparr>symbol := symb\<rparr>) pool else pool);
          s1 = setup_s1 s symb now
      in if connectOperationInProgress s1 then pool1
         else if c
         then put_sock (connectionId s1 + 1) \<lparr>s_state = CONNECTING, s_listening = True\<rparr> pool1
         else pool1)"
  using assms unfolding setupPriceWebSocket_socks_def setup_s1_def Let_def
  by (cases "ws s = Some OPEN") simp_all

lemma setup_early:
  assumes "ws s = Some CLOSING \<or> ws s = Some CONNECTING
           \<or> (ws s = Some OPEN \<and> activeConnectionCount s > 0)"
  shows "wc (setupPriceWebSocket s symb now c) = wc s"
    and "setupPriceWebSocket_socks s symb now c pool = pool"
proof -
  have a: "\<And>t. wc (subscribeTicker t symb now) = wc t" by simp
  have b: "wc (s\<lparr>symbol := symb\<rparr>) = wc s" by (simp add: wc_def)
  have c: "\<And>t p n. wc (t\<lparr>pendingConnection := p, retryTimers := n\<rparr>) = wc t" by (simp add: wc_def)
  show "wc (setupPriceWebSocket s symb now c) = wc s"
    using assms a b c unfolding setupPriceWebSocket_def Let_def by auto
  show "setupPriceWebSocket_socks s symb now c pool = pool"
    using assms unfolding setupPriceWebSocket_socks_def Let_def by auto
qed

lemma net_inv_I: "wc (mgr w') = (a, b) \<Longrightarrow> conn_inv a b (socks w') \<Longrightarrow> net_inv w'"
  by (simp add: net_inv_def wc_def)

lemma net_inv_same:
  "net_inv w \<Longrightarrow> wc (mgr w') = wc (mgr w) \<Longrightarrow> socks w' = socks w \<Longrightarrow> net_inv w'"
  by (simp add: net_inv_def wc_def)

lemma net_inv_closeWebSocket_socks:
  assumes "net_inv w" and "wc (mgr w') = (None, b)"
    and "socks w' = closeWebSocket_socks (mgr w) (socks w)"
  shows "net_inv w'"
proof -
  have "silent (socks w')"
    using assms(1,3) silent_closeWebSocket_socks[of "mgr w" "socks w"] by (simp add: net_inv_def)
  then show ?thesis using assms(2) inv_of_silent net_inv_I by blast
qed

lemma net_inv_n_closeWebSocket: "net_inv w \<Longrightarrow> net_inv (n_closeWebSocket w now)"
  by (rule net_inv_closeWebSocket_socks[of w _ "connectionId (mgr w)"])
     (simp_all add: n_closeWebSocket_def)

lemma net_inv_n_closeAllConnections: "net_inv w \<Longrightarrow> net_inv (n_closeAllConnections w now)"
  by (rule net_inv_closeWebSocket_socks[of w _ "connectionId (mgr w)"])
     (simp_all add: n_closeAllConnections_def)

lemma net_inv_n_resetConnection: "net_inv w \<Longrightarrow> net_inv (n_resetConnection w now)"
  by (rule net_inv_closeWebSocket_socks[of w _ "connectionId (mgr w)"])
     (simp_all add: n_resetConnection_def)

lemma net_inv_n_setupPriceWebSocket:
  assumes inv: "net_inv w"
  shows "net_inv (n_setupPriceWebSocket w symb now c)"
proof (cases "ws (mgr w) = Some CLOSING \<or> ws (mgr w) = Some CONNECTING
              \<or> (ws (mgr w) = Some OPEN \<and> activeConnectionCount (mgr w) > 0)")
  case True
  show ?thesis
    by (rule net_inv_same[OF inv])
       (simp_all add: n_setupPriceWebSocket_def setup_early[OF True])
next
  case False
  let ?s = "mgr w"
  let ?s1 = "setup_s1 ?s symb now"
  let ?pool1 = "(if ws ?s \<noteq> None \<or> activeConnectionCount ?s > 0
                   then closeWebSocket_socks (?s\<lparr>symbol := symb\<rparr>) (socks w) else socks w)"
  have e: "ws ?s \<noteq> Some CLOSING" "ws ?s \<noteq> Some CONNECTING"
    "\<not> (ws ?s = Some OPEN \<and> activeConnectionCount ?s > 0)" using False by auto
  have s1: "wc ?s1 = (None, connectionId ?s)" using wc_setup_s1[OF e] .
  then have s1f: "ws ?s1 = None" "connectionId ?s1 = connectionId ?s" by (simp_all add: wc_def)
  have ci: "conn_inv (ws ?s) (connectionId ?s) (socks w)" using inv by (simp add: net_inv_def)
  have sil: "silent ?pool1"
  proof (cases "ws ?s \<noteq> None \<or> activeConnectionCount ?s > 0")
    case True
    have "silent (closeWebSocket_socks (?s\<lparr>symbol := symb\<rparr>) (socks w))"
      by (rule silent_closeWebSocket_socks) (simp add: ci)
    then show ?thesis using True by simp
  next
    case False
    then have "ws ?s = None" by simp
    then show ?thesis using False ci silent_of_inv[of None "connectionId ?s" "socks w"] by simp
  qed
  have m: "mgr (n_setupPriceWebSocket w symb now c) = setupPriceWebSocket ?s symb now c"
    and p: "socks (n_setupPriceWebSocket w symb now c) = setupPriceWebSocket_socks ?s symb now c (socks w)"
    by (simp_all add: n_setupPriceWebSocket_def)
  have up: "\<And>t b. wc (t\<lparr>pendingConnection := b\<rparr>) = wc t" by (simp add: wc_def)
  show ?thesis
  proof (cases "connectOperationInProgress ?s1")
    case True
    have "wc (setupPriceWebSocket ?s symb now c) = (None, connectionId ?s)"
      using True s1 up by (simp add: setup_unfold_replace[OF e] Let_def)
    moreover have "setupPriceWebSocket_socks ?s symb now c (socks w) = ?pool1"
      using True by (simp add: setup_socks_unfold_replace[OF e] Let_def)
    ultimately show ?thesis using sil inv_of_silent[of ?pool1 "connectionId ?s"] m p
      by (simp add: net_inv_def wc_def)
  next
    case False
    show ?thesis
    proof (cases c)
      case True
      have "wc (setupPriceWebSocket ?s symb now c) = (Some CONNECTING, connectionId ?s + 1)"
        using True False s1f by (simp add: setup_unfold_replace[OF e] Let_def wc_def)
      moreover have "setupPriceWebSocket_socks ?s symb now c (socks w) =
          put_sock (connectionId ?s + 1) \<lparr>s_state = CONNECTING, s_listening = True\<rparr> ?pool1"
        using True False s1f by (simp add: setup_socks_unfold_replace[OF e] Let_def)
      ultimately show ?thesis using inv_create[OF sil, of "connectionId ?s + 1"] m p
        by (simp add: net_inv_def wc_def)
    next
      case nc: False
      have "\<And>t. wc (handleReconnect t) = wc t" by simp
      then have "wc (setupPriceWebSocket ?s symb now c) = (None, connectionId ?s + 1)"
        using nc False s1f by (simp add: setup_unfold_replace[OF e] Let_def) (simp add: wc_def)
      moreover have "setupPriceWebSocket_socks ?s symb now c (socks w) = ?pool1"
        using nc False by (simp add: setup_socks_unfold_replace[OF e] Let_def)
      ultimately show ?thesis using sil inv_of_silent[of ?pool1 "connectionId ?s + 1"] m p
        by (simp add: net_inv_def wc_def)
    qed
  qed
qed

lemma net_inv_mgr_update:
  "net_inv w \<Longrightarrow> wc s' = wc (mgr w) \<Longrightarrow> net_inv (w\<lparr>mgr := s'\<rparr>)"
  by (simp add: net_inv_def wc_def)

lemma net_inv_n_connectionTimeout_callback:
  assumes inv: "net_inv w"
  shows "net_inv (n_connectionTimeout_callback w)"
proof -
  have keep: "(case ws (mgr w) of None \<Rightarrow> True | Some st \<Rightarrow> st = OPEN) \<Longrightarrow>
      wc (connectionTimeout_callback (mgr w)) = wc (mgr w)
      \<and> socks (n_connectionTimeout_callback w) = socks w"
    by (cases "ws (mgr w)")
       (simp_all add: wc_connectionTimeout_callback n_connectionTimeout_callback_def,
        simp_all add: wc_def)
  show ?thesis
  proof (cases "case ws (mgr w) of None \<Rightarrow> True | Some st \<Rightarrow> st = OPEN")
    case True
    show ?thesis
      by (rule net_inv_same[OF inv]) (use keep[OF True] in \<open>simp_all add: n_connectionTimeout_callback_def\<close>)
  next
    case False
    then obtain st where Some: "ws (mgr w) = Some st" and st: "st \<noteq> OPEN"
      by (cases "ws (mgr w)") simp_all
    have "conn_inv (Some st) (connectionId (mgr w)) (socks w)"
      using inv Some by (simp add: net_inv_def)
    then have "silent (on_sock (connectionId (mgr w)) sock_terminate (socks w))"
      by (rule silent_terminate)
    then have ci: "conn_inv None (connectionId (mgr w))
                 (on_sock (connectionId (mgr w)) sock_terminate (socks w))"
      by (rule inv_of_silent)
    have m: "wc (mgr (n_connectionTimeout_callback w)) = (None, connectionId (mgr w))"
      by (simp add: n_connectionTimeout_callback_def wc_connectionTimeout_callback Some st)
    have p: "socks (n_connectionTimeout_callback w) =
               on_sock (connectionId (mgr w)) sock_terminate (socks w)"
      by (simp add: n_connectionTimeout_callback_def Some st)
    show ?thesis using net_inv_I[OF m] ci p by simp
  qed
qed

lemma net_inv_n_reconnectTimeout_callback:
  assumes inv: "net_inv w"
  shows "net_inv (n_reconnectTimeout_callback w now c)"
proof -
  let ?s1 = "(mgr w)\<lparr>reconnectTimeout := None, connectOperationInProgress := False\<rparr>"
  let ?s2 = "(if now - lastCloseTime ?s1 > 30000
              then ?s1\<lparr>subscriptionState := (subscriptionState ?s1)\<lparr>isSubscribed := False\<rparr>\<rparr>
              else ?s1)"
  have a: "net_inv (w\<lparr>mgr := ?s1\<rparr>)" by (rule net_inv_mgr_update[OF inv]) (simp add: wc_def)
  have b: "net_inv (w\<lparr>mgr := ?s2\<rparr>)" by (rule net_inv_mgr_update[OF inv]) (simp add: wc_def)
  show ?thesis
  proof (cases "isConnected ?s1 now")
    case True
    then show ?thesis using a by (simp add: n_reconnectTimeout_callback_def Let_def)
  next
    case False
    have "net_inv (n_setupPriceWebSocket (w\<lparr>mgr := ?s2\<rparr>) (symbol ?s2) now c)"
      using b by (rule net_inv_n_setupPriceWebSocket)
    then show ?thesis using False by (simp add: n_reconnectTimeout_callback_def Let_def)
  qed
qed

lemma net_inv_n_pendingRetry_callback:
  assumes inv: "net_inv w"
  shows "net_inv (n_pendingRetry_callback w now c)"
proof (cases "pendingConnection (mgr w)")
  case True
  have "net_inv (w\<lparr>mgr := (mgr w)\<lparr>pendingConnection := False\<rparr>\<rparr>)"
    by (rule net_inv_mgr_update[OF inv]) (simp add: wc_def)
  then have "net_inv (n_setupPriceWebSocket (w\<lparr>mgr := (mgr w)\<lparr>pendingConnection := False\<rparr>\<rparr>)
                        (symbol (mgr w)) now c)"
    by (rule net_inv_n_setupPriceWebSocket)
  then show ?thesis using True by (simp add: n_pendingRetry_callback_def)
next
  case False
  then show ?thesis using inv by (simp add: n_pendingRetry_callback_def)
qed

lemma net_inv_n_resetTimer_callback:
  "net_inv w \<Longrightarrow> net_inv (n_resetTimer_callback w now c)"
  by (simp add: n_resetTimer_callback_def net_inv_n_setupPriceWebSocket)

lemma net_inv_n_onOpen:
  assumes inv: "net_inv w"
  shows "net_inv (n_onOpen w cid now)"
proof (cases "cid = connectionId (mgr w)")
  case True
  show ?thesis
    by (rule net_inv_same[OF inv]) (simp_all add: n_onOpen_def wc_onOpen_current True)
next
  case False
  have m: "wc (mgr (n_onOpen w cid now)) = (map_option terminate (ws (mgr w)), connectionId (mgr w))"
    by (simp add: n_onOpen_def wc_onOpen_stale False)
  show ?thesis
  proof (cases "ws (mgr w)")
    case None
    have "wc (mgr (n_onOpen w cid now)) = wc (mgr w)" using m None by (simp add: wc_def)
    moreover have "socks (n_onOpen w cid now) = socks w" by (simp add: n_onOpen_def None)
    ultimately show ?thesis using net_inv_same[OF inv] by blast
  next
    case (Some st)
    have "conn_inv (Some st) (connectionId (mgr w)) (socks w)"
      using inv Some by (simp add: net_inv_def)
    then have ci: "conn_inv (Some (terminate st)) (connectionId (mgr w))
                 (on_sock (connectionId (mgr w)) sock_terminate (socks w))"
      by (rule inv_terminate_keep)
    have m': "wc (mgr (n_onOpen w cid now)) = (Some (terminate st), connectionId (mgr w))"
      using m Some by simp
    have p: "socks (n_onOpen w cid now) = on_sock (connectionId (mgr w)) sock_terminate (socks w)"
      by (simp add: n_onOpen_def False Some)
    show ?thesis using net_inv_I[OF m'] ci p by simp
  qed
qed

lemma net_inv_socket_becomes:
  assumes inv: "net_inv w" and st: "st \<noteq> CONNECTING"
  shows "net_inv (socket_becomes i st w)"
proof -
  have ci: "conn_inv (ws (mgr w)) (connectionId (mgr w)) (socks w)"
    using inv by (simp add: net_inv_def)
  have a: "ws (mgr (socket_becomes i st w)) =
             (if i = connectionId (mgr w) \<and> ws (mgr w) \<noteq> None then Some st else ws (mgr w))"
    by (simp add: socket_becomes_def)
  have b: "connectionId (mgr (socket_becomes i st w)) = connectionId (mgr w)"
    by (simp add: socket_becomes_def)
  have c: "socks (socket_becomes i st w) = on_sock i (\<lambda>k. k\<lparr>s_state := st\<rparr>) (socks w)"
    by (simp add: socket_becomes_def)
  show ?thesis unfolding net_inv_def a b c using inv_becomes[OF ci st] .
qed

lemma net_inv_socket_step:
  assumes inv: "net_inv w" and step: "socket_step w now i ev = Some w'"
  shows "net_inv w'"
proof -
  obtain k where k: "sock_of (socks w) i = Some k"
    using step by (auto simp add: socket_step_def split: option.splits)
  show ?thesis
  proof (cases ev)
    case SOpen
    have w1: "net_inv (socket_becomes i OPEN w)" by (rule net_inv_socket_becomes[OF inv]) simp
    show ?thesis using step k SOpen w1 net_inv_n_onOpen[OF w1]
      by (auto simp add: socket_step_def Let_def split: if_splits)
  next
    case (SMessage m)
    have "net_inv (w\<lparr>mgr := fst (onMessage (mgr w) i m now)\<rparr>)"
      by (rule net_inv_mgr_update[OF inv]) simp
    then show ?thesis using step k SMessage inv
      by (auto simp add: socket_step_def split: if_splits)
  next
    case SError
    have "net_inv (w\<lparr>mgr := onError (mgr w) i\<rparr>)"
      by (rule net_inv_mgr_update[OF inv]) simp
    then show ?thesis using step k SError inv
      by (auto simp add: socket_step_def split: if_splits)
  next
    case SClosing
    have "net_inv (socket_becomes i CLOSING w)" by (rule net_inv_socket_becomes[OF inv]) simp
    then show ?thesis using step k SClosing
      by (auto simp add: socket_step_def split: if_splits)
  next
    case SClose
    have w1: "net_inv (socket_becomes i CLOSED w)" by (rule net_inv_socket_becomes[OF inv]) simp
    have "net_inv ((socket_becomes i CLOSED w)\<lparr>mgr := onClose (mgr (socket_becomes i CLOSED w)) i now\<rparr>)"
      by (rule net_inv_mgr_update[OF w1]) simp
    then show ?thesis using step k SClose w1
      by (auto simp add: socket_step_def Let_def split: if_splits)
  qed
qed

lemma net_inv_timer_step:
  assumes inv: "net_inv w" and step: "timer_step w now ev = Some w'"
  shows "net_inv w'"
proof (cases ev)
  case (ConnectionTimeout cid)
  have "net_inv (w\<lparr>mgr := (mgr w)\<lparr>connectionTimeouts := removeAll cid (connectionTimeouts (mgr w))\<rparr>\<rparr>)"
    by (rule net_inv_mgr_update[OF inv]) (simp add: wc_def)
  then show ?thesis using step ConnectionTimeout net_inv_n_connectionTimeout_callback
    by (auto simp add: timer_step_def split: if_splits)
next
  case (ReconnectTimer c)
  then show ?thesis using step net_inv_n_reconnectTimeout_callback[OF inv]
    by (auto simp add: timer_step_def split: if_splits)
next
  case (PendingRetry c)
  have "net_inv (w\<lparr>mgr := (mgr w)\<lparr>retryTimers := retryTimers (mgr w) - 1\<rparr>\<rparr>)"
    by (rule net_inv_mgr_update[OF inv]) (simp add: wc_def)
  then show ?thesis using step PendingRetry net_inv_n_pendingRetry_callback
    by (auto simp add: timer_step_def split: if_splits)
next
  case (ResetTimer c)
  have "net_inv (w\<lparr>mgr := (mgr w)\<lparr>resetTimers := resetTimers (mgr w) - 1\<rparr>\<rparr>)"
    by (rule net_inv_mgr_update[OF inv]) (simp add: wc_def)
  then show ?thesis using step ResetTimer net_inv_n_resetTimer_callback
    by (auto simp add: timer_step_def split: if_splits)
next
  case HeartbeatReset
  then show ?thesis using step net_inv_n_resetConnection[OF inv]
    by (auto simp add: timer_step_def split: if_splits)
qed

lemma net_inv_app_forceTerminate:
  assumes inv: "net_inv w"
  shows "net_inv (app_forceTerminate w)"
proof (cases "ws (mgr w)")
  case None
  show ?thesis
    by (rule net_inv_same[OF inv]) (simp_all add: app_forceTerminate_def None wc_def)
next
  case (Some st)
  have "conn_inv (Some st) (connectionId (mgr w)) (socks w)"
    using inv Some by (simp add: net_inv_def)
  then have "silent (on_sock (connectionId (mgr w)) sock_terminate (socks w))"
    by (rule silent_terminate)
  then have "conn_inv None (connectionId (mgr w))
               (on_sock (connectionId (mgr w)) sock_terminate (socks w))"
    by (rule inv_of_silent)
  then show ?thesis
    by (intro net_inv_I[of _ None "connectionId (mgr w)"])
       (simp_all add: app_forceTerminate_def Some wc_def)
qed

lemma net_inv_call_step:
  assumes inv: "net_inv w"
  shows "net_inv (call_step w now c)"
proof (cases c)
  case (Setup symb constructed)
  then show ?thesis using net_inv_n_setupPriceWebSocket[OF inv] by (simp add: call_step_def)
next
  case CloseWebSocket
  then show ?thesis using net_inv_n_closeWebSocket[OF inv] by (simp add: call_step_def)
next
  case CloseAllConnections
  then show ?thesis using net_inv_n_closeAllConnections[OF inv] by (simp add: call_step_def)
next
  case ResetConnectionState
  have "net_inv (w\<lparr>mgr := resetConnectionState (mgr w)\<rparr>)"
    by (rule net_inv_mgr_update[OF inv]) simp
  then show ?thesis using ResetConnectionState by (simp add: call_step_def)
next
  case (SubscribeTicker symb)
  have "net_inv (w\<lparr>mgr := subscribeTicker (mgr w) symb now\<rparr>)"
    by (rule net_inv_mgr_update[OF inv]) simp
  then show ?thesis using SubscribeTicker by (simp add: call_step_def)
next
  case ForceTerminate
  then show ?thesis using net_inv_app_forceTerminate[OF inv] by (simp add: call_step_def)
next
  case ClearTimers
  have "net_inv (w\<lparr>mgr := (mgr w)\<lparr>heartbeatInterval := False, reconnectTimeout := None\<rparr>\<rparr>)"
    by (rule net_inv_mgr_update[OF inv]) (simp add: wc_def)
  then show ?thesis using ClearTimers by (simp add: call_step_def app_clearTimers_def)
next
  case ClearLastPriceData
  have "net_inv (w\<lparr>mgr := (mgr w)\<lparr>lastPriceData := None\<rparr>\<rparr>)"
    by (rule net_inv_mgr_update[OF inv]) (simp add: wc_def)
  then show ?thesis using ClearLastPriceData by (simp add: call_step_def app_clearLastPriceData_def)
qed

lemma net_inv_step:
  assumes "net_inv w" and "net_step w e = Some w'"
  shows "net_inv w'"
proof (cases e)
  case (Pair now ev)
  show ?thesis
  proof (cases ev)
    case (Socket i sev)
    then show ?thesis using assms Pair net_inv_socket_step by simp
  next
    case (Timer tev)
    then show ?thesis using assms Pair net_inv_timer_step by simp
  next
    case (Call c)
    then show ?thesis using assms Pair net_inv_call_step by auto
  qed
qed

lemma net_inv_run:
  "net_inv w \<Longrightarrow> net_run w evs = Some w' \<Longrightarrow> net_inv w'"
proof (induction evs arbitrary: w)
  case Nil
  then show ?case by simp
next
  case (Cons e evs)
  from Cons.prems(2) obtain w1 where st: "net_step w e = Some w1" and run: "net_run w1 evs = Some w'"
    by (auto split: option.splits)
  from Cons.IH[OF net_inv_step[OF Cons.prems(1) st] run] show ?case .
qed

lemma net_inv_constructor: "net_inv (net_constructor now)"
  by (simp add: net_inv_def net_constructor_def constructor_def conn_inv_def sock_of_def)

text \<open>
  The manager's part of a step is the step of the previous section: the timer callbacks
  coincide, and so do the open and close events of a socket whose handlers are
  registered.
\<close>

lemma mgr_n_setupPriceWebSocket [simp]:
  "mgr (n_setupPriceWebSocket w symb now c) = setupPriceWebSocket (mgr w) symb now c"
  by (simp add: n_setupPriceWebSocket_def)

lemma mgr_n_reconnectTimeout_callback:
  "mgr (n_reconnectTimeout_callback w now c) = reconnectTimeout_callback (mgr w) now c"
  by (simp add: n_reconnectTimeout_callback_def reconnectTimeout_callback_def Let_def)

lemma mgr_n_pendingRetry_callback:
  "mgr (n_pendingRetry_callback w now c) = pendingRetry_callback (mgr w) now c"
  by (simp add: n_pendingRetry_callback_def pendingRetry_callback_def)

lemma mgr_n_resetTimer_callback:
  "mgr (n_resetTimer_callback w now c) = resetTimer_callback (mgr w) now c"
  by (simp add: n_resetTimer_callback_def resetTimer_callback_def)

lemma mgr_timer_step:
  "timer_step w now (ConnectionTimeout cid) = Some w' \<Longrightarrow>
     wsm_step (mgr w) (now, EvConnectionTimeout cid) = Some (mgr w')"
  "timer_step w now (ReconnectTimer c) = Some w' \<Longrightarrow>
     wsm_step (mgr w) (now, EvReconnectTimer c) = Some (mgr w')"
  "timer_step w now (PendingRetry c) = Some w' \<Longrightarrow>
     wsm_step (mgr w) (now, EvPendingRetry c) = Some (mgr w')"
  "timer_step w now (ResetTimer c) = Some w' \<Longrightarrow>
     wsm_step (mgr w) (now, EvResetTimer c) = Some (mgr w')"
  by (auto simp add: timer_step_def n_connectionTimeout_callback_def
        mgr_n_reconnectTimeout_callback mgr_n_pendingRetry_callback mgr_n_resetTimer_callback
        split: if_splits)

lemma ws_update_same: "ws s = v \<Longrightarrow> s\<lparr>ws := v\<rparr> = s"
  by (cases s) simp

lemma mgr_socket_step_open:
  assumes inv: "net_inv w" and k: "sock_of (socks w) i = Some k" and l: "s_listening k"
    and step: "socket_step w now i SOpen = Some w'"
  shows "wsm_step (mgr w) (now, EvOpen i) = Some (mgr w')"
proof -
  have c: "s_state k = CONNECTING" using step k by (simp add: socket_step_def split: if_splits)
  then have cur: "i = connectionId (mgr w)" "ws (mgr w) = Some CONNECTING"
    using inv k l unfolding net_inv_def conn_inv_def by blast+
  have "w' = n_onOpen (socket_becomes i OPEN w) i now"
    using step k l c by (simp add: socket_step_def Let_def)
  then have "mgr w' = onOpen ((mgr w)\<lparr>ws := Some OPEN\<rparr>) i now"
    using cur by (simp add: n_onOpen_def socket_becomes_def)
  then show ?thesis using cur by simp
qed

lemma mgr_socket_step_close:
  assumes k: "sock_of (socks w) i = Some k" and l: "s_listening k"
    and step: "socket_step w now i SClose = Some w'"
  shows "wsm_step (mgr w) (now, EvClose i) = Some (mgr w')"
proof -
  let ?w1 = "socket_becomes i CLOSED w"
  have w': "mgr w' = onClose (mgr ?w1) i now"
    using step k l by (auto simp add: socket_step_def Let_def split: if_splits)
  show ?thesis
  proof (cases "i = connectionId (mgr w)")
    case False
    then have "mgr ?w1 = mgr w" by (simp add: socket_becomes_def)
    then show ?thesis using w' False by simp
  next
    case True
    have "mgr ?w1 = (mgr w)\<lparr>ws := map_option (\<lambda>st. CLOSED) (ws (mgr w))\<rparr>"
    proof (cases "ws (mgr w)")
      case None
      then show ?thesis using True by (simp add: socket_becomes_def ws_update_same)
    next
      case (Some st)
      then show ?thesis using True by (simp add: socket_becomes_def)
    qed
    then show ?thesis using w' True by simp
  qed
qed

lemma socket_becomes_other:
  assumes "i \<noteq> connectionId (mgr w)"
  shows "mgr (socket_becomes i st w) = mgr w"
    and "sock_of (socks (socket_becomes i st w)) (connectionId (mgr w))
           = sock_of (socks w) (connectionId (mgr w))"
  using assms by (simp_all add: socket_becomes_def)

text \<open>
  Claim C9. In every state the manager can reach from its constructor (by socket
  events, timers and calls of its methods, in any order), a callback of a socket whose
  captured connection id differs from the current connection id leaves every field of
  the manager as it is, counters included, and leaves the socket of the current
  connection as it is. For message, close and error the handler returns at once
  (\<open>stale_message_dropped\<close>, \<open>stale_close_dropped\<close>, \<open>stale_error_dropped\<close>). The
  open handler has a branch for a superseded connection that would terminate \<open>this.ws\<close>
  (\<open>stale_open_effect\<close>), but it never runs: the connection id advances only after the
  previous socket was terminated or its handlers were removed, so a superseded socket has
  no open event left to deliver.
\<close>

theorem stale_callbacks_dropped:
  assumes run: "net_run (net_constructor t0) evs = Some w"
    and step: "net_step w (now, Socket i ev) = Some w'"
    and stale: "i \<noteq> connectionId (mgr w)"
  shows "mgr w' = mgr w
       \<and> sock_of (socks w') (connectionId (mgr w)) = sock_of (socks w) (connectionId (mgr w))"
proof -
  have inv: "net_inv w" using net_inv_run[OF net_inv_constructor run] .
  obtain k where k: "sock_of (socks w) i = Some k"
    using step by (auto simp add: socket_step_def split: option.splits)
  have quiet: "s_state k = CONNECTING \<Longrightarrow> \<not> s_listening k"
    using inv k stale unfolding net_inv_def conn_inv_def by blast
  show ?thesis
  proof (cases ev)
    case SOpen
    then have "w' = socket_becomes i OPEN w"
      using step k quiet by (auto simp add: socket_step_def Let_def split: if_splits)
    then show ?thesis using socket_becomes_other[OF stale] by simp
  next
    case (SMessage m)
    then show ?thesis using step k stale stale_message_dropped[OF stale]
      by (auto simp add: socket_step_def split: if_splits)
  next
    case SError
    then show ?thesis using step k
      by (auto simp add: socket_step_def onError_def split: if_splits)
  next
    case SClosing
    then have "w' = socket_becomes i CLOSING w"
      using step k by (auto simp add: socket_step_def split: if_splits)
    then show ?thesis using socket_becomes_other[OF stale] by simp
  next
    case SClose
    let ?w1 = "socket_becomes i CLOSED w"
    have m1: "mgr ?w1 = mgr w" using socket_becomes_other(1)[OF stale] .
    have "onClose (mgr ?w1) i now = mgr w" using m1 stale by (simp add: stale_close_dropped)
    then have "mgr w' = mgr w \<and> socks w' = socks ?w1"
      using step k SClose m1 by (auto simp add: socket_step_def Let_def split: if_splits)
    then show ?thesis using socket_becomes_other(2)[OF stale] by simp
  qed
qed

lemma timed_out_run: "net_run (net_constructor 0) timed_out_trace = Some net_second"
  by code_simp

lemma stale_close_step:
  "net_step net_second (17000, Socket 1 SClose) = Some net_second_closed"
  by code_simp

lemma stale_id: "(1::nat) \<noteq> connectionId (mgr net_second)"
  by code_simp

theorem stale_callbacks_dropped_witness:
  "net_run (net_constructor 0) timed_out_trace = Some net_second
   \<and> net_step net_second (17000, Socket 1 SClose) = Some net_second_closed
   \<and> connectionId (mgr net_second) = 2
   \<and> sock_of (socks net_second) 1 = Some \<lparr>s_state = CLOSING, s_listening = True\<rparr>
   \<and> mgr net_second_closed = mgr net_second
   \<and> sock_of (socks net_second_closed) 2 = sock_of (socks net_second) 2"
proof -
  have c: "connectionId (mgr net_second) = 2"
    and k: "sock_of (socks net_second) 1 = Some \<lparr>s_state = CLOSING, s_listening = True\<rparr>"
    by code_simp+
  from stale_callbacks_dropped[OF timed_out_run stale_close_step stale_id]
  show ?thesis using timed_out_run stale_close_step c k by simp
qed

lemma stale_open_not_enabled:
  "net_step net_second (17000, Socket 1 SOpen) = None"
  by code_simp

section \<open>PriceFeed: \<open>PriceMonitor\<close> behind the connection manager\<close>

text \<open>
  Source: \<open>src/app.js\<close>, class \<open>PriceMonitor\<close>: \<open>handleWebSocketPriceUpdate\<close>
  (lines 1897-1980), \<open>handlePriceUpdate\<close> (1988-2024), \<open>clearAllTimeouts\<close>,
  \<open>setupEventCleanup\<close> and the constructor.

  The manager calls \<open>onPriceUpdate(priceInfo, now)\<close> with the price information and the
  \<open>Date\<close> of the arrival, so only the object form of the arguments is modelled. The
  callback registered by the subscribers is \<open>this.onPriceUpdate\<close> of the monitor; the
  model returns the argument of that call, if the call is made. The clock is read when
  the message arrives (\<open>new Date()\<close> in the message handler), inside
  \<open>handleWebSocketPriceUpdate\<close> and inside \<open>handlePriceUpdate\<close>; the three readings
  are inputs.
\<close>

record price_monitor =
  currentPrice :: real
  lastPrice :: real
  lastUpdateTime :: "int option"
  priceSource :: "string option"
  restartTime :: "int option"
  processedPriceEvents :: "(string \<times> int) list"
  maxProcessedEvents :: nat
  wsConnectTimeout :: bool
  initialDataTimeout :: bool
  pm_symbol :: string

record delivered_price =
  dp_symbol :: string
  dp_price :: real
  dp_source :: "string option"
  dp_time :: int
  dp_prev :: real
  dp_change :: real

definition priceMonitor_constructor :: price_monitor where
  "priceMonitor_constructor =
     \<lparr>currentPrice = 0, lastPrice = 0, lastUpdateTime = None, priceSource = None,
      restartTime = None, processedPriceEvents = [], maxProcessedEvents = 1000,
      wsConnectTimeout = False, initialDataTimeout = False, pm_symbol = []\<rparr>"

definition js_time_truthy :: "int option \<Rightarrow> bool" where
  "js_time_truthy t = (case t of None \<Rightarrow> False | Some x \<Rightarrow> x \<noteq> 0)"

definition js_time_or0 :: "int option \<Rightarrow> int" where
  "js_time_or0 t = (case t of None \<Rightarrow> 0 | Some x \<Rightarrow> x)"

definition isPriceValid :: "real \<Rightarrow> bool" where
  "isPriceValid p = (p > 0)"

definition handlePriceUpdate ::
  "price_monitor \<Rightarrow> real \<Rightarrow> string \<Rightarrow> string option \<Rightarrow> int \<Rightarrow> delivered_price option" where
  "handlePriceUpdate pm p symb source now =
     (if \<not> isPriceValid p then None
      else
        (let minUpdateInterval = 100
         in if js_time_truthy (lastUpdateTime pm)
               \<and> now - js_time_or0 (lastUpdateTime pm) < minUpdateInterval
            then None
            else Some \<lparr>dp_symbol = js_str_or symb (pm_symbol pm), dp_price = p,
                       dp_source = source, dp_time = now, dp_prev = lastPrice pm,
                       dp_change = (if lastPrice pm > 0 then (p - lastPrice pm) / lastPrice pm
                                    else 0)\<rparr>))"

text \<open>
  \<open>handleWebSocketPriceUpdate\<close> in its steps: the event dedup (lines 1921-1935), the
  throttle of an unchanged price (lines 1945-1958), the update of the price fields (lines
  1961-1973).
\<close>

definition eventId :: "ticker_data \<Rightarrow> string \<Rightarrow> string" where
  "eventId rawData symb =
     js_str_or (d_e rawData) ''ticker'' @ ''_'' @ js_str_or (d_s rawData) symb
       @ ''_'' @ show_int (d_E rawData)"

definition event_already_processed :: "price_monitor \<Rightarrow> ticker_data \<Rightarrow> string \<Rightarrow> bool" where
  "event_already_processed pm rawData symb =
     (d_E rawData \<noteq> 0 \<and> eventId rawData symb \<in> fst ` set (processedPriceEvents pm))"

definition mark_event_processed :: "price_monitor \<Rightarrow> ticker_data \<Rightarrow> string \<Rightarrow> int \<Rightarrow> price_monitor" where
  "mark_event_processed pm rawData symb now =
     (if d_E rawData \<noteq> 0
      then pm\<lparr>processedPriceEvents := processedPriceEvents pm @ [(eventId rawData symb, now)]\<rparr>
      else pm)"

definition clearAllTimeouts :: "price_monitor \<Rightarrow> price_monitor" where
  "clearAllTimeouts pm = pm\<lparr>wsConnectTimeout := False, initialDataTimeout := False\<rparr>"

definition same_price_throttled :: "price_monitor \<Rightarrow> real \<Rightarrow> int \<Rightarrow> bool" where
  "same_price_throttled pm p now =
     (if currentPrice pm > 0 \<and> p = currentPrice pm
      then
        (let timeSinceLastUpdate = now - js_time_or0 (lastUpdateTime pm);
             isPostRestartPeriod = (js_time_truthy (restartTime pm)
                                    \<and> now - js_time_or0 (restartTime pm) < 5000)
         in if isPostRestartPeriod then timeSinceLastUpdate < 1000
            else timeSinceLastUpdate < 500)
      else False)"

definition record_price :: "price_monitor \<Rightarrow> real \<Rightarrow> int \<Rightarrow> int \<Rightarrow> price_monitor" where
  "record_price pm p timeStamp now =
     (let isFirstUpdate = (currentPrice pm = 0 \<or> currentPrice pm \<le> 0);
          pm1 = (if isFirstUpdate then pm\<lparr>restartTime := Some now\<rparr> else pm)
      in pm1\<lparr>lastPrice := currentPrice pm1, currentPrice := p,
              lastUpdateTime := Some timeStamp, priceSource := Some ''WebSocket''\<rparr>)"

definition handleWebSocketPriceUpdate ::
  "price_monitor \<Rightarrow> price_info \<Rightarrow> int \<Rightarrow> int \<Rightarrow> price_monitor \<times> delivered_price option" where
  "handleWebSocketPriceUpdate pm priceInfo now callbackNow =
     (case pi_price priceInfo of
        None \<Rightarrow> (pm, None)
      | Some p \<Rightarrow>
          if pi_symbol priceInfo = [] \<or> p = 0 \<or> p \<le> 0 then (pm, None)
          else if event_already_processed pm (pi_raw priceInfo) (pi_symbol priceInfo)
          then (pm, None)
          else
            (let pm1 = clearAllTimeouts
                         (mark_event_processed pm (pi_raw priceInfo) (pi_symbol priceInfo) now)
             in if same_price_throttled pm1 p now then (pm1, None)
                else
                  (let pm2 = record_price pm1 p (pi_time priceInfo) now
                   in (pm2, handlePriceUpdate pm2 p (pi_symbol priceInfo) (priceSource pm2)
                              callbackNow))))"

definition eventCleanup_callback :: "price_monitor \<Rightarrow> int \<Rightarrow> price_monitor" where
  "eventCleanup_callback pm now =
     (if processedPriceEvents pm = [] then pm
      else
        (let kept = filter (\<lambda>(key, timestamp). \<not> (now - timestamp > 15 * 60 * 1000))
                      (processedPriceEvents pm);
             kept' = (if length kept > maxProcessedEvents pm
                      then (let entriesToRemove = length kept - maxProcessedEvents pm;
                                entries = take entriesToRemove (sort_key snd kept)
                            in filter (\<lambda>(key, timestamp). key \<notin> fst ` set entries) kept)
                      else kept)
         in pm\<lparr>processedPriceEvents := kept'\<rparr>))"

text \<open>
  The feed as a whole: an inbound message goes through the message handler of the manager
  and, if it yields a price, through the monitor. The two dedup caches are swept by their
  interval callbacks. A run returns the messages that reached the subscribers, each with
  what was delivered.
\<close>

record arrival =
  a_connectionId :: nat
  a_message :: ws_message
  a_received :: int
  a_now :: int
  a_callbackNow :: int

type_synonym feed = "ws_manager \<times> price_monitor"

definition feed_arrival :: "feed \<Rightarrow> arrival \<Rightarrow> feed \<times> delivered_price option" where
  "feed_arrival f a =
     (case onMessage (fst f) (a_connectionId a) (a_message a) (a_received a) of
        (m', None) \<Rightarrow> ((m', snd f), None)
      | (m', Some priceInfo) \<Rightarrow>
          (case handleWebSocketPriceUpdate (snd f) priceInfo (a_now a) (a_callbackNow a) of
             (pm', out) \<Rightarrow> ((m', pm'), out)))"

datatype feed_event = Arrival arrival | ManagerCleanup int | MonitorCleanup int

fun feed_step :: "feed \<Rightarrow> feed_event \<Rightarrow> feed \<times> (ws_message \<times> delivered_price) list" where
  "feed_step f (Arrival a) =
     (case feed_arrival f a of
        (f', None) \<Rightarrow> (f', [])
      | (f', Some d) \<Rightarrow> (f', [(a_message a, d)]))"
| "feed_step f (ManagerCleanup now) = ((messageCleanup_callback (fst f) now, snd f), [])"
| "feed_step f (MonitorCleanup now) = ((fst f, eventCleanup_callback (snd f) now), [])"

fun feed_run :: "feed \<Rightarrow> feed_event list \<Rightarrow> feed \<times> (ws_message \<times> delivered_price) list" where
  "feed_run f [] = (f, [])"
| "feed_run f (e # es) =
     (case feed_step f e of (f', ds) \<Rightarrow> (case feed_run f' es of (f'', ds') \<Rightarrow> (f'', ds @ ds')))"


text \<open>
  A connected manager, a new monitor, and a ticker message for the subscribed symbol.
\<close>

definition wsm_open :: ws_manager where
  "wsm_open = the (wsm_run wsm_connecting [(1500, EvOpen 1)])"

definition ticker_50000 :: ws_message where
  "ticker_50000 =
     \<lparr>msg_data = Some \<lparr>d_e = ''ticker'', d_s = ''BTC_USDC_PERP'', d_E = 1700000000000000,
                        d_symbol = [], d_price = Absent, d_c = Number 50000,
                        d_lastPrice = Absent\<rparr>,
      msg_symbol = [], msg_error = False, msg_subscription_ack = False\<rparr>"

definition arrival_at :: "int \<Rightarrow> int \<Rightarrow> arrival" where
  "arrival_at t lag =
     \<lparr>a_connectionId = 1, a_message = ticker_50000, a_received = t, a_now = t,
      a_callbackNow = t + lag\<rparr>"

definition fresh_feed :: feed where
  "fresh_feed = (wsm_open, priceMonitor_constructor)"

text \<open>The keys of the dedup cache, and the key of an event identity.\<close>

definition seen :: "ws_manager \<Rightarrow> string set" where
  "seen s = fst ` set (processedMessages s)"





lemma seen_confirm_subscription [simp]: "seen (confirm_subscription s m t) = seen s"
  by (simp add: confirm_subscription_def seen_def)

lemma seen_lastResponseTime [simp]: "seen (s\<lparr>lastResponseTime := t\<rparr>) = seen s"
  by (simp add: seen_def)

lemma seen_lastPriceData [simp]: "seen (s\<lparr>lastPriceData := d\<rparr>) = seen s"
  by (simp add: seen_def)

















lemma duplicate_dropped_run:
  "map (dp_price \<circ> snd)
     (snd (feed_run fresh_feed (map Arrival [arrival_at 2000 100, arrival_at 3000 100])))
   = [50000]"
  by code_simp



lemma handlePriceUpdate_too_soon:
  "js_time_truthy (lastUpdateTime pm) \<Longrightarrow> now - js_time_or0 (lastUpdateTime pm) < 100 \<Longrightarrow>
     handlePriceUpdate pm p symb source now = None"
  by (simp add: handlePriceUpdate_def)

lemma record_price_lastUpdateTime [simp]:
  "lastUpdateTime (record_price pm p timeStamp now) = Some timeStamp"
  by (simp add: record_price_def Let_def)

lemma websocket_update_suppressed:
  assumes "pi_time priceInfo \<noteq> 0" and "callbackNow - pi_time priceInfo < 100"
  shows "snd (handleWebSocketPriceUpdate pm priceInfo now callbackNow) = None"
proof -
  have "\<And>pm' p. handlePriceUpdate (record_price pm' p (pi_time priceInfo) now) p
          (pi_symbol priceInfo) (priceSource (record_price pm' p (pi_time priceInfo) now)) callbackNow = None"
    by (rule handlePriceUpdate_too_soon)
       (simp_all add: assms js_time_truthy_def js_time_or0_def)
  then show ?thesis
    by (simp add: handleWebSocketPriceUpdate_def Let_def split: option.split)
qed

lemma unchanged_price_throttled:
  assumes "pi_price priceInfo = Some p" "0 < currentPrice pm" "p = currentPrice pm"
    and "now - js_time_or0 (lastUpdateTime pm) < 500"
  shows "snd (handleWebSocketPriceUpdate pm priceInfo now callbackNow) = None"
proof -
  have "\<And>pm1. currentPrice pm1 = currentPrice pm \<Longrightarrow> lastUpdateTime pm1 = lastUpdateTime pm \<Longrightarrow>
           same_price_throttled pm1 p now"
    using assms by (simp add: same_price_throttled_def Let_def)
  then have "same_price_throttled
                (clearAllTimeouts (mark_event_processed pm (pi_raw priceInfo) (pi_symbol priceInfo) now))
                p now"
    by (simp add: clearAllTimeouts_def mark_event_processed_def)
  then show ?thesis using assms(1)
    by (simp add: handleWebSocketPriceUpdate_def Let_def)
qed

text \<open>
  Claim C6. An unchanged price inside the throttle interval is suppressed
  (\<open>unchanged_price_throttled\<close>). The first update after a cold start is meant to pass,
  and the same-price throttle does let it through, but \<open>handleWebSocketPriceUpdate\<close>
  stores the arrival time in \<open>lastUpdateTime\<close> just before it calls
  \<open>handlePriceUpdate\<close>, whose minimum-interval test then compares the clock with that
  very time: an update handled within 100 ms of its arrival is never passed on
  (\<open>websocket_update_suppressed\<close>). On a new monitor the first ticker is recorded as the
  current price and is not delivered, whether the callback runs 0 or 99 ms after the
  arrival.
\<close>

theorem first_update_not_delivered:
  "currentPrice (snd fresh_feed) = 0 \<and> lastUpdateTime (snd fresh_feed) = None
   \<and> snd (feed_arrival fresh_feed (arrival_at 2000 0)) = None
   \<and> currentPrice (snd (fst (feed_arrival fresh_feed (arrival_at 2000 0)))) = 50000
   \<and> snd (feed_arrival fresh_feed (arrival_at 2000 99)) = None"
  by code_simp

end
